theory Spec2Isabelle
  imports Complex_Main "HOL-Library.Word" "HOL-Library.Monad_Syntax" "HOL-Library.Log_Nat"
begin

unbundle bit_operations_syntax

section \<open>Doom.NET renderer: device bring-up, frame rendering and teardown\<close>

text \<open>
  A shallow embedding of \<^verbatim>\<open>src/Renderer/src/Renderer.cpp\<close>: the member functions
  \<^verbatim>\<open>Renderer::InitDevice\<close>, \<^verbatim>\<open>Renderer::Render\<close> and \<^verbatim>\<open>Renderer::CleanupDevice\<close>.

  The code is glue around the Win32, DXGI and Direct3D 11 interfaces. The embedding keeps
  the program's own control flow and data flow and makes the platform explicit:
  \<^item> the object's members are a record, passed in and returned updated;
  \<^item> every platform call is an entry of a record of functions (\<open>platform\<close>) that says
    what the call returns and what it writes to its out-parameters; the program is
    verified for every such platform;
  \<^item> every platform call the program makes is appended, with its arguments, to a trace
    of events, so that "is called", "is called once" and "is called before" are
    statements about a list;
  \<^item> a call through a null interface pointer is a crash of the process: the model
    returns \<open>None\<close> there.
\<close>

subsection \<open>Platform scalars and constants\<close>

type_synonym HRESULT = "32 word"
type_synonym UINT = "32 word"
type_synonym LONG = "32 word"
type_synonym BOOL = "32 word"

text \<open>An interface pointer: \<open>None\<close> is \<^verbatim>\<open>nullptr\<close>, \<open>Some h\<close> points to the object \<open>h\<close>.\<close>

type_synonym handle = nat
type_synonym ptr = "handle option"

text \<open>A window handle is an opaque value that the program only passes on; 0 is \<^verbatim>\<open>NULL\<close>.\<close>

type_synonym HWND = nat

text \<open>
  \<^verbatim>\<open>FLOAT\<close> is an IEEE single; a finite one is modelled by the rational it denotes.
\<close>

type_synonym FLOAT = rat

definition S_OK :: HRESULT where
  "S_OK = 0"

definition E_FAIL :: HRESULT where
  "E_FAIL = 0x80004005"

definition E_INVALIDARG :: HRESULT where
  "E_INVALIDARG = 0x80070057"

text \<open>The macros of \<^verbatim>\<open>winerror.h\<close>: an \<^verbatim>\<open>HRESULT\<close> is a signed 32-bit value.\<close>

definition SUCCEEDED :: "HRESULT \<Rightarrow> bool" where
  "SUCCEEDED hr = (0 \<le> sint hr)"

definition FAILED :: "HRESULT \<Rightarrow> bool" where
  "FAILED hr = (sint hr < 0)"

definition TRUE :: BOOL where
  "TRUE = 1"

definition D3D11_CREATE_DEVICE_DEBUG :: UINT where
  "D3D11_CREATE_DEVICE_DEBUG = 0x2"

definition D3D11_SDK_VERSION :: UINT where
  "D3D11_SDK_VERSION = 7"

definition DXGI_FORMAT_R8G8B8A8_UNORM :: UINT where
  "DXGI_FORMAT_R8G8B8A8_UNORM = 28"

definition DXGI_USAGE_RENDER_TARGET_OUTPUT :: UINT where
  "DXGI_USAGE_RENDER_TARGET_OUTPUT = 0x20"

definition DXGI_MWA_NO_ALT_ENTER :: UINT where
  "DXGI_MWA_NO_ALT_ENTER = 2"

datatype D3D_DRIVER_TYPE =
    D3D_DRIVER_TYPE_UNKNOWN
  | D3D_DRIVER_TYPE_HARDWARE
  | D3D_DRIVER_TYPE_REFERENCE
  | D3D_DRIVER_TYPE_NULL
  | D3D_DRIVER_TYPE_SOFTWARE
  | D3D_DRIVER_TYPE_WARP

datatype D3D_FEATURE_LEVEL =
    D3D_FEATURE_LEVEL_9_1
  | D3D_FEATURE_LEVEL_9_2
  | D3D_FEATURE_LEVEL_9_3
  | D3D_FEATURE_LEVEL_10_0
  | D3D_FEATURE_LEVEL_10_1
  | D3D_FEATURE_LEVEL_11_0
  | D3D_FEATURE_LEVEL_11_1

text \<open>The interface identifiers the program passes to \<^verbatim>\<open>__uuidof\<close>.\<close>

datatype IID =
    IID_IDXGIDevice
  | IID_IDXGIFactory1
  | IID_IDXGIFactory2
  | IID_ID3D11Device1
  | IID_ID3D11DeviceContext1
  | IID_IDXGISwapChain
  | IID_ID3D11Texture2D

subsection \<open>Platform structures\<close>

record RECT =
  left :: LONG
  top :: LONG
  right :: LONG
  bottom :: LONG

record DXGI_SAMPLE_DESC =
  Count :: UINT
  Quality :: UINT

record DXGI_RATIONAL =
  Numerator :: UINT
  Denominator :: UINT

text \<open>
  Record fields share one name space, so the fields of the two swap-chain descriptions,
  of the mode description and of the viewport carry the prefixes \<open>sd1_\<close>, \<open>sd_\<close>,
  \<open>md_\<close> and \<open>vp_\<close> before the names of the platform headers.
\<close>

record DXGI_SWAP_CHAIN_DESC1 =
  sd1_Width :: UINT
  sd1_Height :: UINT
  sd1_Format :: UINT
  sd1_Stereo :: BOOL
  sd1_SampleDesc :: DXGI_SAMPLE_DESC
  sd1_BufferUsage :: UINT
  sd1_BufferCount :: UINT
  sd1_Scaling :: UINT
  sd1_SwapEffect :: UINT
  sd1_AlphaMode :: UINT
  sd1_Flags :: UINT

record DXGI_MODE_DESC =
  md_Width :: UINT
  md_Height :: UINT
  md_RefreshRate :: DXGI_RATIONAL
  md_Format :: UINT
  md_ScanlineOrdering :: UINT
  md_Scaling :: UINT

record DXGI_SWAP_CHAIN_DESC =
  sd_BufferDesc :: DXGI_MODE_DESC
  sd_SampleDesc :: DXGI_SAMPLE_DESC
  sd_BufferUsage :: UINT
  sd_BufferCount :: UINT
  sd_OutputWindow :: HWND
  sd_Windowed :: BOOL
  sd_SwapEffect :: UINT
  sd_Flags :: UINT

record D3D11_VIEWPORT =
  vp_TopLeftX :: FLOAT
  vp_TopLeftY :: FLOAT
  vp_Width :: FLOAT
  vp_Height :: FLOAT
  vp_MinDepth :: FLOAT
  vp_MaxDepth :: FLOAT

text \<open>The value of \<^verbatim>\<open>DXGI_SWAP_CHAIN_DESC1 sd = {}\<close>: every field zero.\<close>

definition zero_DXGI_SWAP_CHAIN_DESC1 :: DXGI_SWAP_CHAIN_DESC1 where
  "zero_DXGI_SWAP_CHAIN_DESC1 =
     \<lparr>sd1_Width = 0, sd1_Height = 0, sd1_Format = 0, sd1_Stereo = 0,
      sd1_SampleDesc = \<lparr>Count = 0, Quality = 0\<rparr>, sd1_BufferUsage = 0,
      sd1_BufferCount = 0, sd1_Scaling = 0, sd1_SwapEffect = 0, sd1_AlphaMode = 0,
      sd1_Flags = 0\<rparr>"

text \<open>The value of \<^verbatim>\<open>DXGI_SWAP_CHAIN_DESC sd = {}\<close>: every field zero.\<close>

definition zero_DXGI_SWAP_CHAIN_DESC :: DXGI_SWAP_CHAIN_DESC where
  "zero_DXGI_SWAP_CHAIN_DESC =
     \<lparr>sd_BufferDesc =
        \<lparr>md_Width = 0, md_Height = 0,
         md_RefreshRate = \<lparr>Numerator = 0, Denominator = 0\<rparr>,
         md_Format = 0, md_ScanlineOrdering = 0, md_Scaling = 0\<rparr>,
      sd_SampleDesc = \<lparr>Count = 0, Quality = 0\<rparr>, sd_BufferUsage = 0,
      sd_BufferCount = 0, sd_OutputWindow = 0, sd_Windowed = 0, sd_SwapEffect = 0,
      sd_Flags = 0\<rparr>"

text \<open>
  \<^verbatim>\<open>DirectX::Colors::MidnightBlue\<close> of the platform header \<^verbatim>\<open>DirectXColors.h\<close>, whose
  initialiser is \<^verbatim>\<open>{ 0.098039225f, 0.098039225f, 0.439215720f, 1.000000000f }\<close> (red,
  green, blue, alpha): the four components are the singles these literals denote,
  \<open>6579301 / 2\<^sup>2\<^sup>6\<close>, the same, \<open>7368817 / 2\<^sup>2\<^sup>4\<close> and 1.
\<close>

datatype XMVECTORF32 = XMVECTORF32 FLOAT FLOAT FLOAT FLOAT

definition MidnightBlue :: XMVECTORF32 where
  "MidnightBlue =
     XMVECTORF32 (6579301 / 2 ^ 26) (6579301 / 2 ^ 26) (7368817 / 2 ^ 24) 1"

text \<open>
  The conversion of a \<^verbatim>\<open>UINT\<close> to \<^verbatim>\<open>FLOAT\<close> that the assignments
  \<^verbatim>\<open>vp.Width = width\<close> and \<^verbatim>\<open>vp.Height = height\<close> make: a single has a significand of
  24 bits, so a value of more bits is rounded to the nearest multiple of the weight of
  its 24th bit, ties to the even one.
\<close>

definition UINT_to_FLOAT :: "UINT \<Rightarrow> FLOAT" where
  "UINT_to_FLOAT w =
     (let n = unat w;
          s = floorlog 2 n - 24;
          q = n div 2 ^ s;
          rm = n mod 2 ^ s;
          q' = (if 2 ^ s < 2 * rm \<or> (2 * rm = 2 ^ s \<and> odd q) then q + 1 else q)
      in of_nat (q' * 2 ^ s))"

subsection \<open>The trace of platform calls\<close>

text \<open>
  One event per platform call of the three functions, with the arguments the program
  passes. \<open>Ev_Release h\<close> is \<^verbatim>\<open>h->Release()\<close>: it gives up one reference to \<open>h\<close>.
\<close>

datatype event =
    Ev_GetClientRect HWND
  | Ev_D3D11CreateDevice D3D_DRIVER_TYPE UINT "D3D_FEATURE_LEVEL list" UINT
  | Ev_QueryInterface handle IID
  | Ev_GetAdapter handle
  | Ev_GetParent handle IID
  | Ev_Release handle
  | Ev_CreateSwapChainForHwnd handle ptr HWND DXGI_SWAP_CHAIN_DESC1
  | Ev_CreateSwapChain handle ptr DXGI_SWAP_CHAIN_DESC
  | Ev_MakeWindowAssociation handle HWND UINT
  | Ev_GetBuffer handle UINT IID
  | Ev_CreateRenderTargetView handle ptr
  | Ev_OMSetRenderTargets handle "ptr list"
  | Ev_RSSetViewports handle "D3D11_VIEWPORT list"
  | Ev_ClearState handle
  | Ev_ClearRenderTargetView handle ptr XMVECTORF32
  | Ev_Present handle UINT UINT

subsection \<open>The platform\<close>

text \<open>
  What each fallible platform call answers: its \<^verbatim>\<open>HRESULT\<close> and the values it stores
  through its out-parameters. Calls whose result the program ignores and that have no
  out-parameter (\<^verbatim>\<open>Release\<close>, \<^verbatim>\<open>MakeWindowAssociation\<close>, \<^verbatim>\<open>ClearState\<close>,
  \<^verbatim>\<open>OMSetRenderTargets\<close>, \<^verbatim>\<open>RSSetViewports\<close>, \<^verbatim>\<open>ClearRenderTargetView\<close>) only
  appear in the trace. \<^verbatim>\<open>Present\<close> is kept, to show that its result is dropped.
\<close>

record platform =
  GetClientRect :: "HWND \<Rightarrow> RECT"
  D3D11CreateDevice ::
    "D3D_DRIVER_TYPE \<Rightarrow> UINT \<Rightarrow> D3D_FEATURE_LEVEL list \<Rightarrow> UINT
       \<Rightarrow> HRESULT \<times> ptr \<times> D3D_FEATURE_LEVEL \<times> ptr"
  QueryInterface :: "handle \<Rightarrow> IID \<Rightarrow> HRESULT \<times> ptr"
  GetAdapter :: "handle \<Rightarrow> HRESULT \<times> ptr"
  GetParent :: "handle \<Rightarrow> IID \<Rightarrow> HRESULT \<times> ptr"
  CreateSwapChainForHwnd ::
    "handle \<Rightarrow> ptr \<Rightarrow> HWND \<Rightarrow> DXGI_SWAP_CHAIN_DESC1 \<Rightarrow> HRESULT \<times> ptr"
  CreateSwapChain :: "handle \<Rightarrow> ptr \<Rightarrow> DXGI_SWAP_CHAIN_DESC \<Rightarrow> HRESULT \<times> ptr"
  GetBuffer :: "handle \<Rightarrow> UINT \<Rightarrow> IID \<Rightarrow> HRESULT \<times> ptr"
  CreateRenderTargetView :: "handle \<Rightarrow> ptr \<Rightarrow> HRESULT \<times> ptr"
  Present :: "handle \<Rightarrow> UINT \<Rightarrow> UINT \<Rightarrow> HRESULT"

subsection \<open>The renderer object\<close>

text \<open>
  Modelled from the spec: the class declaration \<^verbatim>\<open>Renderer.h\<close> is not among the
  sources. The members are those that \<^verbatim>\<open>Renderer.cpp\<close> reads and writes; the spec's
  resource bundle is the device, the immediate context, the swap chain and the render
  target view, with the extended variants beside the base handles.
\<close>

record Renderer =
  m_hInstance :: handle
  m_hWnd :: HWND
  m_driverType :: D3D_DRIVER_TYPE
  m_featureLevel :: D3D_FEATURE_LEVEL
  m_pDevice :: ptr
  m_pDevice1 :: ptr
  m_pImmediateContext :: ptr
  m_pImmediateContext1 :: ptr
  m_pSwapChain :: ptr
  m_pSwapChain1 :: ptr
  m_pRenderTargetView :: ptr

subsection \<open>\<^verbatim>\<open>Renderer::Render\<close> and \<^verbatim>\<open>Renderer::CleanupDevice\<close>\<close>

text \<open>
  \<^verbatim>\<open>Render\<close> calls through \<^verbatim>\<open>m_pImmediateContext\<close> and \<^verbatim>\<open>m_pSwapChain\<close> without a
  check, so a null one crashes. The function is \<^verbatim>\<open>void\<close> and assigns no member: the
  model returns the calls it made. The \<^verbatim>\<open>HRESULT\<close> of \<^verbatim>\<open>Present\<close> is not stored.
\<close>

definition Render :: "platform \<Rightarrow> Renderer \<Rightarrow> event list option" where
  "Render p r =
     do {
       ctx \<leftarrow> m_pImmediateContext r;
       let t1 = [Ev_ClearRenderTargetView ctx (m_pRenderTargetView r) MidnightBlue];
       sc \<leftarrow> m_pSwapChain r;
       let _ = Present p sc 0 0;
       Some (t1 @ [Ev_Present sc 0 0])
     }"

text \<open>\<^verbatim>\<open>if (q) { q->Release(); }\<close>\<close>

definition release_if :: "ptr \<Rightarrow> event list" where
  "release_if q = (case q of None \<Rightarrow> [] | Some h \<Rightarrow> [Ev_Release h])"

text \<open>
  \<^verbatim>\<open>CleanupDevice\<close> checks each member before the call through it and assigns no member:
  the object it returns is the object it was given.
\<close>

definition CleanupDevice :: "Renderer \<Rightarrow> Renderer \<times> event list" where
  "CleanupDevice r =
     (r,
      (case m_pImmediateContext r of None \<Rightarrow> [] | Some ctx \<Rightarrow> [Ev_ClearState ctx])
      @ release_if (m_pRenderTargetView r)
      @ release_if (m_pSwapChain r)
      @ release_if (m_pSwapChain1 r)
      @ release_if (m_pImmediateContext r)
      @ release_if (m_pImmediateContext1 r)
      @ release_if (m_pDevice r)
      @ release_if (m_pDevice1 r))"

subsection \<open>\<^verbatim>\<open>Renderer::InitDevice\<close>\<close>

text \<open>The two local arrays, in the order of their initialisers.\<close>

definition driverTypes :: "D3D_DRIVER_TYPE list" where
  "driverTypes = [D3D_DRIVER_TYPE_HARDWARE, D3D_DRIVER_TYPE_WARP, D3D_DRIVER_TYPE_REFERENCE]"

definition featureLevels :: "D3D_FEATURE_LEVEL list" where
  "featureLevels =
     [D3D_FEATURE_LEVEL_11_1, D3D_FEATURE_LEVEL_11_0, D3D_FEATURE_LEVEL_10_1,
      D3D_FEATURE_LEVEL_10_0]"

definition numFeatureLevels :: nat where
  "numFeatureLevels = length featureLevels"

text \<open>\<^verbatim>\<open>createDeviceFlags\<close>: 0, with the debug bit in a build that defines \<^verbatim>\<open>_DEBUG\<close>.\<close>

definition createDeviceFlags :: "bool \<Rightarrow> UINT" where
  "createDeviceFlags debug_build = (if debug_build then 0 OR D3D11_CREATE_DEVICE_DEBUG else 0)"

text \<open>
  The body of the \<^verbatim>\<open>for\<close> loop up to its \<^verbatim>\<open>break\<close> test (lines 99 to 109). The
  feature levels reach the platform as a pointer and a count: the callee sees
  \<open>take count (drop offset featureLevels)\<close>. Each call stores through
  \<^verbatim>\<open>&m_pDevice\<close>, \<^verbatim>\<open>&m_featureLevel\<close> and \<^verbatim>\<open>&m_pImmediateContext\<close>.
\<close>

definition create_device_attempt ::
    "platform \<Rightarrow> UINT \<Rightarrow> D3D_DRIVER_TYPE \<Rightarrow> Renderer \<Rightarrow> HRESULT \<times> Renderer \<times> event list" where
  "create_device_attempt p flags d r =
     (let r = r\<lparr>m_driverType := d\<rparr>;
          lv = take numFeatureLevels featureLevels;
          (hr, dev, fl, ctx) = D3D11CreateDevice p (m_driverType r) flags lv D3D11_SDK_VERSION;
          t = [Ev_D3D11CreateDevice (m_driverType r) flags lv D3D11_SDK_VERSION];
          r = r\<lparr>m_pDevice := dev, m_featureLevel := fl, m_pImmediateContext := ctx\<rparr>
      in if hr = E_INVALIDARG then
           (let lv' = take (numFeatureLevels - 1) (drop 1 featureLevels);
                (hr, dev, fl, ctx) =
                   D3D11CreateDevice p (m_driverType r) flags lv' D3D11_SDK_VERSION;
                t = t @ [Ev_D3D11CreateDevice (m_driverType r) flags lv' D3D11_SDK_VERSION];
                r = r\<lparr>m_pDevice := dev, m_featureLevel := fl, m_pImmediateContext := ctx\<rparr>
            in (hr, r, t))
         else (hr, r, t))"

text \<open>
  The loop over the driver types still to try: \<open>hr\<close> is the value of the local before
  the iteration, returned when no driver type is left.
\<close>

fun create_device_loop ::
    "platform \<Rightarrow> UINT \<Rightarrow> D3D_DRIVER_TYPE list \<Rightarrow> HRESULT \<Rightarrow> Renderer
       \<Rightarrow> HRESULT \<times> Renderer \<times> event list" where
  "create_device_loop p flags [] hr r = (hr, r, [])"
| "create_device_loop p flags (d # ds) hr r =
     (let (hr, r, t) = create_device_attempt p flags d r
      in if SUCCEEDED hr then (hr, r, t)
         else (let (hr, r, t') = create_device_loop p flags ds hr r in (hr, r, t @ t')))"

text \<open>
  Lines 123 to 141: from the device to the DXGI device, its adapter and the adapter's
  parent factory. The result carries the local \<^verbatim>\<open>dxgiFactory\<close>, null unless
  \<^verbatim>\<open>GetParent\<close> was reached.
\<close>

definition obtain_factory :: "platform \<Rightarrow> Renderer \<Rightarrow> (HRESULT \<times> ptr \<times> event list) option" where
  "obtain_factory p r =
     do {
       dev \<leftarrow> m_pDevice r;
       let (hr, dxgiDevice) = QueryInterface p dev IID_IDXGIDevice;
       let t = [Ev_QueryInterface dev IID_IDXGIDevice];
       if SUCCEEDED hr then
         do {
           dd \<leftarrow> dxgiDevice;
           let (hr, adapter) = GetAdapter p dd;
           let t = t @ [Ev_GetAdapter dd];
           if SUCCEEDED hr then
             do {
               ad \<leftarrow> adapter;
               let (hr, dxgiFactory) = GetParent p ad IID_IDXGIFactory1;
               let t = t @ [Ev_GetParent ad IID_IDXGIFactory1, Ev_Release ad];
               Some (hr, dxgiFactory, t @ [Ev_Release dd])
             }
           else Some (hr, None, t @ [Ev_Release dd])
         }
       else Some (hr, None, t)
     }"

text \<open>
  Lines 155 to 161, the first statements of the branch taken when \<^verbatim>\<open>dxgiFactory2\<close> is
  not null. The result of the query for \<^verbatim>\<open>ID3D11Device1\<close> only decides whether the
  context is queried; the result of that query is cast to \<^verbatim>\<open>void\<close>. Neither result
  is in what is returned: the caller's \<open>hr\<close> is next assigned by the swap-chain
  creation.
\<close>

definition upgrade_interfaces :: "platform \<Rightarrow> Renderer \<Rightarrow> (Renderer \<times> event list) option" where
  "upgrade_interfaces p r =
     do {
       dev \<leftarrow> m_pDevice r;
       let (hr, dev1) = QueryInterface p dev IID_ID3D11Device1;
       let r = r\<lparr>m_pDevice1 := dev1\<rparr>;
       let t = [Ev_QueryInterface dev IID_ID3D11Device1];
       if SUCCEEDED hr then
         do {
           ctx \<leftarrow> m_pImmediateContext r;
           let (_, ctx1) = QueryInterface p ctx IID_ID3D11DeviceContext1;
           Some (r\<lparr>m_pImmediateContext1 := ctx1\<rparr>,
                 t @ [Ev_QueryInterface ctx IID_ID3D11DeviceContext1])
         }
       else Some (r, t)
     }"

text \<open>Lines 163 to 170: the local \<^verbatim>\<open>DXGI_SWAP_CHAIN_DESC1 sd\<close> after its assignments.\<close>

definition swap_chain_desc1 :: "UINT \<Rightarrow> UINT \<Rightarrow> DXGI_SWAP_CHAIN_DESC1" where
  "swap_chain_desc1 width height =
     zero_DXGI_SWAP_CHAIN_DESC1
       \<lparr>sd1_Width := width,
        sd1_Height := height,
        sd1_Format := DXGI_FORMAT_R8G8B8A8_UNORM,
        sd1_SampleDesc := \<lparr>Count = 1, Quality = 0\<rparr>,
        sd1_BufferUsage := DXGI_USAGE_RENDER_TARGET_OUTPUT,
        sd1_BufferCount := 1\<rparr>"

text \<open>
  Lines 154 to 179, the branch taken when \<^verbatim>\<open>dxgiFactory2\<close> is not null: the upgrade,
  the creation for the window, the query for the \<^verbatim>\<open>IDXGISwapChain\<close> interface of the
  new swap chain when the creation succeeded, the release of \<^verbatim>\<open>dxgiFactory2\<close>.
\<close>

definition swap_chain_for_hwnd ::
    "platform \<Rightarrow> Renderer \<Rightarrow> UINT \<Rightarrow> UINT \<Rightarrow> handle
       \<Rightarrow> (HRESULT \<times> Renderer \<times> event list) option" where
  "swap_chain_for_hwnd p r width height f2 =
     do {
       (r, t) \<leftarrow> upgrade_interfaces p r;
       let sd = swap_chain_desc1 width height;
       let (hr, sc1) = CreateSwapChainForHwnd p f2 (m_pDevice r) (m_hWnd r) sd;
       let t = t @ [Ev_CreateSwapChainForHwnd f2 (m_pDevice r) (m_hWnd r) sd];
       let r = r\<lparr>m_pSwapChain1 := sc1\<rparr>;
       if SUCCEEDED hr then
         do {
           s1 \<leftarrow> m_pSwapChain1 r;
           let (hr, sc) = QueryInterface p s1 IID_IDXGISwapChain;
           let t = t @ [Ev_QueryInterface s1 IID_IDXGISwapChain];
           Some (hr, r\<lparr>m_pSwapChain := sc\<rparr>, t @ [Ev_Release f2])
         }
       else Some (hr, r, t @ [Ev_Release f2])
     }"

text \<open>Lines 184 to 195: the local \<^verbatim>\<open>DXGI_SWAP_CHAIN_DESC sd\<close> after its assignments.\<close>

definition swap_chain_desc :: "UINT \<Rightarrow> UINT \<Rightarrow> HWND \<Rightarrow> DXGI_SWAP_CHAIN_DESC" where
  "swap_chain_desc width height hWnd =
     zero_DXGI_SWAP_CHAIN_DESC
       \<lparr>sd_BufferCount := 1,
        sd_BufferDesc :=
          (sd_BufferDesc zero_DXGI_SWAP_CHAIN_DESC)
            \<lparr>md_Width := width,
             md_Height := height,
             md_Format := DXGI_FORMAT_R8G8B8A8_UNORM,
             md_RefreshRate := \<lparr>Numerator = 60, Denominator = 1\<rparr>\<rparr>,
        sd_BufferUsage := DXGI_USAGE_RENDER_TARGET_OUTPUT,
        sd_OutputWindow := hWnd,
        sd_SampleDesc := \<lparr>Count = 1, Quality = 0\<rparr>,
        sd_Windowed := TRUE\<rparr>"

text \<open>Lines 183 to 197, the branch taken when \<^verbatim>\<open>dxgiFactory2\<close> is null.\<close>

definition swap_chain_legacy ::
    "platform \<Rightarrow> Renderer \<Rightarrow> UINT \<Rightarrow> UINT \<Rightarrow> handle \<Rightarrow> HRESULT \<times> Renderer \<times> event list" where
  "swap_chain_legacy p r width height f =
     (let sd = swap_chain_desc width height (m_hWnd r);
          (hr, sc) = CreateSwapChain p f (m_pDevice r) sd
      in (hr, r\<lparr>m_pSwapChain := sc\<rparr>, [Ev_CreateSwapChain f (m_pDevice r) sd]))"

text \<open>
  Lines 149 to 202: the query for \<^verbatim>\<open>IDXGIFactory2\<close>, whose \<^verbatim>\<open>HRESULT\<close> is overwritten
  on both branches, the branch on the pointer it stored, then the window association and
  the release of the factory, both before the caller looks at \<open>hr\<close>.
\<close>

definition create_swap_chain ::
    "platform \<Rightarrow> Renderer \<Rightarrow> UINT \<Rightarrow> UINT \<Rightarrow> ptr
       \<Rightarrow> (HRESULT \<times> Renderer \<times> event list) option" where
  "create_swap_chain p r width height dxgiFactory =
     do {
       f \<leftarrow> dxgiFactory;
       let (hr, dxgiFactory2) = QueryInterface p f IID_IDXGIFactory2;
       let t = [Ev_QueryInterface f IID_IDXGIFactory2];
       (hr, r, t') \<leftarrow>
         (case dxgiFactory2 of
            Some f2 \<Rightarrow> swap_chain_for_hwnd p r width height f2
          | None \<Rightarrow> Some (swap_chain_legacy p r width height f));
       Some (hr, r,
             t @ t' @ [Ev_MakeWindowAssociation f (m_hWnd r) DXGI_MWA_NO_ALT_ENTER,
                       Ev_Release f])
     }"

text \<open>
  Lines 209 to 238: the back buffer, the render target view over it, the binding of
  the view and of the viewport.
\<close>

definition create_render_target ::
    "platform \<Rightarrow> Renderer \<Rightarrow> UINT \<Rightarrow> UINT \<Rightarrow> (HRESULT \<times> Renderer \<times> event list) option" where
  "create_render_target p r width height =
     do {
       sc \<leftarrow> m_pSwapChain r;
       let (hr, pBackBuffer) = GetBuffer p sc 0 IID_ID3D11Texture2D;
       let t = [Ev_GetBuffer sc 0 IID_ID3D11Texture2D];
       if FAILED hr then Some (hr, r, t)
       else
         do {
           dev \<leftarrow> m_pDevice r;
           let (hr, rtv) = CreateRenderTargetView p dev pBackBuffer;
           let t = t @ [Ev_CreateRenderTargetView dev pBackBuffer];
           let r = r\<lparr>m_pRenderTargetView := rtv\<rparr>;
           bb \<leftarrow> pBackBuffer;
           let t = t @ [Ev_Release bb];
           if FAILED hr then Some (hr, r, t)
           else
             do {
               ctx \<leftarrow> m_pImmediateContext r;
               let t = t @ [Ev_OMSetRenderTargets ctx [m_pRenderTargetView r]];
               let vp = \<lparr>vp_TopLeftX = 0, vp_TopLeftY = 0,
                         vp_Width = UINT_to_FLOAT width, vp_Height = UINT_to_FLOAT height,
                         vp_MinDepth = 0, vp_MaxDepth = 1\<rparr>;
               Some (S_OK, r, t @ [Ev_RSSetViewports ctx [vp]])
             }
         }
     }"

text \<open>
  The whole function. \<open>debug_build\<close> says whether \<^verbatim>\<open>_DEBUG\<close> is defined. The result is
  the returned \<^verbatim>\<open>HRESULT\<close>, the object after the call and the platform calls made, or
  \<open>None\<close> when the call crashed on a null pointer.
\<close>

definition InitDevice ::
    "bool \<Rightarrow> platform \<Rightarrow> Renderer \<Rightarrow> (HRESULT \<times> Renderer \<times> event list) option" where
  "InitDevice debug_build p r =
     (let rc = GetClientRect p (m_hWnd r);
          t0 = [Ev_GetClientRect (m_hWnd r)];
          width = right rc - left rc;
          height = bottom rc - top rc;
          (hr, r, t1) = create_device_loop p (createDeviceFlags debug_build) driverTypes S_OK r
      in if FAILED hr then Some (hr, r, t0 @ t1)
         else
           do {
             (hr, dxgiFactory, t2) \<leftarrow> obtain_factory p r;
             if FAILED hr then Some (hr, r, t0 @ t1 @ t2)
             else
               do {
                 (hr, r, t3) \<leftarrow> create_swap_chain p r width height dxgiFactory;
                 if FAILED hr then Some (hr, r, t0 @ t1 @ t2 @ t3)
                 else
                   do {
                     (hr, r, t4) \<leftarrow> create_render_target p r width height;
                     Some (hr, r, t0 @ t1 @ t2 @ t3 @ t4)
                   }
               }
           })"

subsection \<open>Vocabulary of the properties, concrete objects and hosts\<close>

text \<open>The seven interface pointers of the object, in the order \<^verbatim>\<open>CleanupDevice\<close> visits them.\<close>

definition member_handles :: "Renderer \<Rightarrow> ptr list" where
  "member_handles r =
     [m_pRenderTargetView r, m_pSwapChain r, m_pSwapChain1 r, m_pImmediateContext r,
      m_pImmediateContext1 r, m_pDevice r, m_pDevice1 r]"

fun is_teardown_call :: "event \<Rightarrow> bool" where
  "is_teardown_call (Ev_ClearState h) = True"
| "is_teardown_call (Ev_Release h) = True"
| "is_teardown_call _ = False"

text \<open>
  A bundle as a successful bring-up on a Direct3D 11.0 host leaves it: device 1,
  immediate context 2, swap chain 3, render target view 4, no extended interface.
\<close>

definition bundle_full :: Renderer where
  "bundle_full =
     \<lparr>m_hInstance = 0, m_hWnd = 7, m_driverType = D3D_DRIVER_TYPE_HARDWARE,
      m_featureLevel = D3D_FEATURE_LEVEL_11_0, m_pDevice = Some 1, m_pDevice1 = None,
      m_pImmediateContext = Some 2, m_pImmediateContext1 = None, m_pSwapChain = Some 3,
      m_pSwapChain1 = None, m_pRenderTargetView = Some 4\<rparr>"

fun is_D3D11CreateDevice :: "event \<Rightarrow> bool" where
  "is_D3D11CreateDevice (Ev_D3D11CreateDevice d f lv s) = True"
| "is_D3D11CreateDevice _ = False"

fun is_GetClientRect :: "event \<Rightarrow> bool" where
  "is_GetClientRect (Ev_GetClientRect h) = True"
| "is_GetClientRect _ = False"

fun is_swap_chain_creation :: "event \<Rightarrow> bool" where
  "is_swap_chain_creation (Ev_CreateSwapChainForHwnd f d h sd) = True"
| "is_swap_chain_creation (Ev_CreateSwapChain f d sd) = True"
| "is_swap_chain_creation _ = False"

fun is_RSSetViewports :: "event \<Rightarrow> bool" where
  "is_RSSetViewports (Ev_RSSetViewports c vps) = True"
| "is_RSSetViewports _ = False"

definition client_width :: "platform \<Rightarrow> HWND \<Rightarrow> UINT" where
  "client_width p hWnd = right (GetClientRect p hWnd) - left (GetClientRect p hWnd)"

definition client_height :: "platform \<Rightarrow> HWND \<Rightarrow> UINT" where
  "client_height p hWnd = bottom (GetClientRect p hWnd) - top (GetClientRect p hWnd)"

definition attempt_result ::
    "platform \<Rightarrow> UINT \<Rightarrow> D3D_DRIVER_TYPE \<Rightarrow> HRESULT \<times> ptr \<times> D3D_FEATURE_LEVEL \<times> ptr" where
  "attempt_result p flags d =
     (let a = D3D11CreateDevice p d flags featureLevels D3D11_SDK_VERSION
      in if fst a = E_INVALIDARG
         then D3D11CreateDevice p d flags (tl featureLevels) D3D11_SDK_VERSION
         else a)"

fun device_call_driver_types :: "event list \<Rightarrow> D3D_DRIVER_TYPE list" where
  "device_call_driver_types [] = []"
| "device_call_driver_types (Ev_D3D11CreateDevice d f lv s # es) =
     d # device_call_driver_types es"
| "device_call_driver_types (e # es) = device_call_driver_types es"

definition attempt_hr :: "platform \<Rightarrow> UINT \<Rightarrow> D3D_DRIVER_TYPE \<Rightarrow> HRESULT" where
  "attempt_hr p flags d = fst (attempt_result p flags d)"

definition device_from :: "platform \<Rightarrow> UINT \<Rightarrow> D3D_DRIVER_TYPE \<Rightarrow> Renderer \<Rightarrow> bool" where
  "device_from p flags d r =
     (m_driverType r = d \<and>
      m_pDevice r = fst (snd (attempt_result p flags d)) \<and>
      m_featureLevel r = fst (snd (snd (attempt_result p flags d))) \<and>
      m_pImmediateContext r = snd (snd (snd (attempt_result p flags d))))"

definition E_NOINTERFACE :: HRESULT where
  "E_NOINTERFACE = 0x80004002"

definition fresh_renderer :: Renderer where
  "fresh_renderer =
     \<lparr>m_hInstance = 0, m_hWnd = 7, m_driverType = D3D_DRIVER_TYPE_NULL,
      m_featureLevel = D3D_FEATURE_LEVEL_11_0, m_pDevice = None, m_pDevice1 = None,
      m_pImmediateContext = None, m_pImmediateContext1 = None, m_pSwapChain = None,
      m_pSwapChain1 = None, m_pRenderTargetView = None\<rparr>"

definition host_d3d11_1 :: platform where
  "host_d3d11_1 =
     \<lparr>GetClientRect = (\<lambda>hWnd. \<lparr>left = 0, top = 0, right = 1280, bottom = 720\<rparr>),
      D3D11CreateDevice = (\<lambda>d flags lv sdk.
         if d = D3D_DRIVER_TYPE_HARDWARE then (S_OK, Some 1, hd lv, Some 2)
         else (E_FAIL, None, D3D_FEATURE_LEVEL_9_1, None)),
      QueryInterface = (\<lambda>h iid.
         case iid of
           IID_IDXGIDevice \<Rightarrow> (S_OK, Some 10)
         | IID_IDXGIFactory2 \<Rightarrow> (S_OK, Some 13)
         | IID_ID3D11Device1 \<Rightarrow> (S_OK, Some 21)
         | IID_ID3D11DeviceContext1 \<Rightarrow> (S_OK, Some 22)
         | IID_IDXGISwapChain \<Rightarrow> (S_OK, Some 3)
         | _ \<Rightarrow> (E_NOINTERFACE, None)),
      GetAdapter = (\<lambda>h. (S_OK, Some 11)),
      GetParent = (\<lambda>h iid. (S_OK, Some 12)),
      CreateSwapChainForHwnd = (\<lambda>f dev hWnd sd. (S_OK, Some 31)),
      CreateSwapChain = (\<lambda>f dev sd. (S_OK, Some 3)),
      GetBuffer = (\<lambda>sc i iid. (S_OK, Some 40)),
      CreateRenderTargetView = (\<lambda>dev bb. (S_OK, Some 4)),
      Present = (\<lambda>sc sync flags. S_OK)\<rparr>"

definition host_d3d11_0 :: platform where
  "host_d3d11_0 =
     host_d3d11_1
       \<lparr>D3D11CreateDevice := (\<lambda>d flags lv sdk.
          if D3D_FEATURE_LEVEL_11_1 \<in> set lv
          then (E_INVALIDARG, None, D3D_FEATURE_LEVEL_9_1, None)
          else if d = D3D_DRIVER_TYPE_HARDWARE then (S_OK, Some 1, hd lv, Some 2)
          else (E_FAIL, None, D3D_FEATURE_LEVEL_9_1, None)),
        QueryInterface := (\<lambda>h iid.
          case iid of
            IID_IDXGIDevice \<Rightarrow> (S_OK, Some 10)
          | _ \<Rightarrow> (E_NOINTERFACE, None))\<rparr>"

definition host_warp_only :: platform where
  "host_warp_only =
     host_d3d11_1
       \<lparr>D3D11CreateDevice := (\<lambda>d flags lv sdk.
          if d = D3D_DRIVER_TYPE_WARP then (S_OK, Some 1, hd lv, Some 2)
          else (E_FAIL, None, D3D_FEATURE_LEVEL_9_1, None))\<rparr>"

definition host_no_device :: platform where
  "host_no_device =
     host_d3d11_1
       \<lparr>D3D11CreateDevice := (\<lambda>d flags lv sdk. (E_FAIL, None, D3D_FEATURE_LEVEL_9_1, None))\<rparr>"

definition bundle_d3d11_1 :: Renderer where
  "bundle_d3d11_1 =
     \<lparr>m_hInstance = 0, m_hWnd = 7, m_driverType = D3D_DRIVER_TYPE_HARDWARE,
      m_featureLevel = D3D_FEATURE_LEVEL_11_1, m_pDevice = Some 1, m_pDevice1 = Some 21,
      m_pImmediateContext = Some 2, m_pImmediateContext1 = Some 22, m_pSwapChain = Some 3,
      m_pSwapChain1 = Some 31, m_pRenderTargetView = Some 4\<rparr>"

definition viewport_1280_720 :: D3D11_VIEWPORT where
  "viewport_1280_720 =
     \<lparr>vp_TopLeftX = 0, vp_TopLeftY = 0, vp_Width = 1280, vp_Height = 720,
      vp_MinDepth = 0, vp_MaxDepth = 1\<rparr>"

definition trace_d3d11_1 :: "event list" where
  "trace_d3d11_1 =
     [Ev_GetClientRect 7,
      Ev_D3D11CreateDevice D3D_DRIVER_TYPE_HARDWARE 0 featureLevels D3D11_SDK_VERSION,
      Ev_QueryInterface 1 IID_IDXGIDevice, Ev_GetAdapter 10,
      Ev_GetParent 11 IID_IDXGIFactory1, Ev_Release 11, Ev_Release 10,
      Ev_QueryInterface 12 IID_IDXGIFactory2,
      Ev_QueryInterface 1 IID_ID3D11Device1,
      Ev_QueryInterface 2 IID_ID3D11DeviceContext1,
      Ev_CreateSwapChainForHwnd 13 (Some 1) 7 (swap_chain_desc1 1280 720),
      Ev_QueryInterface 31 IID_IDXGISwapChain, Ev_Release 13,
      Ev_MakeWindowAssociation 12 7 DXGI_MWA_NO_ALT_ENTER, Ev_Release 12,
      Ev_GetBuffer 3 0 IID_ID3D11Texture2D,
      Ev_CreateRenderTargetView 1 (Some 40), Ev_Release 40,
      Ev_OMSetRenderTargets 2 [Some 4],
      Ev_RSSetViewports 2 [viewport_1280_720]]"

definition trace_d3d11_0 :: "event list" where
  "trace_d3d11_0 =
     [Ev_GetClientRect 7,
      Ev_D3D11CreateDevice D3D_DRIVER_TYPE_HARDWARE 0 featureLevels D3D11_SDK_VERSION,
      Ev_D3D11CreateDevice D3D_DRIVER_TYPE_HARDWARE 0 (tl featureLevels) D3D11_SDK_VERSION,
      Ev_QueryInterface 1 IID_IDXGIDevice, Ev_GetAdapter 10,
      Ev_GetParent 11 IID_IDXGIFactory1, Ev_Release 11, Ev_Release 10,
      Ev_QueryInterface 12 IID_IDXGIFactory2,
      Ev_CreateSwapChain 12 (Some 1) (swap_chain_desc 1280 720 7),
      Ev_MakeWindowAssociation 12 7 DXGI_MWA_NO_ALT_ENTER, Ev_Release 12,
      Ev_GetBuffer 3 0 IID_ID3D11Texture2D,
      Ev_CreateRenderTargetView 1 (Some 40), Ev_Release 40,
      Ev_OMSetRenderTargets 2 [Some 4],
      Ev_RSSetViewports 2 [viewport_1280_720]]"

fun swap_chain_size :: "event \<Rightarrow> (UINT \<times> UINT) list" where
  "swap_chain_size (Ev_CreateSwapChainForHwnd f d h sd) = [(sd1_Width sd, sd1_Height sd)]"
| "swap_chain_size (Ev_CreateSwapChain f d sd)
     = [(md_Width (sd_BufferDesc sd), md_Height (sd_BufferDesc sd))]"
| "swap_chain_size _ = []"

fun viewport_size :: "event \<Rightarrow> (FLOAT \<times> FLOAT) list" where
  "viewport_size (Ev_RSSetViewports c vps) = map (\<lambda>vp. (vp_Width vp, vp_Height vp)) vps"
| "viewport_size _ = []"

definition host_no_swap_chain :: platform where
  "host_no_swap_chain =
     host_d3d11_1\<lparr>CreateSwapChainForHwnd := (\<lambda>f dev hWnd sd. (E_FAIL, None))\<rparr>"

definition bundle_no_swap_chain :: Renderer where
  "bundle_no_swap_chain =
     \<lparr>m_hInstance = 0, m_hWnd = 7, m_driverType = D3D_DRIVER_TYPE_HARDWARE,
      m_featureLevel = D3D_FEATURE_LEVEL_11_1, m_pDevice = Some 1, m_pDevice1 = Some 21,
      m_pImmediateContext = Some 2, m_pImmediateContext1 = Some 22, m_pSwapChain = None,
      m_pSwapChain1 = None, m_pRenderTargetView = None\<rparr>"

definition trace_no_swap_chain :: "event list" where
  "trace_no_swap_chain =
     [Ev_GetClientRect 7,
      Ev_D3D11CreateDevice D3D_DRIVER_TYPE_HARDWARE 0 featureLevels D3D11_SDK_VERSION,
      Ev_QueryInterface 1 IID_IDXGIDevice, Ev_GetAdapter 10,
      Ev_GetParent 11 IID_IDXGIFactory1, Ev_Release 11, Ev_Release 10,
      Ev_QueryInterface 12 IID_IDXGIFactory2,
      Ev_QueryInterface 1 IID_ID3D11Device1,
      Ev_QueryInterface 2 IID_ID3D11DeviceContext1,
      Ev_CreateSwapChainForHwnd 13 (Some 1) 7 (swap_chain_desc1 1280 720),
      Ev_Release 13,
      Ev_MakeWindowAssociation 12 7 DXGI_MWA_NO_ALT_ENTER, Ev_Release 12]"

definition host_wide :: platform where
  "host_wide =
     host_d3d11_1
       \<lparr>GetClientRect := (\<lambda>hWnd. \<lparr>left = 0, top = 0, right = 16777217, bottom = 720\<rparr>)\<rparr>"

definition trace_wide :: "event list" where
  "trace_wide =
     [Ev_GetClientRect 7,
      Ev_D3D11CreateDevice D3D_DRIVER_TYPE_HARDWARE 0 featureLevels D3D11_SDK_VERSION,
      Ev_QueryInterface 1 IID_IDXGIDevice, Ev_GetAdapter 10,
      Ev_GetParent 11 IID_IDXGIFactory1, Ev_Release 11, Ev_Release 10,
      Ev_QueryInterface 12 IID_IDXGIFactory2,
      Ev_QueryInterface 1 IID_ID3D11Device1,
      Ev_QueryInterface 2 IID_ID3D11DeviceContext1,
      Ev_CreateSwapChainForHwnd 13 (Some 1) 7 (swap_chain_desc1 16777217 720),
      Ev_QueryInterface 31 IID_IDXGISwapChain, Ev_Release 13,
      Ev_MakeWindowAssociation 12 7 DXGI_MWA_NO_ALT_ENTER, Ev_Release 12,
      Ev_GetBuffer 3 0 IID_ID3D11Texture2D,
      Ev_CreateRenderTargetView 1 (Some 40), Ev_Release 40,
      Ev_OMSetRenderTargets 2 [Some 4],
      Ev_RSSetViewports 2
        [\<lparr>vp_TopLeftX = 0, vp_TopLeftY = 0, vp_Width = 16777216, vp_Height = 720,
          vp_MinDepth = 0, vp_MaxDepth = 1\<rparr>]]"

definition host_null_view :: platform where
  "host_null_view = host_d3d11_1\<lparr>CreateRenderTargetView := (\<lambda>dev bb. (S_OK, None))\<rparr>"

definition bundle_null_view :: Renderer where
  "bundle_null_view =
     \<lparr>m_hInstance = 0, m_hWnd = 7, m_driverType = D3D_DRIVER_TYPE_HARDWARE,
      m_featureLevel = D3D_FEATURE_LEVEL_11_1, m_pDevice = Some 1, m_pDevice1 = Some 21,
      m_pImmediateContext = Some 2, m_pImmediateContext1 = Some 22, m_pSwapChain = Some 3,
      m_pSwapChain1 = Some 31, m_pRenderTargetView = None\<rparr>"

definition trace_null_view :: "event list" where
  "trace_null_view =
     [Ev_GetClientRect 7,
      Ev_D3D11CreateDevice D3D_DRIVER_TYPE_HARDWARE 0 featureLevels D3D11_SDK_VERSION,
      Ev_QueryInterface 1 IID_IDXGIDevice, Ev_GetAdapter 10,
      Ev_GetParent 11 IID_IDXGIFactory1, Ev_Release 11, Ev_Release 10,
      Ev_QueryInterface 12 IID_IDXGIFactory2,
      Ev_QueryInterface 1 IID_ID3D11Device1,
      Ev_QueryInterface 2 IID_ID3D11DeviceContext1,
      Ev_CreateSwapChainForHwnd 13 (Some 1) 7 (swap_chain_desc1 1280 720),
      Ev_QueryInterface 31 IID_IDXGISwapChain, Ev_Release 13,
      Ev_MakeWindowAssociation 12 7 DXGI_MWA_NO_ALT_ENTER, Ev_Release 12,
      Ev_GetBuffer 3 0 IID_ID3D11Texture2D,
      Ev_CreateRenderTargetView 1 (Some 40), Ev_Release 40,
      Ev_OMSetRenderTargets 2 [None],
      Ev_RSSetViewports 2 [viewport_1280_720]]"

fun is_upgrade_query :: "event \<Rightarrow> bool" where
  "is_upgrade_query (Ev_QueryInterface h iid)
     = (iid = IID_ID3D11Device1 \<or> iid = IID_ID3D11DeviceContext1)"
| "is_upgrade_query _ = False"

definition with_upgrade_answers ::
    "(handle \<Rightarrow> IID \<Rightarrow> HRESULT \<times> ptr) \<Rightarrow> platform \<Rightarrow> platform" where
  "with_upgrade_answers q p =
     p\<lparr>QueryInterface := (\<lambda>h iid.
          if iid = IID_ID3D11Device1 \<or> iid = IID_ID3D11DeviceContext1 then q h iid
          else QueryInterface p h iid)\<rparr>"

definition same_but_v1 :: "Renderer \<Rightarrow> Renderer \<Rightarrow> bool" where
  "same_but_v1 r r' =
     (r'\<lparr>m_pDevice1 := m_pDevice1 r, m_pImmediateContext1 := m_pImmediateContext1 r\<rparr> = r)"

definition no_upgrade :: "handle \<Rightarrow> IID \<Rightarrow> HRESULT \<times> ptr" where
  "no_upgrade h iid = (E_NOINTERFACE, None)"

definition bundle_no_upgrade :: Renderer where
  "bundle_no_upgrade =
     \<lparr>m_hInstance = 0, m_hWnd = 7, m_driverType = D3D_DRIVER_TYPE_HARDWARE,
      m_featureLevel = D3D_FEATURE_LEVEL_11_1, m_pDevice = Some 1, m_pDevice1 = None,
      m_pImmediateContext = Some 2, m_pImmediateContext1 = None, m_pSwapChain = Some 3,
      m_pSwapChain1 = Some 31, m_pRenderTargetView = Some 4\<rparr>"

definition trace_no_upgrade :: "event list" where
  "trace_no_upgrade =
     [Ev_GetClientRect 7,
      Ev_D3D11CreateDevice D3D_DRIVER_TYPE_HARDWARE 0 featureLevels D3D11_SDK_VERSION,
      Ev_QueryInterface 1 IID_IDXGIDevice, Ev_GetAdapter 10,
      Ev_GetParent 11 IID_IDXGIFactory1, Ev_Release 11, Ev_Release 10,
      Ev_QueryInterface 12 IID_IDXGIFactory2,
      Ev_QueryInterface 1 IID_ID3D11Device1,
      Ev_CreateSwapChainForHwnd 13 (Some 1) 7 (swap_chain_desc1 1280 720),
      Ev_QueryInterface 31 IID_IDXGISwapChain, Ev_Release 13,
      Ev_MakeWindowAssociation 12 7 DXGI_MWA_NO_ALT_ENTER, Ev_Release 12,
      Ev_GetBuffer 3 0 IID_ID3D11Texture2D,
      Ev_CreateRenderTargetView 1 (Some 40), Ev_Release 40,
      Ev_OMSetRenderTargets 2 [Some 4],
      Ev_RSSetViewports 2 [viewport_1280_720]]"

section \<open>Properties\<close>

subsection \<open>Teardown\<close>

lemma count_release_if:
  "count_list (release_if q) (Ev_Release h) = (if q = Some h then 1 else 0)"
  by (cases q) (simp_all add: release_if_def)

lemma count_clear_release_if: "count_list (release_if q) (Ev_ClearState h) = 0"
  by (cases q) (simp_all add: release_if_def)

lemma teardown_release_if: "list_all is_teardown_call (release_if q)"
  by (cases q) (simp_all add: release_if_def)

text \<open>
  Claim C1, as the code has it. One call of \<^verbatim>\<open>CleanupDevice\<close>, on any object (fully,
  partly or not at all initialised), returns, makes only \<^verbatim>\<open>ClearState\<close> and
  \<^verbatim>\<open>Release\<close> calls, none of them through a null pointer, and gives up exactly one
  reference to an object per member that points to it: \<^verbatim>\<open>Release\<close> is called on
  \<open>h\<close> as many times as there are members holding \<open>h\<close>, and \<^verbatim>\<open>ClearState\<close> once
  when the immediate context is \<open>h\<close>. The call leaves every member as it was, so a
  second call makes the same calls again.
\<close>

theorem CleanupDevice_single_call:
  "fst (CleanupDevice r) = r \<and>
   list_all is_teardown_call (snd (CleanupDevice r)) \<and>
   count_list (snd (CleanupDevice r)) (Ev_Release h)
     = length (filter (\<lambda>q. q = Some h) (member_handles r)) \<and>
   count_list (snd (CleanupDevice r)) (Ev_ClearState h)
     = (if m_pImmediateContext r = Some h then 1 else 0) \<and>
   CleanupDevice (fst (CleanupDevice r)) = CleanupDevice r"
  by (cases "m_pImmediateContext r")
     (simp_all add: CleanupDevice_def member_handles_def count_release_if
        count_clear_release_if teardown_release_if)

text \<open>
  Claim C1 as stated fails: two calls in a row on a bundle whose only reference to the
  device 1 is \<^verbatim>\<open>m_pDevice\<close> call \<^verbatim>\<open>Release\<close> on the device twice.
\<close>

theorem CleanupDevice_twice_counterexample:
  "count_list (snd (CleanupDevice bundle_full)
                 @ snd (CleanupDevice (fst (CleanupDevice bundle_full)))) (Ev_Release 1) = 2"
  by (simp add: CleanupDevice_def bundle_full_def release_if_def)

lemma obtain_factory_cases:
  assumes "obtain_factory p r = Some (hr, f, t)"
  obtains
    (no_dxgi_device) dev where
      "m_pDevice r = Some dev" "hr = fst (QueryInterface p dev IID_IDXGIDevice)"
      "\<not> SUCCEEDED hr" "f = None" "t = [Ev_QueryInterface dev IID_IDXGIDevice]"
  | (no_adapter) dev dd where
      "m_pDevice r = Some dev" "SUCCEEDED (fst (QueryInterface p dev IID_IDXGIDevice))"
      "snd (QueryInterface p dev IID_IDXGIDevice) = Some dd"
      "hr = fst (GetAdapter p dd)" "\<not> SUCCEEDED hr" "f = None"
      "t = [Ev_QueryInterface dev IID_IDXGIDevice, Ev_GetAdapter dd, Ev_Release dd]"
  | (parent) dev dd ad where
      "m_pDevice r = Some dev" "SUCCEEDED (fst (QueryInterface p dev IID_IDXGIDevice))"
      "snd (QueryInterface p dev IID_IDXGIDevice) = Some dd"
      "SUCCEEDED (fst (GetAdapter p dd))" "snd (GetAdapter p dd) = Some ad"
      "hr = fst (GetParent p ad IID_IDXGIFactory1)"
      "f = snd (GetParent p ad IID_IDXGIFactory1)"
      "t = [Ev_QueryInterface dev IID_IDXGIDevice, Ev_GetAdapter dd,
            Ev_GetParent ad IID_IDXGIFactory1, Ev_Release ad, Ev_Release dd]"
  using assms
  by (auto simp: obtain_factory_def Let_def split_beta bind_eq_Some_conv split: if_splits)

lemma not_FAILED_iff: "(\<not> FAILED hr) = SUCCEEDED hr"
  by (auto simp: SUCCEEDED_def FAILED_def)

lemma upgrade_interfaces_cases:
  assumes "upgrade_interfaces p r = Some (r', t)"
  obtains
    (no_device1) dev where
      "m_pDevice r = Some dev" "\<not> SUCCEEDED (fst (QueryInterface p dev IID_ID3D11Device1))"
      "r' = r\<lparr>m_pDevice1 := snd (QueryInterface p dev IID_ID3D11Device1)\<rparr>"
      "t = [Ev_QueryInterface dev IID_ID3D11Device1]"
  | (device1) dev ctx where
      "m_pDevice r = Some dev" "SUCCEEDED (fst (QueryInterface p dev IID_ID3D11Device1))"
      "m_pImmediateContext r = Some ctx"
      "r' = r\<lparr>m_pDevice1 := snd (QueryInterface p dev IID_ID3D11Device1),
               m_pImmediateContext1 := snd (QueryInterface p ctx IID_ID3D11DeviceContext1)\<rparr>"
      "t = [Ev_QueryInterface dev IID_ID3D11Device1,
            Ev_QueryInterface ctx IID_ID3D11DeviceContext1]"
  using assms
  by (auto simp: upgrade_interfaces_def Let_def split_beta bind_eq_Some_conv split: if_splits)

lemma swap_chain_for_hwnd_cases:
  assumes "swap_chain_for_hwnd p r width height f2 = Some (hr, r', t)"
  obtains
    (not_created) r1 up where
      "upgrade_interfaces p r = Some (r1, up)"
      "hr = fst (CreateSwapChainForHwnd p f2 (m_pDevice r1) (m_hWnd r1)
                   (swap_chain_desc1 width height))"
      "\<not> SUCCEEDED hr"
      "r' = r1\<lparr>m_pSwapChain1 :=
                  snd (CreateSwapChainForHwnd p f2 (m_pDevice r1) (m_hWnd r1)
                         (swap_chain_desc1 width height))\<rparr>"
      "t = up @ [Ev_CreateSwapChainForHwnd f2 (m_pDevice r1) (m_hWnd r1)
                   (swap_chain_desc1 width height),
                 Ev_Release f2]"
  | (created) r1 up s1 where
      "upgrade_interfaces p r = Some (r1, up)"
      "SUCCEEDED (fst (CreateSwapChainForHwnd p f2 (m_pDevice r1) (m_hWnd r1)
                         (swap_chain_desc1 width height)))"
      "snd (CreateSwapChainForHwnd p f2 (m_pDevice r1) (m_hWnd r1)
              (swap_chain_desc1 width height)) = Some s1"
      "hr = fst (QueryInterface p s1 IID_IDXGISwapChain)"
      "r' = r1\<lparr>m_pSwapChain1 := Some s1,
                m_pSwapChain := snd (QueryInterface p s1 IID_IDXGISwapChain)\<rparr>"
      "t = up @ [Ev_CreateSwapChainForHwnd f2 (m_pDevice r1) (m_hWnd r1)
                   (swap_chain_desc1 width height),
                 Ev_QueryInterface s1 IID_IDXGISwapChain, Ev_Release f2]"
  using assms
  by (auto simp: swap_chain_for_hwnd_def Let_def split_beta bind_eq_Some_conv split: if_splits)

lemma create_swap_chain_cases:
  assumes "create_swap_chain p r width height fp = Some (hr, r', t)"
  obtains
    (for_hwnd) f f2 t' where
      "fp = Some f" "snd (QueryInterface p f IID_IDXGIFactory2) = Some f2"
      "swap_chain_for_hwnd p r width height f2 = Some (hr, r', t')"
      "t = Ev_QueryInterface f IID_IDXGIFactory2 # t'
             @ [Ev_MakeWindowAssociation f (m_hWnd r') DXGI_MWA_NO_ALT_ENTER, Ev_Release f]"
  | (legacy) f where
      "fp = Some f" "snd (QueryInterface p f IID_IDXGIFactory2) = None"
      "hr = fst (CreateSwapChain p f (m_pDevice r)
                   (swap_chain_desc width height (m_hWnd r)))"
      "r' = r\<lparr>m_pSwapChain :=
                 snd (CreateSwapChain p f (m_pDevice r)
                        (swap_chain_desc width height (m_hWnd r)))\<rparr>"
      "t = [Ev_QueryInterface f IID_IDXGIFactory2,
            Ev_CreateSwapChain f (m_pDevice r) (swap_chain_desc width height (m_hWnd r)),
            Ev_MakeWindowAssociation f (m_hWnd r) DXGI_MWA_NO_ALT_ENTER, Ev_Release f]"
proof -
  from assms obtain f where f: "fp = Some f"
    by (cases fp) (simp_all add: create_swap_chain_def)
  show thesis
  proof (cases "snd (QueryInterface p f IID_IDXGIFactory2)")
    case None
    with assms f show thesis
      by (intro legacy [of f])
         (auto simp: create_swap_chain_def swap_chain_legacy_def Let_def split_beta)
  next
    case (Some f2)
    with assms f obtain t' where
      "swap_chain_for_hwnd p r width height f2 = Some (hr, r', t')"
      "t = Ev_QueryInterface f IID_IDXGIFactory2 # t'
             @ [Ev_MakeWindowAssociation f (m_hWnd r') DXGI_MWA_NO_ALT_ENTER, Ev_Release f]"
      by (auto simp: create_swap_chain_def Let_def split_beta bind_eq_Some_conv)
    with f Some show thesis
      by (intro for_hwnd [of f f2 t'])
  qed
qed

lemma create_render_target_cases:
  assumes "create_render_target p r width height = Some (hr, r', t)"
  obtains
    (no_buffer) sc where
      "m_pSwapChain r = Some sc" "hr = fst (GetBuffer p sc 0 IID_ID3D11Texture2D)"
      "FAILED hr" "r' = r" "t = [Ev_GetBuffer sc 0 IID_ID3D11Texture2D]"
  | (no_view) sc dev bb where
      "m_pSwapChain r = Some sc" "\<not> FAILED (fst (GetBuffer p sc 0 IID_ID3D11Texture2D))"
      "snd (GetBuffer p sc 0 IID_ID3D11Texture2D) = Some bb"
      "m_pDevice r = Some dev"
      "hr = fst (CreateRenderTargetView p dev (Some bb))" "FAILED hr"
      "r' = r\<lparr>m_pRenderTargetView := snd (CreateRenderTargetView p dev (Some bb))\<rparr>"
      "t = [Ev_GetBuffer sc 0 IID_ID3D11Texture2D, Ev_CreateRenderTargetView dev (Some bb),
            Ev_Release bb]"
  | (bound) sc dev bb ctx where
      "m_pSwapChain r = Some sc" "\<not> FAILED (fst (GetBuffer p sc 0 IID_ID3D11Texture2D))"
      "snd (GetBuffer p sc 0 IID_ID3D11Texture2D) = Some bb"
      "m_pDevice r = Some dev"
      "\<not> FAILED (fst (CreateRenderTargetView p dev (Some bb)))"
      "m_pImmediateContext r = Some ctx"
      "hr = S_OK"
      "r' = r\<lparr>m_pRenderTargetView := snd (CreateRenderTargetView p dev (Some bb))\<rparr>"
      "t = [Ev_GetBuffer sc 0 IID_ID3D11Texture2D, Ev_CreateRenderTargetView dev (Some bb),
            Ev_Release bb,
            Ev_OMSetRenderTargets ctx [snd (CreateRenderTargetView p dev (Some bb))],
            Ev_RSSetViewports ctx
              [\<lparr>vp_TopLeftX = 0, vp_TopLeftY = 0, vp_Width = UINT_to_FLOAT width,
                vp_Height = UINT_to_FLOAT height, vp_MinDepth = 0, vp_MaxDepth = 1\<rparr>]]"
  using assms
  by (auto simp: create_render_target_def Let_def split_beta bind_eq_Some_conv
           split: if_splits)

lemma create_device_attempt_unfold:
  "create_device_attempt p flags d r =
     (let a = D3D11CreateDevice p d flags featureLevels D3D11_SDK_VERSION;
          b = attempt_result p flags d
      in (fst b,
          r\<lparr>m_driverType := d, m_pDevice := fst (snd b), m_featureLevel := fst (snd (snd b)),
            m_pImmediateContext := snd (snd (snd b))\<rparr>,
          Ev_D3D11CreateDevice d flags featureLevels D3D11_SDK_VERSION
          # (if fst a = E_INVALIDARG
             then [Ev_D3D11CreateDevice d flags (tl featureLevels) D3D11_SDK_VERSION]
             else [])))"
  by (simp add: create_device_attempt_def attempt_result_def numFeatureLevels_def
        featureLevels_def Let_def split_beta)

lemma create_device_loop_frame:
  assumes "create_device_loop p flags ds hr r = (hr', r', t)"
  shows "filter is_D3D11CreateDevice t = t \<and> m_hWnd r' = m_hWnd r \<and>
         m_hInstance r' = m_hInstance r \<and> m_pDevice1 r' = m_pDevice1 r \<and>
         m_pImmediateContext1 r' = m_pImmediateContext1 r \<and>
         m_pSwapChain r' = m_pSwapChain r \<and> m_pSwapChain1 r' = m_pSwapChain1 r \<and>
         m_pRenderTargetView r' = m_pRenderTargetView r"
  using assms
proof (induction ds arbitrary: hr r hr' r' t)
  case Nil
  then show ?case by simp
next
  case (Cons d ds)
  show ?case
  proof (cases "SUCCEEDED (fst (attempt_result p flags d))")
    case True
    with Cons.prems show ?thesis
      by (auto simp: create_device_attempt_unfold Let_def)
  next
    case False
    obtain hr2 r2 t2 where rest:
      "create_device_loop p flags ds (fst (attempt_result p flags d))
         (fst (snd (create_device_attempt p flags d r))) = (hr2, r2, t2)"
      by (metis prod_cases3)
    from Cons.IH [OF rest] rest False Cons.prems show ?thesis
      by (auto simp: create_device_attempt_unfold Let_def)
  qed
qed

lemma InitDevice_cases:
  assumes "InitDevice dbg p r = Some (hr, r', t)"
  obtains
    (no_device) t1 where
      "create_device_loop p (createDeviceFlags dbg) driverTypes S_OK r = (hr, r', t1)"
      "FAILED hr" "t = Ev_GetClientRect (m_hWnd r) # t1"
  | (no_factory) hr1 r1 t1 f t2 where
      "create_device_loop p (createDeviceFlags dbg) driverTypes S_OK r = (hr1, r1, t1)"
      "\<not> FAILED hr1"
      "obtain_factory p r1 = Some (hr, f, t2)" "FAILED hr" "r' = r1"
      "t = Ev_GetClientRect (m_hWnd r) # t1 @ t2"
  | (no_swap_chain) hr1 r1 t1 hr2 f t2 t3 where
      "create_device_loop p (createDeviceFlags dbg) driverTypes S_OK r = (hr1, r1, t1)"
      "\<not> FAILED hr1"
      "obtain_factory p r1 = Some (hr2, f, t2)" "\<not> FAILED hr2"
      "create_swap_chain p r1 (client_width p (m_hWnd r)) (client_height p (m_hWnd r)) f
         = Some (hr, r', t3)"
      "FAILED hr"
      "t = Ev_GetClientRect (m_hWnd r) # t1 @ t2 @ t3"
  | (render_target) hr1 r1 t1 hr2 f t2 hr3 r3 t3 t4 where
      "create_device_loop p (createDeviceFlags dbg) driverTypes S_OK r = (hr1, r1, t1)"
      "\<not> FAILED hr1"
      "obtain_factory p r1 = Some (hr2, f, t2)" "\<not> FAILED hr2"
      "create_swap_chain p r1 (client_width p (m_hWnd r)) (client_height p (m_hWnd r)) f
         = Some (hr3, r3, t3)"
      "\<not> FAILED hr3"
      "create_render_target p r3 (client_width p (m_hWnd r)) (client_height p (m_hWnd r))
         = Some (hr, r', t4)"
      "t = Ev_GetClientRect (m_hWnd r) # t1 @ t2 @ t3 @ t4"
proof -
  obtain hr1 r1 t1 where loop:
    "create_device_loop p (createDeviceFlags dbg) driverTypes S_OK r = (hr1, r1, t1)"
    by (metis prod_cases3)
  show thesis
  proof (cases "FAILED hr1")
    case True
    with assms loop show thesis
      by (intro no_device [of t1]) (auto simp: InitDevice_def Let_def)
  next
    case dev: False
    with assms loop obtain hr2 f t2 where fac: "obtain_factory p r1 = Some (hr2, f, t2)"
      by (auto simp: InitDevice_def Let_def bind_eq_Some_conv)
    show thesis
    proof (cases "FAILED hr2")
      case True
      with assms loop dev fac show thesis
        by (intro no_factory [of hr1 r1 t1 f t2]) (auto simp: InitDevice_def Let_def)
    next
      case facok: False
      with assms loop dev fac obtain hr3 r3 t3 where sc:
        "create_swap_chain p r1 (client_width p (m_hWnd r)) (client_height p (m_hWnd r)) f
           = Some (hr3, r3, t3)"
        by (auto simp: InitDevice_def Let_def bind_eq_Some_conv client_width_def
              client_height_def)
      show thesis
      proof (cases "FAILED hr3")
        case True
        with assms loop dev fac facok sc show thesis
          by (intro no_swap_chain [of hr1 r1 t1 hr2 f t2 t3])
             (auto simp: InitDevice_def Let_def client_width_def client_height_def)
      next
        case False
        with assms loop dev fac facok sc obtain t4 where
          "create_render_target p r3 (client_width p (m_hWnd r))
             (client_height p (m_hWnd r)) = Some (hr, r', t4)"
          "t = Ev_GetClientRect (m_hWnd r) # t1 @ t2 @ t3 @ t4"
          by (auto simp: InitDevice_def Let_def bind_eq_Some_conv client_width_def
                client_height_def)
        with loop dev fac facok sc False show thesis
          by (intro render_target [of hr1 r1 t1 hr2 f t2 hr3 r3 t3 t4])
      qed
    qed
  qed
qed

lemma not_SUCCEEDED_iff: "(\<not> SUCCEEDED hr) = FAILED hr"
  by (auto simp: SUCCEEDED_def FAILED_def)

lemma device_call_driver_types_append:
  "device_call_driver_types (xs @ ys) = device_call_driver_types xs @ device_call_driver_types ys"
  by (induction xs rule: device_call_driver_types.induct) simp_all

lemma device_call_driver_types_none:
  "filter is_D3D11CreateDevice t = [] \<Longrightarrow> device_call_driver_types t = []"
  by (induction t rule: device_call_driver_types.induct) simp_all

lemma obtain_factory_frame:
  assumes "obtain_factory p r = Some (hr, f, t)"
  shows "filter is_D3D11CreateDevice t = [] \<and> filter is_GetClientRect t = [] \<and>
         filter is_swap_chain_creation t = [] \<and> filter is_RSSetViewports t = []"
  using assms by (cases rule: obtain_factory_cases) simp_all

lemma upgrade_interfaces_frame:
  assumes "upgrade_interfaces p r = Some (r', t)"
  shows "filter is_D3D11CreateDevice t = [] \<and> filter is_GetClientRect t = [] \<and>
         filter is_swap_chain_creation t = [] \<and> filter is_RSSetViewports t = [] \<and>
         m_hWnd r' = m_hWnd r \<and> m_driverType r' = m_driverType r \<and>
         m_featureLevel r' = m_featureLevel r \<and> m_pDevice r' = m_pDevice r \<and>
         m_pImmediateContext r' = m_pImmediateContext r \<and>
         m_pSwapChain r' = m_pSwapChain r \<and> m_pSwapChain1 r' = m_pSwapChain1 r \<and>
         m_pRenderTargetView r' = m_pRenderTargetView r"
  using assms by (cases rule: upgrade_interfaces_cases) simp_all

lemma swap_chain_for_hwnd_frame:
  assumes "swap_chain_for_hwnd p r width height f2 = Some (hr, r', t)"
  shows "filter is_D3D11CreateDevice t = [] \<and> filter is_GetClientRect t = [] \<and>
         filter is_RSSetViewports t = [] \<and>
         m_hWnd r' = m_hWnd r \<and> m_driverType r' = m_driverType r \<and>
         m_featureLevel r' = m_featureLevel r \<and> m_pDevice r' = m_pDevice r \<and>
         m_pImmediateContext r' = m_pImmediateContext r \<and>
         m_pRenderTargetView r' = m_pRenderTargetView r"
  using assms
  by (cases rule: swap_chain_for_hwnd_cases) (auto dest!: upgrade_interfaces_frame)

lemma create_swap_chain_frame:
  assumes "create_swap_chain p r width height fp = Some (hr, r', t)"
  shows "filter is_D3D11CreateDevice t = [] \<and> filter is_GetClientRect t = [] \<and>
         filter is_RSSetViewports t = [] \<and>
         m_hWnd r' = m_hWnd r \<and> m_driverType r' = m_driverType r \<and>
         m_featureLevel r' = m_featureLevel r \<and> m_pDevice r' = m_pDevice r \<and>
         m_pImmediateContext r' = m_pImmediateContext r \<and>
         m_pRenderTargetView r' = m_pRenderTargetView r"
  using assms
  by (cases rule: create_swap_chain_cases) (auto dest!: swap_chain_for_hwnd_frame)

lemma create_render_target_frame:
  assumes "create_render_target p r width height = Some (hr, r', t)"
  shows "filter is_D3D11CreateDevice t = [] \<and> filter is_GetClientRect t = [] \<and>
         filter is_swap_chain_creation t = [] \<and>
         m_hWnd r' = m_hWnd r \<and> m_driverType r' = m_driverType r \<and>
         m_featureLevel r' = m_featureLevel r \<and> m_pDevice r' = m_pDevice r \<and>
         m_pDevice1 r' = m_pDevice1 r \<and> m_pImmediateContext r' = m_pImmediateContext r \<and>
         m_pImmediateContext1 r' = m_pImmediateContext1 r \<and>
         m_pSwapChain r' = m_pSwapChain r \<and> m_pSwapChain1 r' = m_pSwapChain1 r"
  using assms by (cases rule: create_render_target_cases) simp_all

text \<open>What a returned run has done about the device, whatever stage it stopped at.\<close>

lemma InitDevice_device_stage:
  assumes "InitDevice dbg p r = Some (hr, r', t)"
  obtains hr1 r1 t1 where
    "create_device_loop p (createDeviceFlags dbg) driverTypes S_OK r = (hr1, r1, t1)"
    "filter is_D3D11CreateDevice t = t1"
    "m_driverType r' = m_driverType r1" "m_pDevice r' = m_pDevice r1"
    "m_featureLevel r' = m_featureLevel r1"
    "m_pImmediateContext r' = m_pImmediateContext r1"
    "FAILED hr1 \<longrightarrow> hr = hr1 \<and> r' = r1 \<and> t = Ev_GetClientRect (m_hWnd r) # t1"
  using assms
proof (cases rule: InitDevice_cases)
  case (no_device t1)
  from create_device_loop_frame [OF no_device(1)] no_device show ?thesis
    by (intro that [of hr r' t1]) simp_all
next
  case (no_factory hr1 r1 t1 f t2)
  from create_device_loop_frame [OF no_factory(1)] obtain_factory_frame [OF no_factory(3)]
    no_factory
  show ?thesis
    by (intro that [of hr1 r1 t1]) simp_all
next
  case (no_swap_chain hr1 r1 t1 hr2 f t2 t3)
  from create_device_loop_frame [OF no_swap_chain(1)]
    obtain_factory_frame [OF no_swap_chain(3)] create_swap_chain_frame [OF no_swap_chain(5)]
    no_swap_chain
  show ?thesis
    by (intro that [of hr1 r1 t1]) simp_all
next
  case (render_target hr1 r1 t1 hr2 f t2 hr3 r3 t3 t4)
  from create_device_loop_frame [OF render_target(1)]
    obtain_factory_frame [OF render_target(3)] create_swap_chain_frame [OF render_target(5)]
    create_render_target_frame [OF render_target(7)] render_target
  show ?thesis
    by (intro that [of hr1 r1 t1]) simp_all
qed

lemma featureLevels_neq_tl: "featureLevels \<noteq> tl featureLevels"
  by (simp add: featureLevels_def)

lemma create_device_loop_retry:
  assumes "create_device_loop p flags ds hr r = (hr', r', t)"
      and "t = pre @ Ev_D3D11CreateDevice d fl featureLevels sdk # post"
      and "fst (D3D11CreateDevice p d fl featureLevels sdk) = E_INVALIDARG"
  shows "\<exists>post'. post = Ev_D3D11CreateDevice d fl (tl featureLevels) sdk # post' \<and>
           (SUCCEEDED (fst (D3D11CreateDevice p d fl (tl featureLevels) sdk)) \<longrightarrow>
              post' = [] \<and> hr' = fst (D3D11CreateDevice p d fl (tl featureLevels) sdk) \<and>
              m_driverType r' = d \<and>
              m_pDevice r' = fst (snd (D3D11CreateDevice p d fl (tl featureLevels) sdk)) \<and>
              m_pImmediateContext r'
                = snd (snd (snd (D3D11CreateDevice p d fl (tl featureLevels) sdk))))"
  using assms
proof (induction ds arbitrary: hr r pre hr' r' t)
  case Nil
  then show ?case by simp
next
  case (Cons d0 ds)
  let ?a = "attempt_result p flags d0"
  let ?r1 = "fst (snd (create_device_attempt p flags d0 r))"
  let ?full = "Ev_D3D11CreateDevice d0 flags featureLevels D3D11_SDK_VERSION"
  let ?retry = "Ev_D3D11CreateDevice d0 flags (tl featureLevels) D3D11_SDK_VERSION"
  let ?inv = "fst (D3D11CreateDevice p d0 flags featureLevels D3D11_SDK_VERSION) = E_INVALIDARG"
  let ?t1 = "?full # (if ?inv then [?retry] else [])"
  obtain hr2 r2 t2 where rest: "create_device_loop p flags ds (fst ?a) ?r1 = (hr2, r2, t2)"
    by (metis prod_cases3)
  show ?case
  proof (cases pre)
    case Nil
    with Cons.prems(1,2) have same: "d = d0" "fl = flags" "sdk = D3D11_SDK_VERSION"
      by (auto simp: create_device_attempt_unfold Let_def split: if_splits prod.splits)
    with Cons.prems(3) have inv: ?inv by simp
    then have a: "?a = D3D11CreateDevice p d0 flags (tl featureLevels) D3D11_SDK_VERSION"
      by (simp add: attempt_result_def)
    from Cons.prems(1,2) Nil inv a rest same show ?thesis
      by (auto simp: create_device_attempt_unfold Let_def split: if_splits)
  next
    case (Cons x pre')
    show ?thesis
    proof (cases "SUCCEEDED (fst ?a)")
      case True
      with Cons.prems(1,2) Cons featureLevels_neq_tl show ?thesis
        by (auto simp: create_device_attempt_unfold Let_def Cons_eq_append_conv
                 split: if_splits)
    next
      case False
      with Cons.prems(1) rest have t: "t = ?t1 @ t2" and res: "hr' = hr2" "r' = r2"
        by (auto simp: create_device_attempt_unfold Let_def)
      from t Cons.prems(2) Cons featureLevels_neq_tl
      obtain pre2 where "t2 = pre2 @ Ev_D3D11CreateDevice d fl featureLevels sdk # post"
        by (auto simp: Cons_eq_append_conv append_eq_Cons_conv split: if_splits)
      from Cons.IH [OF rest this Cons.prems(3)] res show ?thesis by simp
    qed
  qed
qed

lemma fst_create_device_attempt:
  "fst (create_device_attempt p flags d r) = attempt_hr p flags d"
  by (simp add: create_device_attempt_unfold Let_def attempt_hr_def)

lemma device_from_create_device_attempt:
  "device_from p flags d (fst (snd (create_device_attempt p flags d r)))"
  by (simp add: create_device_attempt_unfold Let_def device_from_def)

lemma tried_create_device_attempt:
  "remdups_adj (device_call_driver_types (snd (snd (create_device_attempt p flags d r))) @ ds)
     = remdups_adj (d # ds)"
  by (simp add: create_device_attempt_unfold Let_def)

lemma create_device_loop_stop:
  assumes "SUCCEEDED (attempt_hr p flags d)"
  shows "create_device_loop p flags (d # ds) hr r = create_device_attempt p flags d r"
  using assms
  by (cases "create_device_attempt p flags d r")
     (use fst_create_device_attempt [of p flags d r] in simp)

lemma create_device_loop_next:
  assumes "FAILED (attempt_hr p flags d)"
      and "create_device_loop p flags ds (attempt_hr p flags d)
             (fst (snd (create_device_attempt p flags d r))) = (hr2, r2, t2)"
  shows "create_device_loop p flags (d # ds) hr r
           = (hr2, r2, snd (snd (create_device_attempt p flags d r)) @ t2)"
proof -
  from assms(1) have "\<not> SUCCEEDED (attempt_hr p flags d)"
    by (simp add: not_SUCCEEDED_iff)
  with assms(2) fst_create_device_attempt [of p flags d r] show ?thesis
    by (cases "create_device_attempt p flags d r") simp
qed

lemma create_device_loop_driverTypes:
  assumes "create_device_loop p flags driverTypes S_OK r = (hr1, r1, t1)"
  shows "(SUCCEEDED (attempt_hr p flags D3D_DRIVER_TYPE_HARDWARE) \<and>
            hr1 = attempt_hr p flags D3D_DRIVER_TYPE_HARDWARE \<and>
            remdups_adj (device_call_driver_types t1) = [D3D_DRIVER_TYPE_HARDWARE] \<and>
            device_from p flags D3D_DRIVER_TYPE_HARDWARE r1)
       \<or> (FAILED (attempt_hr p flags D3D_DRIVER_TYPE_HARDWARE) \<and>
            SUCCEEDED (attempt_hr p flags D3D_DRIVER_TYPE_WARP) \<and>
            hr1 = attempt_hr p flags D3D_DRIVER_TYPE_WARP \<and>
            remdups_adj (device_call_driver_types t1)
              = [D3D_DRIVER_TYPE_HARDWARE, D3D_DRIVER_TYPE_WARP] \<and>
            device_from p flags D3D_DRIVER_TYPE_WARP r1)
       \<or> (FAILED (attempt_hr p flags D3D_DRIVER_TYPE_HARDWARE) \<and>
            FAILED (attempt_hr p flags D3D_DRIVER_TYPE_WARP) \<and>
            SUCCEEDED (attempt_hr p flags D3D_DRIVER_TYPE_REFERENCE) \<and>
            hr1 = attempt_hr p flags D3D_DRIVER_TYPE_REFERENCE \<and>
            remdups_adj (device_call_driver_types t1)
              = [D3D_DRIVER_TYPE_HARDWARE, D3D_DRIVER_TYPE_WARP, D3D_DRIVER_TYPE_REFERENCE] \<and>
            device_from p flags D3D_DRIVER_TYPE_REFERENCE r1)
       \<or> (FAILED (attempt_hr p flags D3D_DRIVER_TYPE_HARDWARE) \<and>
            FAILED (attempt_hr p flags D3D_DRIVER_TYPE_WARP) \<and>
            FAILED (attempt_hr p flags D3D_DRIVER_TYPE_REFERENCE) \<and>
            hr1 = attempt_hr p flags D3D_DRIVER_TYPE_REFERENCE \<and>
            remdups_adj (device_call_driver_types t1)
              = [D3D_DRIVER_TYPE_HARDWARE, D3D_DRIVER_TYPE_WARP, D3D_DRIVER_TYPE_REFERENCE])"
proof -
  let ?H = D3D_DRIVER_TYPE_HARDWARE and ?W = D3D_DRIVER_TYPE_WARP
    and ?R = D3D_DRIVER_TYPE_REFERENCE
  let ?rH = "fst (snd (create_device_attempt p flags ?H r))"
  let ?tH = "snd (snd (create_device_attempt p flags ?H r))"
  let ?rW = "fst (snd (create_device_attempt p flags ?W ?rH))"
  let ?tW = "snd (snd (create_device_attempt p flags ?W ?rH))"
  let ?rR = "fst (snd (create_device_attempt p flags ?R ?rW))"
  let ?tR = "snd (snd (create_device_attempt p flags ?R ?rW))"
  have attempt: "create_device_attempt p flags d r0
                   = (attempt_hr p flags d, fst (snd (create_device_attempt p flags d r0)),
                      snd (snd (create_device_attempt p flags d r0)))" for d r0
    by (metis fst_create_device_attempt prod.collapse)
  have tH: "remdups_adj (device_call_driver_types ?tH) = [?H]"
    using tried_create_device_attempt [of p flags ?H r "[]"] by simp
  have tHW: "remdups_adj (device_call_driver_types (?tH @ ?tW)) = [?H, ?W]"
    using tried_create_device_attempt [of p flags ?H r "device_call_driver_types ?tW"]
      tried_create_device_attempt [of p flags ?W ?rH "[]"]
    by (simp add: device_call_driver_types_append remdups_adj_Cons)
  have tHWR: "remdups_adj (device_call_driver_types (?tH @ ?tW @ ?tR)) = [?H, ?W, ?R]"
    using tried_create_device_attempt
            [of p flags ?H r "device_call_driver_types ?tW @ device_call_driver_types ?tR"]
      tried_create_device_attempt [of p flags ?W ?rH "device_call_driver_types ?tR"]
      tried_create_device_attempt [of p flags ?R ?rW "[]"]
    by (simp add: device_call_driver_types_append remdups_adj_Cons)
  show ?thesis
  proof (cases "SUCCEEDED (attempt_hr p flags ?H)")
    case True
    from create_device_loop_stop [OF True] assms attempt [of ?H r]
    have "hr1 = attempt_hr p flags ?H" "r1 = ?rH" "t1 = ?tH"
      by (simp_all add: driverTypes_def)
    with True tH device_from_create_device_attempt [of p flags ?H r] show ?thesis
      by simp
  next
    case fH: False
    then have fH': "FAILED (attempt_hr p flags ?H)" by (simp add: not_SUCCEEDED_iff)
    show ?thesis
    proof (cases "SUCCEEDED (attempt_hr p flags ?W)")
      case True
      have "create_device_loop p flags [?W, ?R] (attempt_hr p flags ?H) ?rH
              = (attempt_hr p flags ?W, ?rW, ?tW)"
        using create_device_loop_stop [OF True] attempt [of ?W ?rH] by simp
      from create_device_loop_next [OF fH' this] assms
      have "hr1 = attempt_hr p flags ?W" "r1 = ?rW" "t1 = ?tH @ ?tW"
        by (simp_all add: driverTypes_def)
      with True fH' tHW device_from_create_device_attempt [of p flags ?W ?rH] show ?thesis
        by simp
    next
      case fW: False
      then have fW': "FAILED (attempt_hr p flags ?W)" by (simp add: not_SUCCEEDED_iff)
      have last: "create_device_loop p flags [?R] (attempt_hr p flags ?W) ?rW
                    = (attempt_hr p flags ?R, ?rR, ?tR)"
      proof (cases "SUCCEEDED (attempt_hr p flags ?R)")
        case True
        from create_device_loop_stop [OF True] attempt [of ?R ?rW] show ?thesis by simp
      next
        case False
        then have "FAILED (attempt_hr p flags ?R)" by (simp add: not_SUCCEEDED_iff)
        from create_device_loop_next [OF this, of "[]"] show ?thesis by simp
      qed
      from create_device_loop_next [OF fH' create_device_loop_next [OF fW' last]] assms
      have res: "hr1 = attempt_hr p flags ?R" "r1 = ?rR" "t1 = ?tH @ ?tW @ ?tR"
        by (simp_all add: driverTypes_def)
      show ?thesis
      proof (cases "SUCCEEDED (attempt_hr p flags ?R)")
        case True
        with res fH' fW' tHWR device_from_create_device_attempt [of p flags ?R ?rW]
        show ?thesis by simp
      next
        case False
        then have "FAILED (attempt_hr p flags ?R)" by (simp add: not_SUCCEEDED_iff)
        with res fH' fW' tHWR show ?thesis by simp
      qed
    qed
  qed
qed

lemma device_call_driver_types_filter:
  "device_call_driver_types (filter is_D3D11CreateDevice t) = device_call_driver_types t"
  by (induction t rule: device_call_driver_types.induct) simp_all

lemma InitDevice_crash_after_device:
  assumes "InitDevice dbg p r = None"
  shows "SUCCEEDED (fst (create_device_loop p (createDeviceFlags dbg) driverTypes S_OK r))"
  using assms
  by (cases "create_device_loop p (createDeviceFlags dbg) driverTypes S_OK r")
     (auto simp: InitDevice_def Let_def not_FAILED_iff split: if_splits)

text \<open>
  Claim C3. \<open>attempt_hr p flags d\<close> is the outcome of the creation attempt for the
  driver type \<open>d\<close>: the answer to the call with the full list, or to the retry when the
  first answer is \<^verbatim>\<open>E_INVALIDARG\<close>. A run of \<^verbatim>\<open>InitDevice\<close> that returns has called
  device creation for the driver types hardware, WARP, reference in this order, up to and
  including the first whose attempt succeeds and for none after it; the driver type, the
  device, the feature level and the immediate context of the object are those of that
  attempt. When all three attempts fail, \<^verbatim>\<open>InitDevice\<close> returns the failure code of the
  last one (reference), after no other platform call than the query of the client
  rectangle and the device-creation calls, with the swap chain, the render target view and
  the extended interfaces of the object untouched. A run that does not return has crashed
  on a null pointer, which only happens after some attempt has succeeded.
\<close>

theorem InitDevice_driver_type_order:
  "case InitDevice dbg p r of
     None \<Rightarrow>
       SUCCEEDED (attempt_hr p (createDeviceFlags dbg) D3D_DRIVER_TYPE_HARDWARE) \<or>
       SUCCEEDED (attempt_hr p (createDeviceFlags dbg) D3D_DRIVER_TYPE_WARP) \<or>
       SUCCEEDED (attempt_hr p (createDeviceFlags dbg) D3D_DRIVER_TYPE_REFERENCE)
   | Some (hr, r', t) \<Rightarrow>
       (SUCCEEDED (attempt_hr p (createDeviceFlags dbg) D3D_DRIVER_TYPE_HARDWARE) \<and>
          remdups_adj (device_call_driver_types t) = [D3D_DRIVER_TYPE_HARDWARE] \<and>
          device_from p (createDeviceFlags dbg) D3D_DRIVER_TYPE_HARDWARE r')
     \<or> (FAILED (attempt_hr p (createDeviceFlags dbg) D3D_DRIVER_TYPE_HARDWARE) \<and>
          SUCCEEDED (attempt_hr p (createDeviceFlags dbg) D3D_DRIVER_TYPE_WARP) \<and>
          remdups_adj (device_call_driver_types t)
            = [D3D_DRIVER_TYPE_HARDWARE, D3D_DRIVER_TYPE_WARP] \<and>
          device_from p (createDeviceFlags dbg) D3D_DRIVER_TYPE_WARP r')
     \<or> (FAILED (attempt_hr p (createDeviceFlags dbg) D3D_DRIVER_TYPE_HARDWARE) \<and>
          FAILED (attempt_hr p (createDeviceFlags dbg) D3D_DRIVER_TYPE_WARP) \<and>
          SUCCEEDED (attempt_hr p (createDeviceFlags dbg) D3D_DRIVER_TYPE_REFERENCE) \<and>
          remdups_adj (device_call_driver_types t)
            = [D3D_DRIVER_TYPE_HARDWARE, D3D_DRIVER_TYPE_WARP, D3D_DRIVER_TYPE_REFERENCE] \<and>
          device_from p (createDeviceFlags dbg) D3D_DRIVER_TYPE_REFERENCE r')
     \<or> (FAILED (attempt_hr p (createDeviceFlags dbg) D3D_DRIVER_TYPE_HARDWARE) \<and>
          FAILED (attempt_hr p (createDeviceFlags dbg) D3D_DRIVER_TYPE_WARP) \<and>
          FAILED (attempt_hr p (createDeviceFlags dbg) D3D_DRIVER_TYPE_REFERENCE) \<and>
          remdups_adj (device_call_driver_types t)
            = [D3D_DRIVER_TYPE_HARDWARE, D3D_DRIVER_TYPE_WARP, D3D_DRIVER_TYPE_REFERENCE] \<and>
          hr = attempt_hr p (createDeviceFlags dbg) D3D_DRIVER_TYPE_REFERENCE \<and>
          t = Ev_GetClientRect (m_hWnd r) # filter is_D3D11CreateDevice t \<and>
          m_pDevice1 r' = m_pDevice1 r \<and>
          m_pImmediateContext1 r' = m_pImmediateContext1 r \<and>
          m_pSwapChain r' = m_pSwapChain r \<and> m_pSwapChain1 r' = m_pSwapChain1 r \<and>
          m_pRenderTargetView r' = m_pRenderTargetView r)"
proof (cases "InitDevice dbg p r")
  case None
  obtain hr1 r1 t1 where loop:
    "create_device_loop p (createDeviceFlags dbg) driverTypes S_OK r = (hr1, r1, t1)"
    by (metis prod_cases3)
  from InitDevice_crash_after_device [OF None] loop have "SUCCEEDED hr1" by simp
  with create_device_loop_driverTypes [OF loop] None show ?thesis
    by (auto simp: not_SUCCEEDED_iff [symmetric])
next
  case (Some res)
  obtain hr r' t where res: "res = (hr, r', t)" by (metis prod_cases3)
  from Some res have run: "InitDevice dbg p r = Some (hr, r', t)" by simp
  from run obtain hr1 r1 t1 where
    loop: "create_device_loop p (createDeviceFlags dbg) driverTypes S_OK r = (hr1, r1, t1)"
    and calls: "filter is_D3D11CreateDevice t = t1"
    and members: "m_driverType r' = m_driverType r1" "m_pDevice r' = m_pDevice r1"
      "m_featureLevel r' = m_featureLevel r1"
      "m_pImmediateContext r' = m_pImmediateContext r1"
    and failed: "FAILED hr1 \<longrightarrow> hr = hr1 \<and> r' = r1 \<and> t = Ev_GetClientRect (m_hWnd r) # t1"
    by (rule InitDevice_device_stage)
  have tried: "device_call_driver_types t = device_call_driver_types t1"
    using calls device_call_driver_types_filter [of t] by simp
  have used: "device_from p (createDeviceFlags dbg) d r1
                \<Longrightarrow> device_from p (createDeviceFlags dbg) d r'" for d
    using members by (simp add: device_from_def)
  from create_device_loop_driverTypes [OF loop]
  consider
    (hardware) "SUCCEEDED (attempt_hr p (createDeviceFlags dbg) D3D_DRIVER_TYPE_HARDWARE)"
      "remdups_adj (device_call_driver_types t1) = [D3D_DRIVER_TYPE_HARDWARE]"
      "device_from p (createDeviceFlags dbg) D3D_DRIVER_TYPE_HARDWARE r1"
  | (warp) "FAILED (attempt_hr p (createDeviceFlags dbg) D3D_DRIVER_TYPE_HARDWARE)"
      "SUCCEEDED (attempt_hr p (createDeviceFlags dbg) D3D_DRIVER_TYPE_WARP)"
      "remdups_adj (device_call_driver_types t1)
         = [D3D_DRIVER_TYPE_HARDWARE, D3D_DRIVER_TYPE_WARP]"
      "device_from p (createDeviceFlags dbg) D3D_DRIVER_TYPE_WARP r1"
  | (reference) "FAILED (attempt_hr p (createDeviceFlags dbg) D3D_DRIVER_TYPE_HARDWARE)"
      "FAILED (attempt_hr p (createDeviceFlags dbg) D3D_DRIVER_TYPE_WARP)"
      "SUCCEEDED (attempt_hr p (createDeviceFlags dbg) D3D_DRIVER_TYPE_REFERENCE)"
      "remdups_adj (device_call_driver_types t1)
         = [D3D_DRIVER_TYPE_HARDWARE, D3D_DRIVER_TYPE_WARP, D3D_DRIVER_TYPE_REFERENCE]"
      "device_from p (createDeviceFlags dbg) D3D_DRIVER_TYPE_REFERENCE r1"
  | (none) "FAILED (attempt_hr p (createDeviceFlags dbg) D3D_DRIVER_TYPE_HARDWARE)"
      "FAILED (attempt_hr p (createDeviceFlags dbg) D3D_DRIVER_TYPE_WARP)"
      "FAILED (attempt_hr p (createDeviceFlags dbg) D3D_DRIVER_TYPE_REFERENCE)"
      "hr1 = attempt_hr p (createDeviceFlags dbg) D3D_DRIVER_TYPE_REFERENCE"
      "remdups_adj (device_call_driver_types t1)
         = [D3D_DRIVER_TYPE_HARDWARE, D3D_DRIVER_TYPE_WARP, D3D_DRIVER_TYPE_REFERENCE]"
    by blast
  then show ?thesis
  proof cases
    case hardware
    with used tried show ?thesis by (simp add: run)
  next
    case warp
    with used tried show ?thesis by (simp add: run)
  next
    case reference
    with used tried show ?thesis by (simp add: run)
  next
    case none
    with failed have "hr = hr1" "r' = r1" "t = Ev_GetClientRect (m_hWnd r) # t1" by simp_all
    with none tried calls create_device_loop_frame [OF loop] show ?thesis
      by (simp add: run)
  qed
qed

subsection \<open>Runs on the concrete hosts\<close>

lemma UINT_to_FLOAT_exact:
  assumes "unat w < 2 ^ 24"
  shows "UINT_to_FLOAT w = of_nat (unat w)"
proof -
  have "floorlog 2 (unat w) \<le> 24"
    using assms by (simp add: floorlog_le_iff)
  then show ?thesis by (simp add: UINT_to_FLOAT_def Let_def)
qed

lemma UINT_to_FLOAT_1280_720: "UINT_to_FLOAT 1280 = 1280" "UINT_to_FLOAT 720 = 720"
  by (simp_all add: UINT_to_FLOAT_exact)

lemmas run_simps =
  InitDevice_def create_device_attempt_def obtain_factory_def
  create_swap_chain_def swap_chain_for_hwnd_def upgrade_interfaces_def swap_chain_legacy_def
  create_render_target_def driverTypes_def featureLevels_def numFeatureLevels_def
  createDeviceFlags_def SUCCEEDED_def FAILED_def S_OK_def E_FAIL_def E_INVALIDARG_def
  E_NOINTERFACE_def Let_def fresh_renderer_def UINT_to_FLOAT_1280_720 viewport_1280_720_def

lemma InitDevice_host_d3d11_0:
  "InitDevice False host_d3d11_0 fresh_renderer = Some (S_OK, bundle_full, trace_d3d11_0)"
  by (simp add: run_simps host_d3d11_0_def host_d3d11_1_def bundle_full_def trace_d3d11_0_def)

lemma InitDevice_host_d3d11_1:
  "InitDevice False host_d3d11_1 fresh_renderer = Some (S_OK, bundle_d3d11_1, trace_d3d11_1)"
  by (simp add: run_simps host_d3d11_1_def bundle_d3d11_1_def trace_d3d11_1_def)

text \<open>
  Claim C2. Take any run of \<^verbatim>\<open>InitDevice\<close> that returns, and any device-creation call
  of it that passes the full list \<open>featureLevels\<close> for a driver type \<open>d\<close> and that the
  platform answers with \<^verbatim>\<open>E_INVALIDARG\<close>. The very next device-creation call is for the
  same driver type \<open>d\<close>, with the same flags, and passes the list without its first
  element \<^verbatim>\<open>D3D_FEATURE_LEVEL_11_1\<close>. If the platform answers that call with a success,
  no device-creation call follows it (the loop stops, no later driver type is tried), and
  the driver type, the device and the immediate context of the object are those of that
  call.
\<close>

theorem InitDevice_retry_without_top_level:
  assumes "InitDevice dbg p r = Some (hr, r', t)"
      and "filter is_D3D11CreateDevice t
             = pre @ Ev_D3D11CreateDevice d fl featureLevels sdk # post"
      and "fst (D3D11CreateDevice p d fl featureLevels sdk) = E_INVALIDARG"
  shows "\<exists>post'. post = Ev_D3D11CreateDevice d fl (tl featureLevels) sdk # post' \<and>
           (SUCCEEDED (fst (D3D11CreateDevice p d fl (tl featureLevels) sdk)) \<longrightarrow>
              post' = [] \<and> m_driverType r' = d \<and>
              m_pDevice r' = fst (snd (D3D11CreateDevice p d fl (tl featureLevels) sdk)) \<and>
              m_pImmediateContext r'
                = snd (snd (snd (D3D11CreateDevice p d fl (tl featureLevels) sdk))))"
proof -
  from assms(1) obtain hr1 r1 t1 where
    loop: "create_device_loop p (createDeviceFlags dbg) driverTypes S_OK r = (hr1, r1, t1)"
    and calls: "filter is_D3D11CreateDevice t = t1"
    and members: "m_driverType r' = m_driverType r1" "m_pDevice r' = m_pDevice r1"
      "m_pImmediateContext r' = m_pImmediateContext r1"
    by (rule InitDevice_device_stage)
  from calls assms(2)
  have "t1 = pre @ Ev_D3D11CreateDevice d fl featureLevels sdk # post" by simp
  from create_device_loop_retry [OF loop this assms(3)] members show ?thesis
    by auto
qed

lemma swap_chain_desc1_fields:
  "swap_chain_desc1 width height =
     \<lparr>sd1_Width = width, sd1_Height = height, sd1_Format = DXGI_FORMAT_R8G8B8A8_UNORM,
      sd1_Stereo = 0, sd1_SampleDesc = \<lparr>Count = 1, Quality = 0\<rparr>,
      sd1_BufferUsage = DXGI_USAGE_RENDER_TARGET_OUTPUT, sd1_BufferCount = 1,
      sd1_Scaling = 0, sd1_SwapEffect = 0, sd1_AlphaMode = 0, sd1_Flags = 0\<rparr>"
  by (simp add: swap_chain_desc1_def zero_DXGI_SWAP_CHAIN_DESC1_def)

lemma swap_chain_desc_fields:
  "swap_chain_desc width height hWnd =
     \<lparr>sd_BufferDesc =
        \<lparr>md_Width = width, md_Height = height,
         md_RefreshRate = \<lparr>Numerator = 60, Denominator = 1\<rparr>,
         md_Format = DXGI_FORMAT_R8G8B8A8_UNORM, md_ScanlineOrdering = 0, md_Scaling = 0\<rparr>,
      sd_SampleDesc = \<lparr>Count = 1, Quality = 0\<rparr>,
      sd_BufferUsage = DXGI_USAGE_RENDER_TARGET_OUTPUT, sd_BufferCount = 1,
      sd_OutputWindow = hWnd, sd_Windowed = TRUE, sd_SwapEffect = 0, sd_Flags = 0\<rparr>"
  by (simp add: swap_chain_desc_def zero_DXGI_SWAP_CHAIN_DESC_def)

lemma create_swap_chain_factory:
  assumes "create_swap_chain p r width height fp = Some (hr, r', t)"
  obtains f where "fp = Some f"
  using assms by (cases fp) (simp_all add: create_swap_chain_def)

text \<open>The swap-chain stage, whatever its result: which path, which call, which members.\<close>

lemma create_swap_chain_path:
  assumes "create_swap_chain p r width height (Some f) = Some (hr, r', t)"
  shows
    "(\<forall>f'. Ev_QueryInterface f' IID_IDXGIFactory2 \<in> set t \<longleftrightarrow> f' = f) \<and>
     (case snd (QueryInterface p f IID_IDXGIFactory2) of
       Some f2 \<Rightarrow>
         filter is_swap_chain_creation t
           = [Ev_CreateSwapChainForHwnd f2 (m_pDevice r) (m_hWnd r)
                (swap_chain_desc1 width height)] \<and>
         m_pSwapChain1 r'
           = snd (CreateSwapChainForHwnd p f2 (m_pDevice r) (m_hWnd r)
                    (swap_chain_desc1 width height)) \<and>
         (if SUCCEEDED (fst (CreateSwapChainForHwnd p f2 (m_pDevice r) (m_hWnd r)
                               (swap_chain_desc1 width height)))
          then \<exists>s1. snd (CreateSwapChainForHwnd p f2 (m_pDevice r) (m_hWnd r)
                             (swap_chain_desc1 width height)) = Some s1 \<and>
                 Ev_QueryInterface s1 IID_IDXGISwapChain \<in> set t \<and>
                 m_pSwapChain r' = snd (QueryInterface p s1 IID_IDXGISwapChain) \<and>
                 hr = fst (QueryInterface p s1 IID_IDXGISwapChain)
          else m_pSwapChain r' = m_pSwapChain r \<and>
               hr = fst (CreateSwapChainForHwnd p f2 (m_pDevice r) (m_hWnd r)
                           (swap_chain_desc1 width height)))
     | None \<Rightarrow>
         filter is_swap_chain_creation t
           = [Ev_CreateSwapChain f (m_pDevice r) (swap_chain_desc width height (m_hWnd r))] \<and>
         m_pSwapChain r'
           = snd (CreateSwapChain p f (m_pDevice r)
                    (swap_chain_desc width height (m_hWnd r))) \<and>
         m_pSwapChain1 r' = m_pSwapChain1 r \<and>
         hr = fst (CreateSwapChain p f (m_pDevice r)
                     (swap_chain_desc width height (m_hWnd r))))"
  using assms
proof (cases rule: create_swap_chain_cases)
  case (legacy f0)
  then show ?thesis by auto
next
  case (for_hwnd f0 f2 t')
  from for_hwnd(3) show ?thesis
  proof (cases rule: swap_chain_for_hwnd_cases)
    case (not_created r1 up)
    from upgrade_interfaces_frame [OF not_created(1)] not_created for_hwnd
    have frame: "m_pDevice r1 = m_pDevice r" "m_hWnd r1 = m_hWnd r"
      "m_pSwapChain r1 = m_pSwapChain r" "filter is_swap_chain_creation up = []"
      by simp_all
    from not_created(1) have up: "Ev_QueryInterface f' IID_IDXGIFactory2 \<notin> set up" for f'
      by (cases rule: upgrade_interfaces_cases) simp_all
    from frame up not_created for_hwnd show ?thesis by auto
  next
    case (created r1 up s1)
    from upgrade_interfaces_frame [OF created(1)] created for_hwnd
    have frame: "m_pDevice r1 = m_pDevice r" "m_hWnd r1 = m_hWnd r"
      "m_pSwapChain r1 = m_pSwapChain r" "filter is_swap_chain_creation up = []"
      by simp_all
    from created(1) have up: "Ev_QueryInterface f' IID_IDXGIFactory2 \<notin> set up" for f'
      by (cases rule: upgrade_interfaces_cases) simp_all
    from frame up created for_hwnd show ?thesis by auto
  qed
qed

lemma only_device_calls:
  assumes "filter is_D3D11CreateDevice t = t"
  shows "filter is_swap_chain_creation t = []" and "filter is_RSSetViewports t = []"
    and "filter is_GetClientRect t = []" and "Ev_QueryInterface f iid \<notin> set t"
proof -
  from assms have all: "\<forall>e\<in>set t. is_D3D11CreateDevice e"
    by (simp add: filter_id_conv)
  show "filter is_swap_chain_creation t = []"
    unfolding filter_empty_conv
  proof
    fix e assume "e \<in> set t"
    with all have "is_D3D11CreateDevice e" by blast
    then show "\<not> is_swap_chain_creation e" by (cases e) simp_all
  qed
  show "filter is_RSSetViewports t = []"
    unfolding filter_empty_conv
  proof
    fix e assume "e \<in> set t"
    with all have "is_D3D11CreateDevice e" by blast
    then show "\<not> is_RSSetViewports e" by (cases e) simp_all
  qed
  show "filter is_GetClientRect t = []"
    unfolding filter_empty_conv
  proof
    fix e assume "e \<in> set t"
    with all have "is_D3D11CreateDevice e" by blast
    then show "\<not> is_GetClientRect e" by (cases e) simp_all
  qed
  show "Ev_QueryInterface f iid \<notin> set t"
    using all by fastforce
qed

lemma obtain_factory_no_factory2_query:
  assumes "obtain_factory p r = Some (hr, f, t)"
  shows "Ev_QueryInterface f' IID_IDXGIFactory2 \<notin> set t"
  using assms by (cases rule: obtain_factory_cases) simp_all

lemma create_render_target_no_factory2_query:
  assumes "create_render_target p r width height = Some (hr, r', t)"
  shows "Ev_QueryInterface f' iid \<notin> set t"
  using assms by (cases rule: create_render_target_cases) simp_all

text \<open>A returned run that made the query for \<^verbatim>\<open>IDXGIFactory2\<close>, cut at its stages.\<close>

lemma InitDevice_swap_chain_stage:
  assumes "InitDevice dbg p r = Some (hr, r', t)"
      and "Ev_QueryInterface f IID_IDXGIFactory2 \<in> set t"
  obtains r1 hr3 r3 t12 t3 t4 where
    "m_hWnd r1 = m_hWnd r"
    "create_swap_chain p r1 (client_width p (m_hWnd r)) (client_height p (m_hWnd r)) (Some f)
       = Some (hr3, r3, t3)"
    "t = Ev_GetClientRect (m_hWnd r) # t12 @ t3 @ t4"
    "filter is_swap_chain_creation t12 = []" "filter is_RSSetViewports t12 = []"
    "filter is_GetClientRect t12 = []"
    "FAILED hr3 \<and> hr = hr3 \<and> r' = r3 \<and> t4 = []
     \<or> \<not> FAILED hr3 \<and>
       create_render_target p r3 (client_width p (m_hWnd r)) (client_height p (m_hWnd r))
         = Some (hr, r', t4)"
  using assms(1)
proof (cases rule: InitDevice_cases)
  case (no_device t1)
  from create_device_loop_frame [OF no_device(1)] have "filter is_D3D11CreateDevice t1 = t1"
    by simp
  from only_device_calls(4) [OF this] no_device assms(2) show ?thesis by simp
next
  case (no_factory hr1 r1 t1 f0 t2)
  from create_device_loop_frame [OF no_factory(1)] have "filter is_D3D11CreateDevice t1 = t1"
    by simp
  from only_device_calls(4) [OF this] obtain_factory_no_factory2_query [OF no_factory(3)]
    no_factory assms(2)
  show ?thesis by simp
next
  case (no_swap_chain hr1 r1 t1 hr2 f0 t2 t3)
  from create_device_loop_frame [OF no_swap_chain(1)]
  have t1: "filter is_D3D11CreateDevice t1 = t1" and hwnd: "m_hWnd r1 = m_hWnd r"
    by simp_all
  from no_swap_chain(5) obtain f1 where f0: "f0 = Some f1"
    by (rule create_swap_chain_factory)
  from create_swap_chain_path [OF no_swap_chain(5) [unfolded f0]]
  have f1: "\<And>f'. Ev_QueryInterface f' IID_IDXGIFactory2 \<in> set t3 \<longleftrightarrow> f' = f1"
    by blast
  from only_device_calls(4) [OF t1] obtain_factory_no_factory2_query [OF no_swap_chain(3)]
    no_swap_chain(7) assms(2) f1
  have "f1 = f" by auto
  with f0 no_swap_chain hwnd only_device_calls(1,2,3) [OF t1]
    obtain_factory_frame [OF no_swap_chain(3)]
  show ?thesis
    by (intro that [where ?r1.0 = r1 and ?hr3.0 = hr and ?r3.0 = r' and ?t12.0 = "t1 @ t2"
                       and ?t3.0 = t3 and ?t4.0 = "[]"]) simp_all
next
  case (render_target hr1 r1 t1 hr2 f0 t2 hr3 r3 t3 t4)
  from create_device_loop_frame [OF render_target(1)]
  have t1: "filter is_D3D11CreateDevice t1 = t1" and hwnd: "m_hWnd r1 = m_hWnd r"
    by simp_all
  from render_target(5) obtain f1 where f0: "f0 = Some f1"
    by (rule create_swap_chain_factory)
  from create_swap_chain_path [OF render_target(5) [unfolded f0]]
  have f1: "\<And>f'. Ev_QueryInterface f' IID_IDXGIFactory2 \<in> set t3 \<longleftrightarrow> f' = f1"
    by blast
  from only_device_calls(4) [OF t1] obtain_factory_no_factory2_query [OF render_target(3)]
    create_render_target_no_factory2_query [OF render_target(7)]
    render_target(8) assms(2) f1
  have "f1 = f" by auto
  with f0 render_target hwnd only_device_calls(1,2,3) [OF t1]
    obtain_factory_frame [OF render_target(3)]
  show ?thesis
    by (intro that [where ?r1.0 = r1 and ?hr3.0 = hr3 and ?r3.0 = r3 and ?t12.0 = "t1 @ t2"
                       and ?t3.0 = t3 and ?t4.0 = t4]) simp_all
qed

text \<open>
  Claim C4. In a run of \<^verbatim>\<open>InitDevice\<close> that returns and that has queried the factory
  \<open>f\<close> for \<^verbatim>\<open>IDXGIFactory2\<close>, the path is selected on the pointer that query stored.
  When it is not null (\<open>Some f2\<close>), the only swap-chain creation call of the run is
  \<^verbatim>\<open>CreateSwapChainForHwnd\<close> on \<open>f2\<close>, for the member device and the member window,
  with a description of the client-area width and height, the format
  \<^verbatim>\<open>DXGI_FORMAT_R8G8B8A8_UNORM\<close>, buffer count 1 (sample count 1, render-target usage,
  every other field zero); its out-parameter is \<^verbatim>\<open>m_pSwapChain1\<close>, and when it succeeded
  the new swap chain is queried for \<^verbatim>\<open>IDXGISwapChain\<close> and the answer stored in
  \<^verbatim>\<open>m_pSwapChain\<close>. When it is null, the only swap-chain creation call is
  \<^verbatim>\<open>CreateSwapChain\<close> on \<open>f\<close> itself, with buffer count 1, the same width, height and
  format, refresh rate 60/1, \<^verbatim>\<open>Windowed = TRUE\<close> and the member window as output window;
  its out-parameter is \<^verbatim>\<open>m_pSwapChain\<close>.
\<close>

theorem InitDevice_swap_chain_path:
  assumes "InitDevice dbg p r = Some (hr, r', t)"
      and "Ev_QueryInterface f IID_IDXGIFactory2 \<in> set t"
  shows "case snd (QueryInterface p f IID_IDXGIFactory2) of
           Some f2 \<Rightarrow>
             filter is_swap_chain_creation t
               = [Ev_CreateSwapChainForHwnd f2 (m_pDevice r') (m_hWnd r)
                    \<lparr>sd1_Width = client_width p (m_hWnd r),
                     sd1_Height = client_height p (m_hWnd r),
                     sd1_Format = DXGI_FORMAT_R8G8B8A8_UNORM, sd1_Stereo = 0,
                     sd1_SampleDesc = \<lparr>Count = 1, Quality = 0\<rparr>,
                     sd1_BufferUsage = DXGI_USAGE_RENDER_TARGET_OUTPUT,
                     sd1_BufferCount = 1, sd1_Scaling = 0, sd1_SwapEffect = 0,
                     sd1_AlphaMode = 0, sd1_Flags = 0\<rparr>] \<and>
             m_pSwapChain1 r'
               = snd (CreateSwapChainForHwnd p f2 (m_pDevice r') (m_hWnd r)
                        (swap_chain_desc1 (client_width p (m_hWnd r))
                           (client_height p (m_hWnd r)))) \<and>
             (SUCCEEDED
                (fst (CreateSwapChainForHwnd p f2 (m_pDevice r') (m_hWnd r)
                        (swap_chain_desc1 (client_width p (m_hWnd r))
                           (client_height p (m_hWnd r))))) \<longrightarrow>
              (\<exists>s1. m_pSwapChain1 r' = Some s1 \<and>
                 Ev_QueryInterface s1 IID_IDXGISwapChain \<in> set t \<and>
                 m_pSwapChain r' = snd (QueryInterface p s1 IID_IDXGISwapChain)))
         | None \<Rightarrow>
             filter is_swap_chain_creation t
               = [Ev_CreateSwapChain f (m_pDevice r')
                    \<lparr>sd_BufferDesc =
                       \<lparr>md_Width = client_width p (m_hWnd r),
                        md_Height = client_height p (m_hWnd r),
                        md_RefreshRate = \<lparr>Numerator = 60, Denominator = 1\<rparr>,
                        md_Format = DXGI_FORMAT_R8G8B8A8_UNORM, md_ScanlineOrdering = 0,
                        md_Scaling = 0\<rparr>,
                     sd_SampleDesc = \<lparr>Count = 1, Quality = 0\<rparr>,
                     sd_BufferUsage = DXGI_USAGE_RENDER_TARGET_OUTPUT, sd_BufferCount = 1,
                     sd_OutputWindow = m_hWnd r, sd_Windowed = TRUE, sd_SwapEffect = 0,
                     sd_Flags = 0\<rparr>] \<and>
             m_pSwapChain r'
               = snd (CreateSwapChain p f (m_pDevice r')
                        (swap_chain_desc (client_width p (m_hWnd r))
                           (client_height p (m_hWnd r)) (m_hWnd r)))"
proof -
  let ?w = "client_width p (m_hWnd r)" and ?h = "client_height p (m_hWnd r)"
  from assms obtain r1 hr3 r3 t12 t3 t4 where
    hwnd: "m_hWnd r1 = m_hWnd r"
    and stage: "create_swap_chain p r1 ?w ?h (Some f) = Some (hr3, r3, t3)"
    and t: "t = Ev_GetClientRect (m_hWnd r) # t12 @ t3 @ t4"
    and t12: "filter is_swap_chain_creation t12 = []"
    and rest: "FAILED hr3 \<and> hr = hr3 \<and> r' = r3 \<and> t4 = []
               \<or> \<not> FAILED hr3 \<and> create_render_target p r3 ?w ?h = Some (hr, r', t4)"
    by (rule InitDevice_swap_chain_stage)
  from rest have after:
    "filter is_swap_chain_creation t4 = [] \<and> m_pDevice r' = m_pDevice r3 \<and>
     m_pSwapChain r' = m_pSwapChain r3 \<and> m_pSwapChain1 r' = m_pSwapChain1 r3"
    by (auto dest!: create_render_target_frame)
  from create_swap_chain_frame [OF stage] have dev: "m_pDevice r3 = m_pDevice r1"
    by simp
  from t t12 after have calls:
    "filter is_swap_chain_creation t = filter is_swap_chain_creation t3"
    by simp
  from t have sub: "set t3 \<subseteq> set t" by auto
  show ?thesis
  proof (cases "snd (QueryInterface p f IID_IDXGIFactory2)")
    case None
    with create_swap_chain_path [OF stage] calls after dev hwnd show ?thesis
      by (simp add: swap_chain_desc_fields)
  next
    case (Some f2)
    let ?c = "CreateSwapChainForHwnd p f2 (m_pDevice r1) (m_hWnd r1) (swap_chain_desc1 ?w ?h)"
    from create_swap_chain_path [OF stage] Some
    have call: "filter is_swap_chain_creation t3
                  = [Ev_CreateSwapChainForHwnd f2 (m_pDevice r1) (m_hWnd r1)
                       (swap_chain_desc1 ?w ?h)]"
      and sc1: "m_pSwapChain1 r3 = snd ?c"
      and adapt: "SUCCEEDED (fst ?c) \<longrightarrow>
                    (\<exists>s1. snd ?c = Some s1 \<and>
                       Ev_QueryInterface s1 IID_IDXGISwapChain \<in> set t3 \<and>
                       m_pSwapChain r3 = snd (QueryInterface p s1 IID_IDXGISwapChain))"
      by (auto split: if_splits)
    from adapt sub after
    have "SUCCEEDED (fst ?c) \<longrightarrow>
            (\<exists>s1. snd ?c = Some s1 \<and>
               Ev_QueryInterface s1 IID_IDXGISwapChain \<in> set t \<and>
               m_pSwapChain r' = snd (QueryInterface p s1 IID_IDXGISwapChain))"
      by auto
    with call sc1 calls after dev hwnd Some show ?thesis
      by (simp add: swap_chain_desc1_fields)
  qed
qed

theorem InitDevice_retry_without_top_level_witness:
  "InitDevice False host_d3d11_0 fresh_renderer = Some (S_OK, bundle_full, trace_d3d11_0) \<and>
   filter is_D3D11CreateDevice trace_d3d11_0
     = [] @ Ev_D3D11CreateDevice D3D_DRIVER_TYPE_HARDWARE 0 featureLevels D3D11_SDK_VERSION
          # [Ev_D3D11CreateDevice D3D_DRIVER_TYPE_HARDWARE 0 (tl featureLevels)
               D3D11_SDK_VERSION] \<and>
   fst (D3D11CreateDevice host_d3d11_0 D3D_DRIVER_TYPE_HARDWARE 0 featureLevels
          D3D11_SDK_VERSION) = E_INVALIDARG \<and>
   SUCCEEDED (fst (D3D11CreateDevice host_d3d11_0 D3D_DRIVER_TYPE_HARDWARE 0
                     (tl featureLevels) D3D11_SDK_VERSION)) \<and>
   m_driverType bundle_full = D3D_DRIVER_TYPE_HARDWARE \<and> m_pDevice bundle_full = Some 1 \<and>
   m_pImmediateContext bundle_full = Some 2"
proof -
  have calls:
    "filter is_D3D11CreateDevice trace_d3d11_0
       = [] @ Ev_D3D11CreateDevice D3D_DRIVER_TYPE_HARDWARE 0 featureLevels D3D11_SDK_VERSION
            # [Ev_D3D11CreateDevice D3D_DRIVER_TYPE_HARDWARE 0 (tl featureLevels)
                 D3D11_SDK_VERSION]"
    by (simp add: trace_d3d11_0_def)
  have rejected:
    "fst (D3D11CreateDevice host_d3d11_0 D3D_DRIVER_TYPE_HARDWARE 0 featureLevels
            D3D11_SDK_VERSION) = E_INVALIDARG"
    by (simp add: host_d3d11_0_def featureLevels_def)
  have retried:
    "SUCCEEDED (fst (D3D11CreateDevice host_d3d11_0 D3D_DRIVER_TYPE_HARDWARE 0
                       (tl featureLevels) D3D11_SDK_VERSION))"
    by (simp add: host_d3d11_0_def featureLevels_def SUCCEEDED_def S_OK_def)
  have answer:
    "D3D11CreateDevice host_d3d11_0 D3D_DRIVER_TYPE_HARDWARE 0 (tl featureLevels)
       D3D11_SDK_VERSION = (S_OK, Some 1, D3D_FEATURE_LEVEL_11_0, Some 2)"
    by (simp add: host_d3d11_0_def featureLevels_def)
  from InitDevice_retry_without_top_level [OF InitDevice_host_d3d11_0 calls rejected]
    retried answer
  have "m_driverType bundle_full = D3D_DRIVER_TYPE_HARDWARE \<and> m_pDevice bundle_full = Some 1
          \<and> m_pImmediateContext bundle_full = Some 2"
    by simp
  with InitDevice_host_d3d11_0 calls rejected retried show ?thesis by blast
qed

theorem InitDevice_swap_chain_path_witness:
  "InitDevice False host_d3d11_1 fresh_renderer = Some (S_OK, bundle_d3d11_1, trace_d3d11_1) \<and>
   Ev_QueryInterface 12 IID_IDXGIFactory2 \<in> set trace_d3d11_1 \<and>
   snd (QueryInterface host_d3d11_1 12 IID_IDXGIFactory2) = Some 13 \<and>
   filter is_swap_chain_creation trace_d3d11_1
     = [Ev_CreateSwapChainForHwnd 13 (Some 1) 7
          \<lparr>sd1_Width = 1280, sd1_Height = 720, sd1_Format = DXGI_FORMAT_R8G8B8A8_UNORM,
           sd1_Stereo = 0, sd1_SampleDesc = \<lparr>Count = 1, Quality = 0\<rparr>,
           sd1_BufferUsage = DXGI_USAGE_RENDER_TARGET_OUTPUT, sd1_BufferCount = 1,
           sd1_Scaling = 0, sd1_SwapEffect = 0, sd1_AlphaMode = 0, sd1_Flags = 0\<rparr>] \<and>
   m_pSwapChain1 bundle_d3d11_1 = Some 31 \<and>
   Ev_QueryInterface 31 IID_IDXGISwapChain \<in> set trace_d3d11_1 \<and>
   m_pSwapChain bundle_d3d11_1 = Some 3 \<and>
   InitDevice False host_d3d11_0 fresh_renderer = Some (S_OK, bundle_full, trace_d3d11_0) \<and>
   Ev_QueryInterface 12 IID_IDXGIFactory2 \<in> set trace_d3d11_0 \<and>
   snd (QueryInterface host_d3d11_0 12 IID_IDXGIFactory2) = None \<and>
   filter is_swap_chain_creation trace_d3d11_0
     = [Ev_CreateSwapChain 12 (Some 1)
          \<lparr>sd_BufferDesc =
             \<lparr>md_Width = 1280, md_Height = 720,
              md_RefreshRate = \<lparr>Numerator = 60, Denominator = 1\<rparr>,
              md_Format = DXGI_FORMAT_R8G8B8A8_UNORM, md_ScanlineOrdering = 0,
              md_Scaling = 0\<rparr>,
           sd_SampleDesc = \<lparr>Count = 1, Quality = 0\<rparr>,
           sd_BufferUsage = DXGI_USAGE_RENDER_TARGET_OUTPUT, sd_BufferCount = 1,
           sd_OutputWindow = 7, sd_Windowed = TRUE, sd_SwapEffect = 0, sd_Flags = 0\<rparr>] \<and>
   m_pSwapChain bundle_full = Some 3"
proof -
  have newer: "Ev_QueryInterface 12 IID_IDXGIFactory2 \<in> set trace_d3d11_1"
    by (simp add: trace_d3d11_1_def)
  have legacy: "Ev_QueryInterface 12 IID_IDXGIFactory2 \<in> set trace_d3d11_0"
    by (simp add: trace_d3d11_0_def)
  have size: "client_width host_d3d11_1 7 = 1280" "client_height host_d3d11_1 7 = 720"
    "client_width host_d3d11_0 7 = 1280" "client_height host_d3d11_0 7 = 720"
    by (simp_all add: client_width_def client_height_def host_d3d11_0_def host_d3d11_1_def)
  have f2: "snd (QueryInterface host_d3d11_1 12 IID_IDXGIFactory2) = Some 13"
    "snd (QueryInterface host_d3d11_0 12 IID_IDXGIFactory2) = None"
    by (simp_all add: host_d3d11_0_def host_d3d11_1_def)
  have created:
    "CreateSwapChainForHwnd host_d3d11_1 13 (Some 1) 7 (swap_chain_desc1 1280 720)
       = (S_OK, Some 31)"
    "QueryInterface host_d3d11_1 31 IID_IDXGISwapChain = (S_OK, Some 3)"
    "CreateSwapChain host_d3d11_0 12 (Some 1) (swap_chain_desc 1280 720 7) = (S_OK, Some 3)"
    by (simp_all add: host_d3d11_0_def host_d3d11_1_def)
  have members: "m_pDevice bundle_d3d11_1 = Some 1" "m_pDevice bundle_full = Some 1"
    "m_hWnd fresh_renderer = 7"
    by (simp_all add: bundle_d3d11_1_def bundle_full_def fresh_renderer_def)
  from InitDevice_swap_chain_path [OF InitDevice_host_d3d11_1 newer]
    InitDevice_swap_chain_path [OF InitDevice_host_d3d11_0 legacy]
    InitDevice_host_d3d11_1 InitDevice_host_d3d11_0 newer legacy size f2 created members
  show ?thesis
    by (auto simp: SUCCEEDED_def S_OK_def)
qed

text \<open>
  Claim C7. On an object whose immediate context and swap chain are not null, a call of
  \<^verbatim>\<open>Render\<close> makes exactly two platform calls: one \<^verbatim>\<open>ClearRenderTargetView\<close> of the
  member render target view with the constant colour \<^verbatim>\<open>MidnightBlue\<close>, then one
  \<^verbatim>\<open>Present\<close> with sync interval 0 and flags 0. It returns nothing else: whatever
  \<^verbatim>\<open>HRESULT\<close> the platform's \<^verbatim>\<open>Present\<close> answers, the outcome is the same.
\<close>

theorem Render_clear_then_present:
  assumes "m_pImmediateContext r = Some ctx" and "m_pSwapChain r = Some sc"
  shows "Render p r =
           Some [Ev_ClearRenderTargetView ctx (m_pRenderTargetView r) MidnightBlue,
                 Ev_Present sc 0 0]"
  using assms by (simp add: Render_def)

theorem Render_clear_then_present_witness:
  "m_pImmediateContext bundle_full = Some 2 \<and> m_pSwapChain bundle_full = Some 3 \<and>
   Present (host_d3d11_0\<lparr>Present := \<lambda>sc sync flags. E_FAIL\<rparr>) 3 0 0 = E_FAIL \<and>
   Render (host_d3d11_0\<lparr>Present := \<lambda>sc sync flags. E_FAIL\<rparr>) bundle_full =
     Some [Ev_ClearRenderTargetView 2 (Some 4) MidnightBlue, Ev_Present 3 0 0]"
  using Render_clear_then_present
          [of bundle_full 2 3 "host_d3d11_0\<lparr>Present := \<lambda>sc sync flags. E_FAIL\<rparr>"]
  by (simp add: bundle_full_def)

subsection \<open>Runs that return a success\<close>

lemma InitDevice_success:
  assumes "InitDevice dbg p r = Some (hr, r', t)" and "SUCCEEDED hr"
  obtains r1 t12 fp hr3 r3 t3 sc dev bb ctx where
    "m_hWnd r1 = m_hWnd r"
    "create_swap_chain p r1 (client_width p (m_hWnd r)) (client_height p (m_hWnd r)) fp
       = Some (hr3, r3, t3)"
    "filter is_swap_chain_creation t12 = []" "filter is_RSSetViewports t12 = []"
    "filter is_GetClientRect t12 = []"
    "m_pSwapChain r3 = Some sc" "m_pDevice r3 = Some dev" "m_pImmediateContext r3 = Some ctx"
    "SUCCEEDED (fst (CreateRenderTargetView p dev (Some bb)))"
    "hr = S_OK"
    "r' = r3\<lparr>m_pRenderTargetView := snd (CreateRenderTargetView p dev (Some bb))\<rparr>"
    "t = Ev_GetClientRect (m_hWnd r) # t12 @ t3
           @ [Ev_GetBuffer sc 0 IID_ID3D11Texture2D, Ev_CreateRenderTargetView dev (Some bb),
              Ev_Release bb,
              Ev_OMSetRenderTargets ctx [snd (CreateRenderTargetView p dev (Some bb))],
              Ev_RSSetViewports ctx
                [\<lparr>vp_TopLeftX = 0, vp_TopLeftY = 0,
                  vp_Width = UINT_to_FLOAT (client_width p (m_hWnd r)),
                  vp_Height = UINT_to_FLOAT (client_height p (m_hWnd r)),
                  vp_MinDepth = 0, vp_MaxDepth = 1\<rparr>]]"
    "snd (GetBuffer p sc 0 IID_ID3D11Texture2D) = Some bb"
  using assms(1)
proof (cases rule: InitDevice_cases)
  case (no_device t1)
  with assms(2) show ?thesis by (simp add: not_SUCCEEDED_iff [symmetric])
next
  case (no_factory hr1 r1 t1 f t2)
  with assms(2) show ?thesis by (simp add: not_SUCCEEDED_iff [symmetric])
next
  case (no_swap_chain hr1 r1 t1 hr2 f t2 t3)
  with assms(2) show ?thesis by (simp add: not_SUCCEEDED_iff [symmetric])
next
  case (render_target hr1 r1 t1 hr2 f t2 hr3 r3 t3 t4)
  from create_device_loop_frame [OF render_target(1)]
  have t1: "filter is_D3D11CreateDevice t1 = t1" and hwnd: "m_hWnd r1 = m_hWnd r"
    by simp_all
  note t12 = only_device_calls(1,2,3) [OF t1] obtain_factory_frame [OF render_target(3)]
  from render_target(7) show ?thesis
  proof (cases rule: create_render_target_cases)
    case (no_buffer sc)
    with assms(2) show ?thesis by (simp add: not_SUCCEEDED_iff [symmetric])
  next
    case (no_view sc dev bb)
    with assms(2) show ?thesis by (simp add: not_SUCCEEDED_iff [symmetric])
  next
    case (bound sc dev bb ctx)
    with render_target hwnd t12 show ?thesis
      by (intro that [where ?r1.0 = r1 and ?t12.0 = "t1 @ t2" and fp = f and ?hr3.0 = hr3
                        and ?r3.0 = r3 and ?t3.0 = t3 and sc = sc and dev = dev and bb = bb
                        and ctx = ctx])
         (simp_all add: not_FAILED_iff)
  qed
qed

text \<open>
  Claim C8, as the code has it. Whenever \<^verbatim>\<open>InitDevice\<close> returns a success, the value
  returned is \<^verbatim>\<open>S_OK\<close>, and the device, the immediate context and the swap chain of the
  object are not null: the function has called through each of them. The render target
  view is the pointer that the call of \<^verbatim>\<open>CreateRenderTargetView\<close> on the device, for the
  back buffer of the swap chain, has stored; that call has succeeded, and
  \<^verbatim>\<open>InitDevice\<close> neither tests nor dereferences the pointer. So the view is not null
  exactly when the platform has stored a view with its success.
\<close>

theorem InitDevice_success_all_resources:
  assumes "InitDevice dbg p r = Some (hr, r', t)" and "SUCCEEDED hr"
  shows "hr = S_OK \<and> m_pDevice r' \<noteq> None \<and> m_pImmediateContext r' \<noteq> None \<and>
         m_pSwapChain r' \<noteq> None \<and>
         (\<exists>dev sc bb.
            m_pDevice r' = Some dev \<and> m_pSwapChain r' = Some sc \<and>
            snd (GetBuffer p sc 0 IID_ID3D11Texture2D) = Some bb \<and>
            Ev_CreateRenderTargetView dev (Some bb) \<in> set t \<and>
            SUCCEEDED (fst (CreateRenderTargetView p dev (Some bb))) \<and>
            m_pRenderTargetView r' = snd (CreateRenderTargetView p dev (Some bb)))"
  using assms
proof (cases rule: InitDevice_success)
  case (1 r1 t12 fp hr3 r3 t3 sc dev bb ctx)
  then show ?thesis by simp
qed

lemma swap_chain_size_filter:
  "concat (map swap_chain_size (filter is_swap_chain_creation t))
     = concat (map swap_chain_size t)"
proof (induction t)
  case Nil
  show ?case by simp
next
  case (Cons e t)
  then show ?case by (cases e) simp_all
qed

lemma viewport_size_filter:
  "concat (map viewport_size (filter is_RSSetViewports t)) = concat (map viewport_size t)"
proof (induction t)
  case Nil
  show ?case by simp
next
  case (Cons e t)
  then show ?case by (cases e) simp_all
qed

lemma create_swap_chain_one_call:
  assumes "create_swap_chain p r width height fp = Some (hr, r', t)"
  shows "\<exists>e. filter is_swap_chain_creation t = [e] \<and> swap_chain_size e = [(width, height)]"
proof -
  from assms obtain f where "fp = Some f" by (rule create_swap_chain_factory)
  with assms have "create_swap_chain p r width height (Some f) = Some (hr, r', t)" by simp
  from create_swap_chain_path [OF this] show ?thesis
    by (cases "snd (QueryInterface p f IID_IDXGIFactory2)")
       (simp_all add: swap_chain_desc1_fields swap_chain_desc_fields)
qed

lemma InitDevice_GetClientRect_once:
  assumes "InitDevice dbg p r = Some (hr, r', t)"
  shows "filter is_GetClientRect t = [Ev_GetClientRect (m_hWnd r)] \<and>
         hd t = Ev_GetClientRect (m_hWnd r)"
  using assms
proof (cases rule: InitDevice_cases)
  case (no_device t1)
  from create_device_loop_frame [OF no_device(1)] have "filter is_D3D11CreateDevice t1 = t1"
    by simp
  from only_device_calls(3) [OF this] no_device show ?thesis by simp
next
  case (no_factory hr1 r1 t1 f t2)
  from create_device_loop_frame [OF no_factory(1)] have "filter is_D3D11CreateDevice t1 = t1"
    by simp
  from only_device_calls(3) [OF this] obtain_factory_frame [OF no_factory(3)] no_factory
  show ?thesis by simp
next
  case (no_swap_chain hr1 r1 t1 hr2 f t2 t3)
  from create_device_loop_frame [OF no_swap_chain(1)]
  have "filter is_D3D11CreateDevice t1 = t1" by simp
  from only_device_calls(3) [OF this] obtain_factory_frame [OF no_swap_chain(3)]
    create_swap_chain_frame [OF no_swap_chain(5)] no_swap_chain
  show ?thesis by simp
next
  case (render_target hr1 r1 t1 hr2 f t2 hr3 r3 t3 t4)
  from create_device_loop_frame [OF render_target(1)]
  have "filter is_D3D11CreateDevice t1 = t1" by simp
  from only_device_calls(3) [OF this] obtain_factory_frame [OF render_target(3)]
    create_swap_chain_frame [OF render_target(5)]
    create_render_target_frame [OF render_target(7)] render_target
  show ?thesis by simp
qed

lemma create_render_target_viewport:
  assumes "create_render_target p r width height = Some (hr, r', t)" and "FAILED hr"
  shows "filter is_RSSetViewports t = []"
  using assms
  by (cases rule: create_render_target_cases)
     (simp_all add: FAILED_def S_OK_def)

lemma InitDevice_failure_no_viewport:
  assumes "InitDevice dbg p r = Some (hr, r', t)" and "FAILED hr"
  shows "filter is_RSSetViewports t = []"
  using assms(1)
proof (cases rule: InitDevice_cases)
  case (no_device t1)
  from create_device_loop_frame [OF no_device(1)] have "filter is_D3D11CreateDevice t1 = t1"
    by simp
  from only_device_calls(2) [OF this] no_device show ?thesis by simp
next
  case (no_factory hr1 r1 t1 f t2)
  from create_device_loop_frame [OF no_factory(1)] have "filter is_D3D11CreateDevice t1 = t1"
    by simp
  from only_device_calls(2) [OF this] obtain_factory_frame [OF no_factory(3)] no_factory
  show ?thesis by simp
next
  case (no_swap_chain hr1 r1 t1 hr2 f t2 t3)
  from create_device_loop_frame [OF no_swap_chain(1)]
  have "filter is_D3D11CreateDevice t1 = t1" by simp
  from only_device_calls(2) [OF this] obtain_factory_frame [OF no_swap_chain(3)]
    create_swap_chain_frame [OF no_swap_chain(5)] no_swap_chain
  show ?thesis by simp
next
  case (render_target hr1 r1 t1 hr2 f t2 hr3 r3 t3 t4)
  from create_device_loop_frame [OF render_target(1)]
  have "filter is_D3D11CreateDevice t1 = t1" by simp
  from only_device_calls(2) [OF this] obtain_factory_frame [OF render_target(3)]
    create_swap_chain_frame [OF render_target(5)]
    create_render_target_viewport [OF render_target(7) assms(2)] render_target
  show ?thesis by simp
qed

lemma InitDevice_success_viewport:
  assumes "InitDevice dbg p r = Some (hr, r', t)" and "SUCCEEDED hr"
  shows "\<exists>ctx. m_pImmediateContext r' = Some ctx \<and>
           filter is_RSSetViewports t
             = [Ev_RSSetViewports ctx
                  [\<lparr>vp_TopLeftX = 0, vp_TopLeftY = 0,
                    vp_Width = UINT_to_FLOAT (client_width p (m_hWnd r)),
                    vp_Height = UINT_to_FLOAT (client_height p (m_hWnd r)),
                    vp_MinDepth = 0, vp_MaxDepth = 1\<rparr>]]"
  using assms
proof (cases rule: InitDevice_success)
  case (1 r1 t12 fp hr3 r3 t3 sc dev bb ctx)
  from create_swap_chain_frame [OF 1(2)] 1 show ?thesis by simp
qed

lemma InitDevice_swap_chain_calls:
  assumes "InitDevice dbg p r = Some (hr, r', t)"
  shows "FAILED hr \<and> filter is_swap_chain_creation t = []
         \<or> (\<exists>e. filter is_swap_chain_creation t = [e] \<and>
                swap_chain_size e
                  = [(client_width p (m_hWnd r), client_height p (m_hWnd r))])"
  using assms
proof (cases rule: InitDevice_cases)
  case (no_device t1)
  from create_device_loop_frame [OF no_device(1)] have "filter is_D3D11CreateDevice t1 = t1"
    by simp
  from only_device_calls(1) [OF this] no_device show ?thesis by simp
next
  case (no_factory hr1 r1 t1 f t2)
  from create_device_loop_frame [OF no_factory(1)] have "filter is_D3D11CreateDevice t1 = t1"
    by simp
  from only_device_calls(1) [OF this] obtain_factory_frame [OF no_factory(3)] no_factory
  show ?thesis by simp
next
  case (no_swap_chain hr1 r1 t1 hr2 f t2 t3)
  from create_device_loop_frame [OF no_swap_chain(1)]
  have "filter is_D3D11CreateDevice t1 = t1" by simp
  from only_device_calls(1) [OF this] obtain_factory_frame [OF no_swap_chain(3)]
    no_swap_chain
  have "filter is_swap_chain_creation t = filter is_swap_chain_creation t3" by simp
  with create_swap_chain_one_call [OF no_swap_chain(5)] show ?thesis by auto
next
  case (render_target hr1 r1 t1 hr2 f t2 hr3 r3 t3 t4)
  from create_device_loop_frame [OF render_target(1)]
  have "filter is_D3D11CreateDevice t1 = t1" by simp
  from only_device_calls(1) [OF this] obtain_factory_frame [OF render_target(3)]
    create_render_target_frame [OF render_target(7)] render_target
  have "filter is_swap_chain_creation t = filter is_swap_chain_creation t3" by simp
  with create_swap_chain_one_call [OF render_target(5)] show ?thesis by auto
qed

lemma InitDevice_viewport_calls:
  assumes "InitDevice dbg p r = Some (hr, r', t)"
  shows "FAILED hr \<and> filter is_RSSetViewports t = []
         \<or> SUCCEEDED hr \<and>
           (\<exists>e. filter is_RSSetViewports t = [e] \<and>
                viewport_size e
                  = [(UINT_to_FLOAT (client_width p (m_hWnd r)),
                      UINT_to_FLOAT (client_height p (m_hWnd r)))])"
proof (cases "SUCCEEDED hr")
  case True
  from InitDevice_success_viewport [OF assms True] True show ?thesis by auto
next
  case False
  then have "FAILED hr" by (simp add: not_SUCCEEDED_iff)
  with InitDevice_failure_no_viewport [OF assms this] show ?thesis by simp
qed

text \<open>
  Claim C5, as the code has it. A run of \<^verbatim>\<open>InitDevice\<close> that returns a success has
  made exactly one \<^verbatim>\<open>RSSetViewports\<close> call, on the immediate context of the object, with
  one viewport: top-left (0, 0), depth range 0 to 1, width and height the conversions to
  \<^verbatim>\<open>FLOAT\<close> of \<^verbatim>\<open>rc.right - rc.left\<close> and \<^verbatim>\<open>rc.bottom - rc.top\<close> of the client
  rectangle queried by the first call of the run. The conversion is the identity on
  every size below \<open>2\<^sup>2\<^sup>4\<close>; above, it rounds to a significand of 24 bits, so the
  viewport is then not exactly the client area.
\<close>

theorem InitDevice_viewport:
  assumes "InitDevice dbg p r = Some (hr, r', t)" and "SUCCEEDED hr"
  shows "hd t = Ev_GetClientRect (m_hWnd r) \<and>
         (\<exists>ctx. m_pImmediateContext r' = Some ctx \<and>
            filter is_RSSetViewports t
              = [Ev_RSSetViewports ctx
                   [\<lparr>vp_TopLeftX = 0, vp_TopLeftY = 0,
                     vp_Width = UINT_to_FLOAT (client_width p (m_hWnd r)),
                     vp_Height = UINT_to_FLOAT (client_height p (m_hWnd r)),
                     vp_MinDepth = 0, vp_MaxDepth = 1\<rparr>]]) \<and>
         (unat (client_width p (m_hWnd r)) < 2 ^ 24 \<longrightarrow>
            UINT_to_FLOAT (client_width p (m_hWnd r))
              = of_nat (unat (client_width p (m_hWnd r)))) \<and>
         (unat (client_height p (m_hWnd r)) < 2 ^ 24 \<longrightarrow>
            UINT_to_FLOAT (client_height p (m_hWnd r))
              = of_nat (unat (client_height p (m_hWnd r))))"
  using InitDevice_success_viewport [OF assms] InitDevice_GetClientRect_once [OF assms(1)]
  by (simp add: UINT_to_FLOAT_exact)

text \<open>
  Claim C10, as the code has it. A run of \<^verbatim>\<open>InitDevice\<close> that returns has called
  \<^verbatim>\<open>GetClientRect\<close> exactly once, as its first platform call. It has made at most one
  swap-chain creation call and at most one \<^verbatim>\<open>RSSetViewports\<close> call; every swap-chain
  description it has passed, on either path, carries the width and height computed from
  that rectangle, and every viewport it has bound carries their conversions to
  \<^verbatim>\<open>FLOAT\<close>. When the run returns a success there is exactly one of each, so the
  viewport size is the conversion to \<^verbatim>\<open>FLOAT\<close> of the swap-chain size: equal to it
  for a width and a height below \<open>2\<^sup>2\<^sup>4\<close>, where the conversion is the identity, its
  rounding to 24 bits above.
\<close>

theorem InitDevice_one_client_size:
  assumes "InitDevice dbg p r = Some (hr, r', t)"
  shows "filter is_GetClientRect t = [Ev_GetClientRect (m_hWnd r)] \<and>
         hd t = Ev_GetClientRect (m_hWnd r) \<and>
         length (filter is_swap_chain_creation t) \<le> 1 \<and>
         concat (map swap_chain_size t)
           = map (\<lambda>e. (client_width p (m_hWnd r), client_height p (m_hWnd r)))
               (filter is_swap_chain_creation t) \<and>
         length (filter is_RSSetViewports t) \<le> 1 \<and>
         concat (map viewport_size t)
           = map (\<lambda>e. (UINT_to_FLOAT (client_width p (m_hWnd r)),
                        UINT_to_FLOAT (client_height p (m_hWnd r))))
               (filter is_RSSetViewports t) \<and>
         (SUCCEEDED hr \<longrightarrow>
            concat (map swap_chain_size t)
              = [(client_width p (m_hWnd r), client_height p (m_hWnd r))] \<and>
            concat (map viewport_size t)
              = map (\<lambda>(w, h). (UINT_to_FLOAT w, UINT_to_FLOAT h))
                  (concat (map swap_chain_size t))) \<and>
         (unat (client_width p (m_hWnd r)) < 2 ^ 24 \<longrightarrow>
            UINT_to_FLOAT (client_width p (m_hWnd r))
              = of_nat (unat (client_width p (m_hWnd r)))) \<and>
         (unat (client_height p (m_hWnd r)) < 2 ^ 24 \<longrightarrow>
            UINT_to_FLOAT (client_height p (m_hWnd r))
              = of_nat (unat (client_height p (m_hWnd r))))"
proof -
  let ?w = "client_width p (m_hWnd r)" and ?h = "client_height p (m_hWnd r)"
  from InitDevice_swap_chain_calls [OF assms] swap_chain_size_filter [of t]
  have sizes: "length (filter is_swap_chain_creation t) \<le> 1 \<and>
               concat (map swap_chain_size t)
                 = map (\<lambda>e. (?w, ?h)) (filter is_swap_chain_creation t)"
    by (elim disjE conjE exE) simp_all
  from InitDevice_viewport_calls [OF assms] viewport_size_filter [of t]
  have views: "length (filter is_RSSetViewports t) \<le> 1 \<and>
               concat (map viewport_size t)
                 = map (\<lambda>e. (UINT_to_FLOAT ?w, UINT_to_FLOAT ?h)) (filter is_RSSetViewports t)"
    by (elim disjE conjE exE) simp_all
  have ok: "concat (map swap_chain_size t) = [(?w, ?h)] \<and>
            concat (map viewport_size t)
              = map (\<lambda>(w, h). (UINT_to_FLOAT w, UINT_to_FLOAT h))
                  (concat (map swap_chain_size t))"
    if "SUCCEEDED hr"
  proof -
    from that have "\<not> FAILED hr" by (simp add: not_FAILED_iff)
    with InitDevice_swap_chain_calls [OF assms] swap_chain_size_filter [of t]
    have "concat (map swap_chain_size t) = [(?w, ?h)]"
      by (elim disjE conjE exE) simp_all
    moreover from \<open>\<not> FAILED hr\<close> InitDevice_viewport_calls [OF assms]
      viewport_size_filter [of t]
    have "concat (map viewport_size t) = [(UINT_to_FLOAT ?w, UINT_to_FLOAT ?h)]"
      by (elim disjE conjE exE) simp_all
    ultimately show ?thesis by simp
  qed
  have exact: "unat ?w < 2 ^ 24 \<longrightarrow> UINT_to_FLOAT ?w = of_nat (unat ?w)"
    "unat ?h < 2 ^ 24 \<longrightarrow> UINT_to_FLOAT ?h = of_nat (unat ?h)"
    by (simp_all add: UINT_to_FLOAT_exact)
  from sizes views ok exact InitDevice_GetClientRect_once [OF assms] show ?thesis
    by blast
qed

lemma create_swap_chain_tail:
  assumes "create_swap_chain p r width height (Some f) = Some (hr, r', t)"
  shows "\<exists>body. t = body @ [Ev_MakeWindowAssociation f (m_hWnd r) DXGI_MWA_NO_ALT_ENTER,
                             Ev_Release f] \<and>
           length (filter is_swap_chain_creation body) = 1"
proof -
  from assms obtain body where
    body: "t = body @ [Ev_MakeWindowAssociation f (m_hWnd r) DXGI_MWA_NO_ALT_ENTER,
                       Ev_Release f]"
  proof (cases rule: create_swap_chain_cases)
    case (for_hwnd f0 f2 t')
    from swap_chain_for_hwnd_frame [OF for_hwnd(3)] for_hwnd
    show ?thesis
      by (intro that [of "Ev_QueryInterface f IID_IDXGIFactory2 # t'"]) simp
  next
    case (legacy f0)
    then show ?thesis
      by (intro that [of "[Ev_QueryInterface f IID_IDXGIFactory2,
                           Ev_CreateSwapChain f (m_pDevice r)
                             (swap_chain_desc width height (m_hWnd r))]"]) simp
  qed
  from create_swap_chain_one_call [OF assms] body
  have "length (filter is_swap_chain_creation body) = 1" by auto
  with body show ?thesis by blast
qed

lemma create_render_target_first_call:
  assumes "create_render_target p r width height = Some (hr, r', t)"
  shows "\<exists>sc. hd t = Ev_GetBuffer sc 0 IID_ID3D11Texture2D \<and> t \<noteq> []"
  using assms by (cases rule: create_render_target_cases) simp_all

text \<open>
  Claim C9. In every run of \<^verbatim>\<open>InitDevice\<close> that returns and has reached the swap-chain
  stage (it has queried the factory \<open>f\<close> for \<^verbatim>\<open>IDXGIFactory2\<close>), the trace holds the call
  \<^verbatim>\<open>MakeWindowAssociation(m_hWnd, DXGI_MWA_NO_ALT_ENTER)\<close> on \<open>f\<close> directly followed by
  the release of \<open>f\<close>; the one swap-chain creation call of the run is before them, and
  after them there is either nothing, the run having returned the failure of the
  swap-chain stage, or the calls of the render-target stage, which start with
  \<^verbatim>\<open>GetBuffer\<close>. So both calls are made before the test of \<open>hr\<close> that returns (line
  204), also in the runs that fail there.
\<close>

theorem InitDevice_window_association_before_check:
  assumes "InitDevice dbg p r = Some (hr, r', t)"
      and "Ev_QueryInterface f IID_IDXGIFactory2 \<in> set t"
  shows "\<exists>pre post.
           t = pre @ [Ev_MakeWindowAssociation f (m_hWnd r) DXGI_MWA_NO_ALT_ENTER,
                      Ev_Release f] @ post \<and>
           length (filter is_swap_chain_creation pre) = 1 \<and>
           filter is_swap_chain_creation post = [] \<and>
           (post = [] \<and> FAILED hr
            \<or> post \<noteq> [] \<and> (\<exists>sc. hd post = Ev_GetBuffer sc 0 IID_ID3D11Texture2D))"
proof -
  let ?w = "client_width p (m_hWnd r)" and ?h = "client_height p (m_hWnd r)"
  from assms obtain r1 hr3 r3 t12 t3 t4 where
    hwnd: "m_hWnd r1 = m_hWnd r"
    and stage: "create_swap_chain p r1 ?w ?h (Some f) = Some (hr3, r3, t3)"
    and t: "t = Ev_GetClientRect (m_hWnd r) # t12 @ t3 @ t4"
    and t12: "filter is_swap_chain_creation t12 = []"
    and rest: "FAILED hr3 \<and> hr = hr3 \<and> r' = r3 \<and> t4 = []
               \<or> \<not> FAILED hr3 \<and> create_render_target p r3 ?w ?h = Some (hr, r', t4)"
    by (rule InitDevice_swap_chain_stage)
  from create_swap_chain_tail [OF stage] hwnd obtain body where
    body: "t3 = body @ [Ev_MakeWindowAssociation f (m_hWnd r) DXGI_MWA_NO_ALT_ENTER,
                        Ev_Release f]"
    and one: "length (filter is_swap_chain_creation body) = 1"
    by auto
  from rest have after:
    "filter is_swap_chain_creation t4 = [] \<and>
     (t4 = [] \<and> FAILED hr \<or> t4 \<noteq> [] \<and> (\<exists>sc. hd t4 = Ev_GetBuffer sc 0 IID_ID3D11Texture2D))"
    by (auto dest: create_render_target_frame create_render_target_first_call)
  from t body have "t = (Ev_GetClientRect (m_hWnd r) # t12 @ body)
                          @ [Ev_MakeWindowAssociation f (m_hWnd r) DXGI_MWA_NO_ALT_ENTER,
                             Ev_Release f] @ t4"
    by simp
  moreover from t12 one
  have "length (filter is_swap_chain_creation (Ev_GetClientRect (m_hWnd r) # t12 @ body)) = 1"
    by simp
  ultimately show ?thesis using after by blast
qed

lemma floorlog_16777217: "floorlog 2 (16777217::nat) = 25"
proof -
  have "floorlog 2 (16777217::nat) \<le> 25" by (simp add: floorlog_le_iff)
  moreover have "\<not> floorlog 2 (16777217::nat) \<le> 24" by (simp add: floorlog_le_iff)
  ultimately show ?thesis by simp
qed

lemma UINT_to_FLOAT_16777217: "UINT_to_FLOAT 16777217 = 16777216"
  by (simp add: UINT_to_FLOAT_def Let_def floorlog_16777217)

lemma InitDevice_host_wide:
  "InitDevice False host_wide fresh_renderer = Some (S_OK, bundle_d3d11_1, trace_wide)"
  by (simp add: run_simps UINT_to_FLOAT_16777217 host_wide_def host_d3d11_1_def
        bundle_d3d11_1_def trace_wide_def)

lemma client_size_host_wide:
  "client_width host_wide 7 = 16777217" "client_height host_wide 7 = 720"
  by (simp_all add: client_width_def client_height_def host_wide_def host_d3d11_1_def)

lemma InitDevice_host_null_view:
  "InitDevice False host_null_view fresh_renderer
     = Some (S_OK, bundle_null_view, trace_null_view)"
  by (simp add: run_simps host_null_view_def host_d3d11_1_def bundle_null_view_def
        trace_null_view_def)

lemma InitDevice_host_no_swap_chain:
  "InitDevice False host_no_swap_chain fresh_renderer
     = Some (E_FAIL, bundle_no_swap_chain, trace_no_swap_chain)"
  by (simp add: run_simps host_no_swap_chain_def host_d3d11_1_def bundle_no_swap_chain_def
        trace_no_swap_chain_def)

lemma client_size_hosts:
  "client_width host_d3d11_1 7 = 1280" "client_height host_d3d11_1 7 = 720"
  "client_width host_d3d11_0 7 = 1280" "client_height host_d3d11_0 7 = 720"
  by (simp_all add: client_width_def client_height_def host_d3d11_0_def host_d3d11_1_def)

theorem InitDevice_success_all_resources_witness:
  "InitDevice False host_d3d11_1 fresh_renderer = Some (S_OK, bundle_d3d11_1, trace_d3d11_1) \<and>
   InitDevice False host_d3d11_0 fresh_renderer = Some (S_OK, bundle_full, trace_d3d11_0) \<and>
   SUCCEEDED S_OK \<and>
   m_pDevice bundle_d3d11_1 = Some 1 \<and> m_pImmediateContext bundle_d3d11_1 = Some 2 \<and>
   m_pSwapChain bundle_d3d11_1 = Some 3 \<and>
   GetBuffer host_d3d11_1 3 0 IID_ID3D11Texture2D = (S_OK, Some 40) \<and>
   CreateRenderTargetView host_d3d11_1 1 (Some 40) = (S_OK, Some 4) \<and>
   m_pRenderTargetView bundle_d3d11_1 = Some 4 \<and>
   m_pDevice bundle_full = Some 1 \<and> m_pImmediateContext bundle_full = Some 2 \<and>
   m_pSwapChain bundle_full = Some 3 \<and>
   GetBuffer host_d3d11_0 3 0 IID_ID3D11Texture2D = (S_OK, Some 40) \<and>
   CreateRenderTargetView host_d3d11_0 1 (Some 40) = (S_OK, Some 4) \<and>
   m_pRenderTargetView bundle_full = Some 4"
proof -
  have ok: "SUCCEEDED S_OK" by (simp add: SUCCEEDED_def S_OK_def)
  have members:
    "m_pDevice bundle_d3d11_1 = Some 1" "m_pImmediateContext bundle_d3d11_1 = Some 2"
    "m_pSwapChain bundle_d3d11_1 = Some 3"
    "m_pDevice bundle_full = Some 1" "m_pImmediateContext bundle_full = Some 2"
    "m_pSwapChain bundle_full = Some 3"
    by (simp_all add: bundle_d3d11_1_def bundle_full_def)
  have answers:
    "GetBuffer host_d3d11_1 3 0 IID_ID3D11Texture2D = (S_OK, Some 40)"
    "CreateRenderTargetView host_d3d11_1 1 (Some 40) = (S_OK, Some 4)"
    "GetBuffer host_d3d11_0 3 0 IID_ID3D11Texture2D = (S_OK, Some 40)"
    "CreateRenderTargetView host_d3d11_0 1 (Some 40) = (S_OK, Some 4)"
    by (simp_all add: host_d3d11_0_def host_d3d11_1_def)
  from InitDevice_success_all_resources [OF InitDevice_host_d3d11_1 ok] members answers
  have view1: "m_pRenderTargetView bundle_d3d11_1 = Some 4" by auto
  from InitDevice_success_all_resources [OF InitDevice_host_d3d11_0 ok] members answers
  have view0: "m_pRenderTargetView bundle_full = Some 4" by auto
  from InitDevice_host_d3d11_1 InitDevice_host_d3d11_0 ok members answers view1 view0
  show ?thesis by simp
qed

text \<open>
  Claim C8 as stated fails: on a host whose \<^verbatim>\<open>CreateRenderTargetView\<close> answers
  \<^verbatim>\<open>S_OK\<close> and stores a null pointer, \<^verbatim>\<open>InitDevice\<close> returns \<^verbatim>\<open>S_OK\<close> with a null
  \<^verbatim>\<open>m_pRenderTargetView\<close>; the three other resources are not null.
\<close>

theorem InitDevice_success_all_resources_counterexample:
  "InitDevice False host_null_view fresh_renderer
     = Some (S_OK, bundle_null_view, trace_null_view) \<and>
   SUCCEEDED S_OK \<and>
   CreateRenderTargetView host_null_view 1 (Some 40) = (S_OK, None) \<and>
   m_pDevice bundle_null_view = Some 1 \<and> m_pImmediateContext bundle_null_view = Some 2 \<and>
   m_pSwapChain bundle_null_view = Some 3 \<and> m_pRenderTargetView bundle_null_view = None"
proof -
  have "SUCCEEDED S_OK" by (simp add: SUCCEEDED_def S_OK_def)
  moreover have "CreateRenderTargetView host_null_view 1 (Some 40) = (S_OK, None)"
    by (simp add: host_null_view_def)
  moreover have "m_pDevice bundle_null_view = Some 1"
    "m_pImmediateContext bundle_null_view = Some 2" "m_pSwapChain bundle_null_view = Some 3"
    "m_pRenderTargetView bundle_null_view = None"
    by (simp_all add: bundle_null_view_def)
  ultimately show ?thesis using InitDevice_host_null_view by simp
qed

theorem InitDevice_viewport_witness:
  "InitDevice False host_d3d11_0 fresh_renderer = Some (S_OK, bundle_full, trace_d3d11_0) \<and>
   InitDevice False host_d3d11_1 fresh_renderer = Some (S_OK, bundle_d3d11_1, trace_d3d11_1) \<and>
   SUCCEEDED S_OK \<and>
   unat (client_width host_d3d11_0 7) = 1280 \<and> unat (client_height host_d3d11_0 7) = 720 \<and>
   unat (client_width host_d3d11_1 7) = 1280 \<and> unat (client_height host_d3d11_1 7) = 720 \<and>
   hd trace_d3d11_0 = Ev_GetClientRect 7 \<and> hd trace_d3d11_1 = Ev_GetClientRect 7 \<and>
   m_pImmediateContext bundle_full = Some 2 \<and> m_pImmediateContext bundle_d3d11_1 = Some 2 \<and>
   filter is_RSSetViewports trace_d3d11_0
     = [Ev_RSSetViewports 2
          [\<lparr>vp_TopLeftX = 0, vp_TopLeftY = 0, vp_Width = 1280, vp_Height = 720,
            vp_MinDepth = 0, vp_MaxDepth = 1\<rparr>]] \<and>
   filter is_RSSetViewports trace_d3d11_1
     = [Ev_RSSetViewports 2
          [\<lparr>vp_TopLeftX = 0, vp_TopLeftY = 0, vp_Width = 1280, vp_Height = 720,
            vp_MinDepth = 0, vp_MaxDepth = 1\<rparr>]]"
proof -
  have ok: "SUCCEEDED S_OK" by (simp add: SUCCEEDED_def S_OK_def)
  have hwnd: "m_hWnd fresh_renderer = 7" by (simp add: fresh_renderer_def)
  have size: "unat (client_width host_d3d11_0 7) = 1280"
    "unat (client_height host_d3d11_0 7) = 720"
    "unat (client_width host_d3d11_1 7) = 1280"
    "unat (client_height host_d3d11_1 7) = 720"
    by (simp_all add: client_size_hosts)
  have ctx: "m_pImmediateContext bundle_full = Some 2"
    "m_pImmediateContext bundle_d3d11_1 = Some 2"
    by (simp_all add: bundle_full_def bundle_d3d11_1_def)
  from InitDevice_viewport [OF InitDevice_host_d3d11_0 ok] hwnd size ctx
  have legacy:
    "hd trace_d3d11_0 = Ev_GetClientRect 7 \<and>
     filter is_RSSetViewports trace_d3d11_0
       = [Ev_RSSetViewports 2
            [\<lparr>vp_TopLeftX = 0, vp_TopLeftY = 0, vp_Width = 1280, vp_Height = 720,
              vp_MinDepth = 0, vp_MaxDepth = 1\<rparr>]]"
    by auto
  from InitDevice_viewport [OF InitDevice_host_d3d11_1 ok] hwnd size ctx
  have newer:
    "hd trace_d3d11_1 = Ev_GetClientRect 7 \<and>
     filter is_RSSetViewports trace_d3d11_1
       = [Ev_RSSetViewports 2
            [\<lparr>vp_TopLeftX = 0, vp_TopLeftY = 0, vp_Width = 1280, vp_Height = 720,
              vp_MinDepth = 0, vp_MaxDepth = 1\<rparr>]]"
    by auto
  from InitDevice_host_d3d11_0 InitDevice_host_d3d11_1 ok size ctx legacy newer
  show ?thesis by simp
qed

text \<open>
  Claim C5 as stated fails: for a client area 16777217 wide (\<open>2\<^sup>2\<^sup>4 + 1\<close>, which is
  no \<^verbatim>\<open>FLOAT\<close>), \<^verbatim>\<open>InitDevice\<close> returns \<^verbatim>\<open>S_OK\<close> and the one viewport bound is
  16777216 wide.
\<close>

theorem InitDevice_viewport_counterexample:
  "InitDevice False host_wide fresh_renderer = Some (S_OK, bundle_d3d11_1, trace_wide) \<and>
   SUCCEEDED S_OK \<and>
   unat (client_width host_wide 7) = 16777217 \<and> unat (client_height host_wide 7) = 720 \<and>
   filter is_RSSetViewports trace_wide
     = [Ev_RSSetViewports 2
          [\<lparr>vp_TopLeftX = 0, vp_TopLeftY = 0, vp_Width = 16777216, vp_Height = 720,
            vp_MinDepth = 0, vp_MaxDepth = 1\<rparr>]] \<and>
   (16777216 :: FLOAT) \<noteq> of_nat (unat (client_width host_wide 7))"
  by (simp add: InitDevice_host_wide client_size_host_wide SUCCEEDED_def S_OK_def
        trace_wide_def)

theorem InitDevice_one_client_size_witness:
  "InitDevice False host_d3d11_1 fresh_renderer = Some (S_OK, bundle_d3d11_1, trace_d3d11_1) \<and>
   InitDevice False host_d3d11_0 fresh_renderer = Some (S_OK, bundle_full, trace_d3d11_0) \<and>
   SUCCEEDED S_OK \<and>
   client_width host_d3d11_1 7 = 1280 \<and> client_height host_d3d11_1 7 = 720 \<and>
   client_width host_d3d11_0 7 = 1280 \<and> client_height host_d3d11_0 7 = 720 \<and>
   filter is_GetClientRect trace_d3d11_1 = [Ev_GetClientRect 7] \<and>
   hd trace_d3d11_1 = Ev_GetClientRect 7 \<and>
   concat (map swap_chain_size trace_d3d11_1) = [(1280, 720)] \<and>
   concat (map viewport_size trace_d3d11_1) = [(1280, 720)] \<and>
   filter is_GetClientRect trace_d3d11_0 = [Ev_GetClientRect 7] \<and>
   hd trace_d3d11_0 = Ev_GetClientRect 7 \<and>
   concat (map swap_chain_size trace_d3d11_0) = [(1280, 720)] \<and>
   concat (map viewport_size trace_d3d11_0) = [(1280, 720)]"
proof -
  have ok: "SUCCEEDED S_OK" by (simp add: SUCCEEDED_def S_OK_def)
  have hwnd: "m_hWnd fresh_renderer = 7" by (simp add: fresh_renderer_def)
  from InitDevice_one_client_size [OF InitDevice_host_d3d11_1] ok
  have "filter is_GetClientRect trace_d3d11_1 = [Ev_GetClientRect (m_hWnd fresh_renderer)] \<and>
        hd trace_d3d11_1 = Ev_GetClientRect (m_hWnd fresh_renderer) \<and>
        concat (map swap_chain_size trace_d3d11_1)
          = [(client_width host_d3d11_1 (m_hWnd fresh_renderer),
              client_height host_d3d11_1 (m_hWnd fresh_renderer))] \<and>
        concat (map viewport_size trace_d3d11_1)
          = map (\<lambda>(w, h). (UINT_to_FLOAT w, UINT_to_FLOAT h))
              (concat (map swap_chain_size trace_d3d11_1))"
    by blast
  then have newer:
    "filter is_GetClientRect trace_d3d11_1 = [Ev_GetClientRect 7] \<and>
     hd trace_d3d11_1 = Ev_GetClientRect 7 \<and>
     concat (map swap_chain_size trace_d3d11_1) = [(1280, 720)] \<and>
     concat (map viewport_size trace_d3d11_1) = [(1280, 720)]"
    by (simp add: hwnd client_size_hosts UINT_to_FLOAT_1280_720)
  from InitDevice_one_client_size [OF InitDevice_host_d3d11_0] ok
  have "filter is_GetClientRect trace_d3d11_0 = [Ev_GetClientRect (m_hWnd fresh_renderer)] \<and>
        hd trace_d3d11_0 = Ev_GetClientRect (m_hWnd fresh_renderer) \<and>
        concat (map swap_chain_size trace_d3d11_0)
          = [(client_width host_d3d11_0 (m_hWnd fresh_renderer),
              client_height host_d3d11_0 (m_hWnd fresh_renderer))] \<and>
        concat (map viewport_size trace_d3d11_0)
          = map (\<lambda>(w, h). (UINT_to_FLOAT w, UINT_to_FLOAT h))
              (concat (map swap_chain_size trace_d3d11_0))"
    by blast
  then have legacy:
    "filter is_GetClientRect trace_d3d11_0 = [Ev_GetClientRect 7] \<and>
     hd trace_d3d11_0 = Ev_GetClientRect 7 \<and>
     concat (map swap_chain_size trace_d3d11_0) = [(1280, 720)] \<and>
     concat (map viewport_size trace_d3d11_0) = [(1280, 720)]"
    by (simp add: hwnd client_size_hosts UINT_to_FLOAT_1280_720)
  from InitDevice_host_d3d11_1 InitDevice_host_d3d11_0 ok client_size_hosts newer legacy
  show ?thesis by simp
qed

text \<open>
  Claim C10 as stated fails: for a client area 16777217 wide, \<^verbatim>\<open>InitDevice\<close> returns
  \<^verbatim>\<open>S_OK\<close>, the swap-chain description is 16777217 by 720 and the viewport is 16777216
  by 720.
\<close>

theorem InitDevice_one_client_size_counterexample:
  "InitDevice False host_wide fresh_renderer = Some (S_OK, bundle_d3d11_1, trace_wide) \<and>
   SUCCEEDED S_OK \<and>
   filter is_GetClientRect trace_wide = [Ev_GetClientRect 7] \<and>
   concat (map swap_chain_size trace_wide) = [(16777217, 720)] \<and>
   concat (map viewport_size trace_wide) = [(16777216, 720)] \<and>
   map (\<lambda>(w, h). (of_nat (unat w), of_nat (unat h))) (concat (map swap_chain_size trace_wide))
     \<noteq> concat (map viewport_size trace_wide)"
  by (simp add: InitDevice_host_wide SUCCEEDED_def S_OK_def trace_wide_def
        swap_chain_desc1_fields)

theorem InitDevice_window_association_before_check_witness:
  "InitDevice False host_no_swap_chain fresh_renderer
     = Some (E_FAIL, bundle_no_swap_chain, trace_no_swap_chain) \<and>
   FAILED E_FAIL \<and>
   Ev_QueryInterface 12 IID_IDXGIFactory2 \<in> set trace_no_swap_chain \<and>
   (\<exists>pre. trace_no_swap_chain
            = pre @ [Ev_MakeWindowAssociation 12 7 DXGI_MWA_NO_ALT_ENTER, Ev_Release 12] \<and>
          length (filter is_swap_chain_creation pre) = 1)"
proof -
  have failed: "FAILED E_FAIL" by (simp add: FAILED_def E_FAIL_def)
  have hwnd: "m_hWnd fresh_renderer = 7" by (simp add: fresh_renderer_def)
  have reached: "Ev_QueryInterface 12 IID_IDXGIFactory2 \<in> set trace_no_swap_chain"
    by (simp add: trace_no_swap_chain_def)
  from InitDevice_window_association_before_check [OF InitDevice_host_no_swap_chain reached]
  obtain pre post where
    t: "trace_no_swap_chain
          = pre @ [Ev_MakeWindowAssociation 12 7 DXGI_MWA_NO_ALT_ENTER, Ev_Release 12] @ post"
    and one: "length (filter is_swap_chain_creation pre) = 1"
    and post: "post = [] \<and> FAILED E_FAIL
               \<or> post \<noteq> [] \<and> (\<exists>sc. hd post = Ev_GetBuffer sc 0 IID_ID3D11Texture2D)"
    and none: "filter is_swap_chain_creation post = []"
    unfolding hwnd by blast
  have "post = []"
  proof (rule ccontr)
    assume "post \<noteq> []"
    with post obtain sc where "hd post = Ev_GetBuffer sc 0 IID_ID3D11Texture2D" by blast
    with \<open>post \<noteq> []\<close> have "Ev_GetBuffer sc 0 IID_ID3D11Texture2D \<in> set post"
      by (metis hd_in_set)
    then have "Ev_GetBuffer sc 0 IID_ID3D11Texture2D \<in> set trace_no_swap_chain"
      by (subst t) simp
    then show False by (simp add: trace_no_swap_chain_def)
  qed
  with t one have
    "\<exists>pre. trace_no_swap_chain
             = pre @ [Ev_MakeWindowAssociation 12 7 DXGI_MWA_NO_ALT_ENTER, Ev_Release 12] \<and>
           length (filter is_swap_chain_creation pre) = 1"
    by auto
  with InitDevice_host_no_swap_chain failed reached show ?thesis by blast
qed

subsection \<open>The answers to the upgrade queries do not reach the result\<close>

lemma same_but_v1_refl: "same_but_v1 r r"
  by (simp add: same_but_v1_def)

lemma same_but_v1_fields:
  assumes "same_but_v1 r r'"
  shows "m_hWnd r' = m_hWnd r" "m_pDevice r' = m_pDevice r"
    "m_pImmediateContext r' = m_pImmediateContext r" "m_pSwapChain r' = m_pSwapChain r"
    "m_pSwapChain1 r' = m_pSwapChain1 r" "m_pRenderTargetView r' = m_pRenderTargetView r"
    "m_driverType r' = m_driverType r" "m_featureLevel r' = m_featureLevel r"
    "m_hInstance r' = m_hInstance r"
  using assms unfolding same_but_v1_def
  by (cases r; cases r'; simp)+

lemma with_upgrade_answers_fields:
  "GetClientRect (with_upgrade_answers q p) = GetClientRect p"
  "D3D11CreateDevice (with_upgrade_answers q p) = D3D11CreateDevice p"
  "GetAdapter (with_upgrade_answers q p) = GetAdapter p"
  "GetParent (with_upgrade_answers q p) = GetParent p"
  "CreateSwapChainForHwnd (with_upgrade_answers q p) = CreateSwapChainForHwnd p"
  "CreateSwapChain (with_upgrade_answers q p) = CreateSwapChain p"
  "GetBuffer (with_upgrade_answers q p) = GetBuffer p"
  "CreateRenderTargetView (with_upgrade_answers q p) = CreateRenderTargetView p"
  "Present (with_upgrade_answers q p) = Present p"
  "QueryInterface (with_upgrade_answers q p) h IID_IDXGIDevice
     = QueryInterface p h IID_IDXGIDevice"
  "QueryInterface (with_upgrade_answers q p) h IID_IDXGIFactory2
     = QueryInterface p h IID_IDXGIFactory2"
  "QueryInterface (with_upgrade_answers q p) h IID_IDXGISwapChain
     = QueryInterface p h IID_IDXGISwapChain"
  "QueryInterface (with_upgrade_answers q p) h IID_ID3D11Device1 = q h IID_ID3D11Device1"
  "QueryInterface (with_upgrade_answers q p) h IID_ID3D11DeviceContext1
     = q h IID_ID3D11DeviceContext1"
  by (simp_all add: with_upgrade_answers_def)

lemma create_device_attempt_upgrade:
  "create_device_attempt (with_upgrade_answers q p) = create_device_attempt p"
  unfolding create_device_attempt_def with_upgrade_answers_fields ..

lemma create_device_loop_upgrade:
  "create_device_loop (with_upgrade_answers q p) flags ds hr r
     = create_device_loop p flags ds hr r"
  by (induction ds arbitrary: hr r)
     (simp_all add: create_device_attempt_upgrade split_beta Let_def cong: if_cong)

lemma obtain_factory_upgrade:
  "obtain_factory (with_upgrade_answers q p) r = obtain_factory p r"
  unfolding obtain_factory_def with_upgrade_answers_fields ..

lemma client_size_upgrade:
  "client_width (with_upgrade_answers q p) h = client_width p h"
  "client_height (with_upgrade_answers q p) h = client_height p h"
  by (simp_all add: client_width_def client_height_def with_upgrade_answers_fields)

lemma upgrade_interfaces_upgrade:
  assumes "upgrade_interfaces p r = Some (ra, ta)"
      and "\<forall>h. SUCCEEDED (fst (q h IID_ID3D11Device1))
                 \<longrightarrow> SUCCEEDED (fst (QueryInterface p h IID_ID3D11Device1))"
  shows "\<exists>rb tb. upgrade_interfaces (with_upgrade_answers q p) r = Some (rb, tb) \<and>
                 same_but_v1 ra rb \<and> filter (\<lambda>e. \<not> is_upgrade_query e) tb = [] \<and>
                 filter (\<lambda>e. \<not> is_upgrade_query e) ta = []"
  using assms(1)
proof (cases rule: upgrade_interfaces_cases)
  case (no_device1 dev)
  with assms(2) have "\<not> SUCCEEDED (fst (q dev IID_ID3D11Device1))" by blast
  with no_device1 show ?thesis
    by (simp add: upgrade_interfaces_def with_upgrade_answers_fields split_beta Let_def
          same_but_v1_def)
next
  case (device1 dev ctx)
  then show ?thesis
    by (cases "SUCCEEDED (fst (q dev IID_ID3D11Device1))")
       (simp_all add: upgrade_interfaces_def with_upgrade_answers_fields split_beta Let_def
          same_but_v1_def)
qed

lemma swap_chain_for_hwnd_upgrade:
  assumes "swap_chain_for_hwnd p r width height f2 = Some (hr, ra, ta)"
      and "\<forall>h. SUCCEEDED (fst (q h IID_ID3D11Device1))
                 \<longrightarrow> SUCCEEDED (fst (QueryInterface p h IID_ID3D11Device1))"
  shows "\<exists>rb tb. swap_chain_for_hwnd (with_upgrade_answers q p) r width height f2
                   = Some (hr, rb, tb) \<and>
                 same_but_v1 ra rb \<and>
                 filter (\<lambda>e. \<not> is_upgrade_query e) tb
                   = filter (\<lambda>e. \<not> is_upgrade_query e) ta"
proof -
  note other [simp] = with_upgrade_answers_fields
  from assms(1) show ?thesis
  proof (cases rule: swap_chain_for_hwnd_cases)
    case (not_created r1 up)
    from upgrade_interfaces_upgrade [where q = q, OF not_created(1) assms(2)] obtain rb tb where
      up: "upgrade_interfaces (with_upgrade_answers q p) r = Some (rb, tb)"
      and same: "same_but_v1 r1 rb"
      and tb: "filter (\<lambda>e. \<not> is_upgrade_query e) tb = []"
      and ta: "filter (\<lambda>e. \<not> is_upgrade_query e) up = []"
      by blast
    from same have "same_but_v1 (r1\<lparr>m_pSwapChain1 := x\<rparr>) (rb\<lparr>m_pSwapChain1 := x\<rparr>)" for x
      unfolding same_but_v1_def by (cases r1; cases rb; simp)
    with not_created up tb ta same_but_v1_fields [OF same] show ?thesis
      by (simp add: swap_chain_for_hwnd_def split_beta Let_def)
  next
    case (created r1 up s1)
    from upgrade_interfaces_upgrade [where q = q, OF created(1) assms(2)] obtain rb tb where
      up: "upgrade_interfaces (with_upgrade_answers q p) r = Some (rb, tb)"
      and same: "same_but_v1 r1 rb"
      and tb: "filter (\<lambda>e. \<not> is_upgrade_query e) tb = []"
      and ta: "filter (\<lambda>e. \<not> is_upgrade_query e) up = []"
      by blast
    from same have
      "same_but_v1 (r1\<lparr>m_pSwapChain1 := x, m_pSwapChain := y\<rparr>)
                   (rb\<lparr>m_pSwapChain1 := x, m_pSwapChain := y\<rparr>)" for x y
      unfolding same_but_v1_def by (cases r1; cases rb; simp)
    with created up tb ta same_but_v1_fields [OF same] show ?thesis
      by (simp add: swap_chain_for_hwnd_def split_beta Let_def)
  qed
qed

lemma create_swap_chain_upgrade:
  assumes "create_swap_chain p r width height fp = Some (hr, ra, ta)"
      and "\<forall>h. SUCCEEDED (fst (q h IID_ID3D11Device1))
                 \<longrightarrow> SUCCEEDED (fst (QueryInterface p h IID_ID3D11Device1))"
  shows "\<exists>rb tb. create_swap_chain (with_upgrade_answers q p) r width height fp
                   = Some (hr, rb, tb) \<and>
                 same_but_v1 ra rb \<and>
                 filter (\<lambda>e. \<not> is_upgrade_query e) tb
                   = filter (\<lambda>e. \<not> is_upgrade_query e) ta"
proof -
  note other [simp] = with_upgrade_answers_fields
  from assms(1) show ?thesis
  proof (cases rule: create_swap_chain_cases)
    case (for_hwnd f f2 t')
    from swap_chain_for_hwnd_upgrade [where q = q, OF for_hwnd(3) assms(2)] obtain rb tb where
      "swap_chain_for_hwnd (with_upgrade_answers q p) r width height f2 = Some (hr, rb, tb)"
      and same: "same_but_v1 ra rb"
      and "filter (\<lambda>e. \<not> is_upgrade_query e) tb = filter (\<lambda>e. \<not> is_upgrade_query e) t'"
      by blast
    with for_hwnd same_but_v1_fields [OF same] show ?thesis
      by (simp add: create_swap_chain_def split_beta Let_def)
  next
    case (legacy f)
    then show ?thesis
      by (simp add: create_swap_chain_def swap_chain_legacy_def split_beta Let_def
          same_but_v1_refl)
  qed
qed

lemma create_render_target_v1:
  "create_render_target p (r\<lparr>m_pDevice1 := a, m_pImmediateContext1 := b\<rparr>) width height
     = map_option (\<lambda>(hr, r', t). (hr, r'\<lparr>m_pDevice1 := a, m_pImmediateContext1 := b\<rparr>, t))
         (create_render_target p r width height)"
  by (cases "m_pSwapChain r"; cases "m_pDevice r"; cases "m_pImmediateContext r";
      cases "snd (GetBuffer p (the (m_pSwapChain r)) 0 IID_ID3D11Texture2D)")
     (simp_all add: create_render_target_def Let_def split_beta)

lemma create_render_target_upgrade:
  assumes "create_render_target p ra width height = Some (hr, ra', t)"
      and "same_but_v1 ra rb"
  shows "\<exists>rb'. create_render_target (with_upgrade_answers q p) rb width height
                 = Some (hr, rb', t) \<and> same_but_v1 ra' rb'"
proof -
  have "create_render_target (with_upgrade_answers q p) rb width height
          = create_render_target p rb width height"
    unfolding create_render_target_def with_upgrade_answers_fields ..
  moreover
  from assms(2) have ra: "ra = rb\<lparr>m_pDevice1 := m_pDevice1 ra,
                                   m_pImmediateContext1 := m_pImmediateContext1 ra\<rparr>"
    by (simp add: same_but_v1_def)
  from assms(1) have
    "create_render_target p
       (rb\<lparr>m_pDevice1 := m_pDevice1 ra, m_pImmediateContext1 := m_pImmediateContext1 ra\<rparr>)
       width height = Some (hr, ra', t)"
    by (subst ra [symmetric])
  then obtain rb' where
    "create_render_target p rb width height = Some (hr, rb', t)"
    "ra' = rb'\<lparr>m_pDevice1 := m_pDevice1 ra, m_pImmediateContext1 := m_pImmediateContext1 ra\<rparr>"
    unfolding create_render_target_v1 by auto
  moreover from this(2) have "same_but_v1 ra' rb'"
    by (simp add: same_but_v1_def)
  ultimately show ?thesis by simp
qed

lemma InitDevice_upgrade_answers:
  assumes "InitDevice dbg p r = Some (hr, ra, ta)"
      and "\<forall>h. SUCCEEDED (fst (q h IID_ID3D11Device1))
                 \<longrightarrow> SUCCEEDED (fst (QueryInterface p h IID_ID3D11Device1))"
  shows "\<exists>rb tb. InitDevice dbg (with_upgrade_answers q p) r = Some (hr, rb, tb) \<and>
                 same_but_v1 ra rb \<and>
                 filter (\<lambda>e. \<not> is_upgrade_query e) tb
                   = filter (\<lambda>e. \<not> is_upgrade_query e) ta"
  using assms(1)
proof (cases rule: InitDevice_cases)
  case (no_device t1)
  then have "InitDevice dbg (with_upgrade_answers q p) r = Some (hr, ra, ta)"
    by (simp add: InitDevice_def with_upgrade_answers_fields create_device_loop_upgrade)
  then show ?thesis by (simp add: same_but_v1_refl)
next
  case (no_factory hr1 r1 t1 f t2)
  then have "InitDevice dbg (with_upgrade_answers q p) r = Some (hr, ra, ta)"
    by (simp add: InitDevice_def with_upgrade_answers_fields create_device_loop_upgrade
          obtain_factory_upgrade)
  then show ?thesis by (simp add: same_but_v1_refl)
next
  case (no_swap_chain hr1 r1 t1 hr2 f t2 t3)
  from create_swap_chain_upgrade [where q = q, OF no_swap_chain(5) assms(2)]
  obtain rb tb where
    stage: "create_swap_chain (with_upgrade_answers q p) r1 (client_width p (m_hWnd r))
              (client_height p (m_hWnd r)) f = Some (hr, rb, tb)"
    and same: "same_but_v1 ra rb"
    and calls: "filter (\<lambda>e. \<not> is_upgrade_query e) tb
                  = filter (\<lambda>e. \<not> is_upgrade_query e) t3"
    by blast
  from no_swap_chain stage
  have "InitDevice dbg (with_upgrade_answers q p) r
          = Some (hr, rb, Ev_GetClientRect (m_hWnd r) # t1 @ t2 @ tb)"
    by (simp add: InitDevice_def with_upgrade_answers_fields create_device_loop_upgrade
          obtain_factory_upgrade client_width_def client_height_def)
  with same calls no_swap_chain(7) show ?thesis by simp
next
  case (render_target hr1 r1 t1 hr2 f t2 hr3 r3 t3 t4)
  from create_swap_chain_upgrade [where q = q, OF render_target(5) assms(2)]
  obtain rb tb where
    stage: "create_swap_chain (with_upgrade_answers q p) r1 (client_width p (m_hWnd r))
              (client_height p (m_hWnd r)) f = Some (hr3, rb, tb)"
    and same: "same_but_v1 r3 rb"
    and calls: "filter (\<lambda>e. \<not> is_upgrade_query e) tb
                  = filter (\<lambda>e. \<not> is_upgrade_query e) t3"
    by blast
  from create_render_target_upgrade [where q = q, OF render_target(7) same]
  obtain rb' where
    target: "create_render_target (with_upgrade_answers q p) rb (client_width p (m_hWnd r))
               (client_height p (m_hWnd r)) = Some (hr, rb', t4)"
    and same': "same_but_v1 ra rb'"
    by blast
  from render_target stage target
  have "InitDevice dbg (with_upgrade_answers q p) r
          = Some (hr, rb', Ev_GetClientRect (m_hWnd r) # t1 @ t2 @ tb @ t4)"
    by (simp add: InitDevice_def with_upgrade_answers_fields create_device_loop_upgrade
          obtain_factory_upgrade client_width_def client_height_def)
  with same' calls render_target(8) show ?thesis by simp
qed

lemma obtain_factory_queries:
  assumes "obtain_factory p r = Some (hr, f, t)"
  shows "Ev_QueryInterface h IID_ID3D11Device1 \<notin> set t"
  using assms by (cases rule: obtain_factory_cases) simp_all

lemma swap_chain_for_hwnd_trace:
  assumes "swap_chain_for_hwnd p r width height f2 = Some (hr, r', t)"
  obtains dev mid post where
    "m_pDevice r = Some dev"
    "t = Ev_QueryInterface dev IID_ID3D11Device1 # mid
           @ Ev_CreateSwapChainForHwnd f2 (Some dev) (m_hWnd r) (swap_chain_desc1 width height)
           # post"
    "if SUCCEEDED (fst (QueryInterface p dev IID_ID3D11Device1))
     then \<exists>ctx. mid = [Ev_QueryInterface ctx IID_ID3D11DeviceContext1] else mid = []"
    "\<forall>h. Ev_QueryInterface h IID_ID3D11Device1 \<notin> set mid \<union> set post"
proof -
  from assms obtain r1 up post where
    up: "upgrade_interfaces p r = Some (r1, up)"
    and t: "t = up @ Ev_CreateSwapChainForHwnd f2 (m_pDevice r1) (m_hWnd r1)
                       (swap_chain_desc1 width height) # post"
    and post: "\<forall>h. Ev_QueryInterface h IID_ID3D11Device1 \<notin> set post"
    by (cases rule: swap_chain_for_hwnd_cases) simp_all
  from up show thesis
  proof (cases rule: upgrade_interfaces_cases)
    case (no_device1 dev)
    with t post show thesis
      by (intro that [of dev "[]" post]) simp_all
  next
    case (device1 dev ctx)
    with t post show thesis
      by (intro that [of dev "[Ev_QueryInterface ctx IID_ID3D11DeviceContext1]" post])
         simp_all
  qed
qed

lemma create_swap_chain_upgrade_then_creation:
  assumes "create_swap_chain p r width height fp = Some (hr, r', t)"
      and "Ev_QueryInterface dev IID_ID3D11Device1 \<in> set t"
  shows "\<exists>pre mid post f2.
           t = pre @ Ev_QueryInterface dev IID_ID3D11Device1 # mid
                 @ Ev_CreateSwapChainForHwnd f2 (Some dev) (m_hWnd r)
                     (swap_chain_desc1 width height) # post \<and>
           (if SUCCEEDED (fst (QueryInterface p dev IID_ID3D11Device1))
            then \<exists>ctx. mid = [Ev_QueryInterface ctx IID_ID3D11DeviceContext1]
            else mid = [])"
  using assms(1)
proof (cases rule: create_swap_chain_cases)
  case (for_hwnd f f2 t')
  from for_hwnd(3) obtain dev0 mid post where
    t': "t' = Ev_QueryInterface dev0 IID_ID3D11Device1 # mid
                @ Ev_CreateSwapChainForHwnd f2 (Some dev0) (m_hWnd r)
                    (swap_chain_desc1 width height) # post"
    and mid: "if SUCCEEDED (fst (QueryInterface p dev0 IID_ID3D11Device1))
              then \<exists>ctx. mid = [Ev_QueryInterface ctx IID_ID3D11DeviceContext1] else mid = []"
    and none: "\<forall>h. Ev_QueryInterface h IID_ID3D11Device1 \<notin> set mid \<union> set post"
    by (rule swap_chain_for_hwnd_trace)
  from assms(2) for_hwnd(4) t' none have "dev = dev0" by auto
  with for_hwnd(4) t' have
    "t = [Ev_QueryInterface f IID_IDXGIFactory2] @ Ev_QueryInterface dev IID_ID3D11Device1 # mid
           @ Ev_CreateSwapChainForHwnd f2 (Some dev) (m_hWnd r)
               (swap_chain_desc1 width height)
           # (post @ [Ev_MakeWindowAssociation f (m_hWnd r') DXGI_MWA_NO_ALT_ENTER,
                      Ev_Release f])"
    by simp
  with mid \<open>dev = dev0\<close> show ?thesis by blast
next
  case (legacy f)
  with assms(2) show ?thesis by simp
qed

lemma InitDevice_upgrade_then_creation:
  assumes "InitDevice dbg p r = Some (hr, r', t)"
      and "Ev_QueryInterface dev IID_ID3D11Device1 \<in> set t"
  shows "\<exists>pre mid post f2.
           t = pre @ Ev_QueryInterface dev IID_ID3D11Device1 # mid
                 @ Ev_CreateSwapChainForHwnd f2 (Some dev) (m_hWnd r)
                     (swap_chain_desc1 (client_width p (m_hWnd r))
                        (client_height p (m_hWnd r))) # post \<and>
           (if SUCCEEDED (fst (QueryInterface p dev IID_ID3D11Device1))
            then \<exists>ctx. mid = [Ev_QueryInterface ctx IID_ID3D11DeviceContext1]
            else mid = [])"
proof -
  let ?w = "client_width p (m_hWnd r)" and ?h = "client_height p (m_hWnd r)"
  have stage: "\<exists>t12 t4 r1 fp hr3 r3 t3.
                 t = (Ev_GetClientRect (m_hWnd r) # t12) @ t3 @ t4 \<and>
                 create_swap_chain p r1 ?w ?h fp = Some (hr3, r3, t3) \<and>
                 m_hWnd r1 = m_hWnd r \<and> Ev_QueryInterface dev IID_ID3D11Device1 \<in> set t3"
    using assms(1)
  proof (cases rule: InitDevice_cases)
    case (no_device t1)
    from create_device_loop_frame [OF no_device(1)]
    have "filter is_D3D11CreateDevice t1 = t1" by simp
    from only_device_calls(4) [OF this] no_device assms(2) show ?thesis by simp
  next
    case (no_factory hr1 r1 t1 f t2)
    from create_device_loop_frame [OF no_factory(1)]
    have "filter is_D3D11CreateDevice t1 = t1" by simp
    from only_device_calls(4) [OF this] obtain_factory_queries [OF no_factory(3)]
      no_factory assms(2)
    show ?thesis by simp
  next
    case (no_swap_chain hr1 r1 t1 hr2 f t2 t3)
    from create_device_loop_frame [OF no_swap_chain(1)]
    have loop: "filter is_D3D11CreateDevice t1 = t1" and hwnd: "m_hWnd r1 = m_hWnd r"
      by simp_all
    from only_device_calls(4) [OF loop] obtain_factory_queries [OF no_swap_chain(3)]
      no_swap_chain(7) assms(2)
    have "Ev_QueryInterface dev IID_ID3D11Device1 \<in> set t3" by simp
    moreover from no_swap_chain(7)
    have "t = (Ev_GetClientRect (m_hWnd r) # t1 @ t2) @ t3 @ []" by simp
    ultimately show ?thesis using no_swap_chain(5) hwnd by blast
  next
    case (render_target hr1 r1 t1 hr2 f t2 hr3 r3 t3 t4)
    from create_device_loop_frame [OF render_target(1)]
    have loop: "filter is_D3D11CreateDevice t1 = t1" and hwnd: "m_hWnd r1 = m_hWnd r"
      by simp_all
    from only_device_calls(4) [OF loop] obtain_factory_queries [OF render_target(3)]
      create_render_target_no_factory2_query [OF render_target(7)]
      render_target(8) assms(2)
    have "Ev_QueryInterface dev IID_ID3D11Device1 \<in> set t3" by simp
    moreover from render_target(8)
    have "t = (Ev_GetClientRect (m_hWnd r) # t1 @ t2) @ t3 @ t4" by simp
    ultimately show ?thesis using render_target(5) hwnd by blast
  qed
  then obtain t12 t4 r1 fp hr3 r3 t3 where
    t: "t = (Ev_GetClientRect (m_hWnd r) # t12) @ t3 @ t4"
    and sc: "create_swap_chain p r1 ?w ?h fp = Some (hr3, r3, t3)"
    and hwnd: "m_hWnd r1 = m_hWnd r"
    and q: "Ev_QueryInterface dev IID_ID3D11Device1 \<in> set t3"
    by blast
  from create_swap_chain_upgrade_then_creation [OF sc q] hwnd obtain pre mid post f2 where
    t3: "t3 = pre @ Ev_QueryInterface dev IID_ID3D11Device1 # mid
                @ Ev_CreateSwapChainForHwnd f2 (Some dev) (m_hWnd r)
                    (swap_chain_desc1 ?w ?h) # post"
    and mid: "if SUCCEEDED (fst (QueryInterface p dev IID_ID3D11Device1))
              then \<exists>ctx. mid = [Ev_QueryInterface ctx IID_ID3D11DeviceContext1] else mid = []"
    by auto
  from t t3 have
    "t = ((Ev_GetClientRect (m_hWnd r) # t12) @ pre) @ Ev_QueryInterface dev IID_ID3D11Device1
           # mid @ Ev_CreateSwapChainForHwnd f2 (Some dev) (m_hWnd r) (swap_chain_desc1 ?w ?h)
           # (post @ t4)"
    by simp
  with mid show ?thesis by blast
qed

text \<open>
  Claim C6. The answers of the platform to the two upgrade queries (\<^verbatim>\<open>ID3D11Device1\<close> on
  the device, \<^verbatim>\<open>ID3D11DeviceContext1\<close> on the immediate context) do not reach the result
  of \<^verbatim>\<open>InitDevice\<close>. Take a run on a platform \<open>p\<close> that returns \<open>hr\<close>, and replace
  the answers to these two queries by any answers \<open>q\<close>, in particular by failures (the
  hypothesis only asks that \<open>q\<close> answers no success for the device where \<open>p\<close> answered a
  failure, since the context is queried, hence dereferenced, only after a success): the
  run on the changed platform returns the same \<open>hr\<close>, the same members but for the two
  upgraded ones, and makes the same platform calls but for the upgrade queries. Moreover
  a run that has made the device query has next made the context query when, and only
  when, the device query succeeded, and directly after that the call of
  \<^verbatim>\<open>CreateSwapChainForHwnd\<close>.
\<close>

theorem InitDevice_upgrade_best_effort:
  assumes "InitDevice dbg p r = Some (hr, r', t)"
      and "\<forall>h. SUCCEEDED (fst (q h IID_ID3D11Device1))
                 \<longrightarrow> SUCCEEDED (fst (QueryInterface p h IID_ID3D11Device1))"
  shows "(\<exists>r2 t2.
            InitDevice dbg (with_upgrade_answers q p) r = Some (hr, r2, t2) \<and>
            r2\<lparr>m_pDevice1 := m_pDevice1 r', m_pImmediateContext1 := m_pImmediateContext1 r'\<rparr>
              = r' \<and>
            filter (\<lambda>e. \<not> is_upgrade_query e) t2 = filter (\<lambda>e. \<not> is_upgrade_query e) t) \<and>
         (\<forall>dev. Ev_QueryInterface dev IID_ID3D11Device1 \<in> set t \<longrightarrow>
            (\<exists>pre mid post f2.
               t = pre @ Ev_QueryInterface dev IID_ID3D11Device1 # mid
                     @ Ev_CreateSwapChainForHwnd f2 (Some dev) (m_hWnd r)
                         (swap_chain_desc1 (client_width p (m_hWnd r))
                            (client_height p (m_hWnd r))) # post \<and>
               (if SUCCEEDED (fst (QueryInterface p dev IID_ID3D11Device1))
                then \<exists>ctx. mid = [Ev_QueryInterface ctx IID_ID3D11DeviceContext1]
                else mid = [])))"
proof (intro conjI allI impI)
  from InitDevice_upgrade_answers [where q = q, OF assms]
  show "\<exists>r2 t2.
          InitDevice dbg (with_upgrade_answers q p) r = Some (hr, r2, t2) \<and>
          r2\<lparr>m_pDevice1 := m_pDevice1 r', m_pImmediateContext1 := m_pImmediateContext1 r'\<rparr>
            = r' \<and>
          filter (\<lambda>e. \<not> is_upgrade_query e) t2 = filter (\<lambda>e. \<not> is_upgrade_query e) t"
    unfolding same_but_v1_def .
next
  fix dev
  assume "Ev_QueryInterface dev IID_ID3D11Device1 \<in> set t"
  with assms(1) show
    "\<exists>pre mid post f2.
       t = pre @ Ev_QueryInterface dev IID_ID3D11Device1 # mid
             @ Ev_CreateSwapChainForHwnd f2 (Some dev) (m_hWnd r)
                 (swap_chain_desc1 (client_width p (m_hWnd r))
                    (client_height p (m_hWnd r))) # post \<and>
       (if SUCCEEDED (fst (QueryInterface p dev IID_ID3D11Device1))
        then \<exists>ctx. mid = [Ev_QueryInterface ctx IID_ID3D11DeviceContext1]
        else mid = [])"
    by (rule InitDevice_upgrade_then_creation)
qed

lemma InitDevice_host_no_upgrade:
  "InitDevice False (with_upgrade_answers no_upgrade host_d3d11_1) fresh_renderer
     = Some (S_OK, bundle_no_upgrade, trace_no_upgrade)"
  by (simp add: run_simps with_upgrade_answers_def no_upgrade_def host_d3d11_1_def
        bundle_no_upgrade_def trace_no_upgrade_def)

theorem InitDevice_upgrade_best_effort_witness:
  "InitDevice False host_d3d11_1 fresh_renderer = Some (S_OK, bundle_d3d11_1, trace_d3d11_1) \<and>
   SUCCEEDED (fst (QueryInterface host_d3d11_1 1 IID_ID3D11Device1)) \<and>
   (\<forall>h. FAILED (fst (no_upgrade h IID_ID3D11Device1))) \<and>
   InitDevice False (with_upgrade_answers no_upgrade host_d3d11_1) fresh_renderer
     = Some (S_OK, bundle_no_upgrade, trace_no_upgrade) \<and>
   bundle_no_upgrade\<lparr>m_pDevice1 := Some 21, m_pImmediateContext1 := Some 22\<rparr>
     = bundle_d3d11_1 \<and>
   filter (\<lambda>e. \<not> is_upgrade_query e) trace_no_upgrade
     = filter (\<lambda>e. \<not> is_upgrade_query e) trace_d3d11_1 \<and>
   Ev_QueryInterface 1 IID_ID3D11Device1 \<in> set trace_d3d11_1 \<and>
   (\<exists>pre ctx f2 post.
      trace_d3d11_1
        = pre @ Ev_QueryInterface 1 IID_ID3D11Device1
            # [Ev_QueryInterface ctx IID_ID3D11DeviceContext1]
            @ Ev_CreateSwapChainForHwnd f2 (Some 1) 7 (swap_chain_desc1 1280 720) # post)"
proof -
  have ok: "SUCCEEDED (fst (QueryInterface host_d3d11_1 1 IID_ID3D11Device1))"
    by (simp add: host_d3d11_1_def SUCCEEDED_def S_OK_def)
  have failing: "\<forall>h. FAILED (fst (no_upgrade h IID_ID3D11Device1))"
    by (simp add: no_upgrade_def FAILED_def E_NOINTERFACE_def)
  then have weaker:
    "\<forall>h. SUCCEEDED (fst (no_upgrade h IID_ID3D11Device1))
           \<longrightarrow> SUCCEEDED (fst (QueryInterface host_d3d11_1 h IID_ID3D11Device1))"
    by (simp add: not_SUCCEEDED_iff [symmetric])
  have hwnd: "m_hWnd fresh_renderer = 7" by (simp add: fresh_renderer_def)
  have members: "m_pDevice1 bundle_d3d11_1 = Some 21"
    "m_pImmediateContext1 bundle_d3d11_1 = Some 22"
    by (simp_all add: bundle_d3d11_1_def)
  have queried: "Ev_QueryInterface 1 IID_ID3D11Device1 \<in> set trace_d3d11_1"
    by (simp add: trace_d3d11_1_def)
  note best_effort =
    InitDevice_upgrade_best_effort [where q = no_upgrade, OF InitDevice_host_d3d11_1 weaker]
  from best_effort InitDevice_host_no_upgrade members
  have same: "bundle_no_upgrade\<lparr>m_pDevice1 := Some 21, m_pImmediateContext1 := Some 22\<rparr>
                = bundle_d3d11_1"
    and calls: "filter (\<lambda>e. \<not> is_upgrade_query e) trace_no_upgrade
                  = filter (\<lambda>e. \<not> is_upgrade_query e) trace_d3d11_1"
    by auto
  from best_effort queried obtain pre mid post f2 where
    t: "trace_d3d11_1
          = pre @ Ev_QueryInterface 1 IID_ID3D11Device1 # mid
              @ Ev_CreateSwapChainForHwnd f2 (Some 1) (m_hWnd fresh_renderer)
                  (swap_chain_desc1 (client_width host_d3d11_1 (m_hWnd fresh_renderer))
                     (client_height host_d3d11_1 (m_hWnd fresh_renderer))) # post"
    and mid: "if SUCCEEDED (fst (QueryInterface host_d3d11_1 1 IID_ID3D11Device1))
              then \<exists>ctx. mid = [Ev_QueryInterface ctx IID_ID3D11DeviceContext1]
              else mid = []"
    by blast
  from mid ok obtain ctx where "mid = [Ev_QueryInterface ctx IID_ID3D11DeviceContext1]"
    by auto
  with t have
    "trace_d3d11_1
       = pre @ Ev_QueryInterface 1 IID_ID3D11Device1
           # [Ev_QueryInterface ctx IID_ID3D11DeviceContext1]
           @ Ev_CreateSwapChainForHwnd f2 (Some 1) 7 (swap_chain_desc1 1280 720) # post"
    by (simp only: hwnd client_size_hosts(1,2))
  then have
    "\<exists>pre ctx f2 post.
       trace_d3d11_1
         = pre @ Ev_QueryInterface 1 IID_ID3D11Device1
             # [Ev_QueryInterface ctx IID_ID3D11DeviceContext1]
             @ Ev_CreateSwapChainForHwnd f2 (Some 1) 7 (swap_chain_desc1 1280 720) # post"
    by blast
  with InitDevice_host_d3d11_1 ok failing InitDevice_host_no_upgrade same calls queried
  show ?thesis by blast
qed

end
